theory Spec2Isabelle
  imports Main "HOL-Library.Word"
begin

unbundle bit_operations_syntax

section \<open>Data model\<close>

type_synonym u64 = "64 word"

text \<open>The generator state \<open>uint64_t s[4]\<close> of class \<open>xoshiro256ss\<close>.\<close>

record xstate =
  s0 :: u64
  s1 :: u64
  s2 :: u64
  s3 :: u64

text \<open>The dynamic type of a generator object: \<open>xoshiro256ss\<close>, or its subclass
  \<open>xoshiro256p\<close> that overrides the virtual \<open>operator()\<close>.\<close>

datatype variant = SS | P

section \<open>rotl and splitmix64\<close>

text \<open>\<open>rotl(x, k) = (x << k) | (x >> (64 - k))\<close>; the source calls it with
  \<open>k = 7\<close> and \<open>k = 45\<close> only.\<close>

definition rotl :: "u64 \<Rightarrow> nat \<Rightarrow> u64" where
  "rotl x k = push_bit k x OR drop_bit (64 - k) x"

text \<open>\<open>splitmix64::operator()\<close>: the returned value and the updated member \<open>x\<close>.\<close>

definition splitmix64_call :: "u64 \<Rightarrow> u64 \<times> u64" where
  "splitmix64_call x =
     (let x = x + 0x9e3779b97f4a7c15;
          z = x;
          z = (z XOR drop_bit 30 z) * 0xbf58476d1ce4e5b9;
          z = (z XOR drop_bit 27 z) * 0x94d049bb133111eb
      in (z XOR drop_bit 31 z, x))"

section \<open>The two output calls\<close>

text \<open>\<open>xoshiro256ss::operator()\<close>: the returned value and the state it leaves.\<close>

definition xoshiro256ss_call :: "xstate \<Rightarrow> u64 \<times> xstate" where
  "xoshiro256ss_call st =
     (let result = rotl (s1 st * 5) 7 * 9;
          t = push_bit 17 (s1 st);
          st = st\<lparr>s2 := s2 st XOR s0 st\<rparr>;
          st = st\<lparr>s3 := s3 st XOR s1 st\<rparr>;
          st = st\<lparr>s1 := s1 st XOR s2 st\<rparr>;
          st = st\<lparr>s0 := s0 st XOR s3 st\<rparr>;
          st = st\<lparr>s2 := s2 st XOR t\<rparr>;
          st = st\<lparr>s3 := rotl (s3 st) 45\<rparr>
      in (result, st))"

text \<open>\<open>xoshiro256p::operator()\<close>.\<close>

definition xoshiro256p_call :: "xstate \<Rightarrow> u64 \<times> xstate" where
  "xoshiro256p_call st =
     (let result = s0 st + s3 st;
          t = push_bit 17 (s1 st);
          st = st\<lparr>s2 := s2 st XOR s0 st\<rparr>;
          st = st\<lparr>s3 := s3 st XOR s1 st\<rparr>;
          st = st\<lparr>s1 := s1 st XOR s2 st\<rparr>;
          st = st\<lparr>s0 := s0 st XOR s3 st\<rparr>;
          st = st\<lparr>s2 := s2 st XOR t\<rparr>;
          st = st\<lparr>s3 := rotl (s3 st) 45\<rparr>
      in (result, st))"

text \<open>The virtual call \<open>(*this)()\<close>, resolved on the dynamic type of the object.\<close>

fun call :: "variant \<Rightarrow> xstate \<Rightarrow> u64 \<times> xstate" where
  "call SS st = xoshiro256ss_call st"
| "call P st = xoshiro256p_call st"

text \<open>The state left by one raw output call; the returned value is discarded.\<close>

definition advance :: "variant \<Rightarrow> xstate \<Rightarrow> xstate" where
  "advance v st = snd (call v st)"

definition zero_state :: xstate where
  "zero_state = \<lparr>s0 = 0, s1 = 0, s2 = 0, s3 = 0\<rparr>"

section \<open>jump and long\_jump\<close>

definition JUMP :: "u64 list" where
  "JUMP = [0x180ec6d33cfd0aba, 0xd5a61266f0c9392c, 0xa9582618e03fc9aa, 0x39abdc4529b1661c]"

definition LONG_JUMP :: "u64 list" where
  "LONG_JUMP = [0x76e15d3efefdcbbf, 0xc5004e441c522fb3, 0x77710069854ee241, 0x39109bb02acbe635]"

text \<open>\<open>xoshiro256ss::jump\<close>. The loop state is the pair of the four locals
  \<open>s0 .. s3\<close> (kept in a record of their own) and the member array \<open>s\<close>;
  \<open>(*this)()\<close> is the virtual call.\<close>

definition jump :: "variant \<Rightarrow> xstate \<Rightarrow> xstate" where
  "jump v st =
     (let (loc, st) =
        fold (\<lambda>i. fold (\<lambda>b (loc, st).
                 (if JUMP ! i AND push_bit b 1 \<noteq> 0
                  then \<lparr>s0 = s0 loc XOR s0 st, s1 = s1 loc XOR s1 st,
                        s2 = s2 loc XOR s2 st, s3 = s3 loc XOR s3 st\<rparr>
                  else loc,
                  snd (call v st))) [0..<64]) [0..<4]
          (\<lparr>s0 = 0, s1 = 0, s2 = 0, s3 = 0\<rparr>, st)
      in st\<lparr>s0 := s0 loc, s1 := s1 loc, s2 := s2 loc, s3 := s3 loc\<rparr>)"

text \<open>\<open>xoshiro256ss::long_jump\<close>.\<close>

definition long_jump :: "variant \<Rightarrow> xstate \<Rightarrow> xstate" where
  "long_jump v st =
     (let (loc, st) =
        fold (\<lambda>i. fold (\<lambda>b (loc, st).
                 (if LONG_JUMP ! i AND push_bit b 1 \<noteq> 0
                  then \<lparr>s0 = s0 loc XOR s0 st, s1 = s1 loc XOR s1 st,
                        s2 = s2 loc XOR s2 st, s3 = s3 loc XOR s3 st\<rparr>
                  else loc,
                  snd (call v st))) [0..<64]) [0..<4]
          (\<lparr>s0 = 0, s1 = 0, s2 = 0, s3 = 0\<rparr>, st)
      in st\<lparr>s0 := s0 loc, s1 := s1 loc, s2 := s2 loc, s3 := s3 loc\<rparr>)"

section \<open>uniform\<close>

text \<open>The rejection loop of \<open>xoshiro256ss::uniform\<close>: \<open>n\<close> is the last value
  drawn, and the loop draws again while \<open>n\<close> is \<open>0\<close> or the largest \<open>uint64_t\<close>.
  The loop need not end, so the model is partial: \<open>None\<close> stands for a run that never
  returns.\<close>

partial_function (option) uniform_loop :: "variant \<Rightarrow> u64 \<times> xstate \<Rightarrow> (u64 \<times> xstate) option" where
  "uniform_loop v ns =
     (if fst ns = 0 \<or> fst ns = - 1 then uniform_loop v (call v (snd ns)) else Some ns)"

declare uniform_loop.simps [code]

definition uniform_draw :: "variant \<Rightarrow> xstate \<Rightarrow> (u64 \<times> xstate) option" where
  "uniform_draw v st = uniform_loop v (call v st)"

text \<open>The arithmetic on \<open>double\<close> is not interpreted: the operations the return
  expression uses are parameters.\<close>

record 'd double_ops =
  of_u64 :: "u64 \<Rightarrow> 'd"
  dadd :: "'d \<Rightarrow> 'd \<Rightarrow> 'd"
  dsub :: "'d \<Rightarrow> 'd \<Rightarrow> 'd"
  dmul :: "'d \<Rightarrow> 'd \<Rightarrow> 'd"
  ddiv :: "'d \<Rightarrow> 'd \<Rightarrow> 'd"

text \<open>\<open>low + (high-low)*n/((double)std::numeric_limits<uint64_t>::max())\<close>\<close>

definition uniform_value :: "'d double_ops \<Rightarrow> 'd \<Rightarrow> 'd \<Rightarrow> u64 \<Rightarrow> 'd" where
  "uniform_value ops low high n =
     dadd ops low (ddiv ops (dmul ops (dsub ops high low) (of_u64 ops n)) (of_u64 ops (- 1)))"

definition uniform :: "'d double_ops \<Rightarrow> variant \<Rightarrow> 'd \<Rightarrow> 'd \<Rightarrow> xstate \<Rightarrow> ('d \<times> xstate) option" where
  "uniform ops v low high st =
     map_option (\<lambda>(n, st). (uniform_value ops low high n, st)) (uniform_draw v st)"

text \<open>The conversion of a \<open>uint64_t\<close> to \<open>double\<close>, which the return expression
  applies to \<open>n\<close> and to \<open>std::numeric_limits<uint64_t>::max()\<close>: IEEE 754 binary64 with
  round to nearest, ties to even. The significand has 53 bits, so an integer of bit length
  \<open>l > 53\<close> is rounded to a multiple of \<open>2^(l - 53)\<close>. The result is the value of the
  \<open>double\<close>, an integer of at most \<open>2^64\<close>.\<close>

fun bit_length :: "nat \<Rightarrow> nat" where
  "bit_length n = (if n = 0 then 0 else Suc (bit_length (n div 2)))"

declare bit_length.simps [simp del]

definition double_of_u64 :: "u64 \<Rightarrow> nat" where
  "double_of_u64 n =
     (let m = unat n; e = bit_length m - 53; q = m div 2 ^ e; r = m mod 2 ^ e in
      if 2 ^ e < 2 * r \<or> (2 * r = 2 ^ e \<and> odd q) then (q + 1) * 2 ^ e else q * 2 ^ e)"

section \<open>UI64T2String\<close>

text \<open>What \<open>ostrm << n\<close> writes for an unsigned integer: its decimal digits.\<close>

fun decimal :: "nat \<Rightarrow> string" where
  "decimal n = (if n < 10 then [char_of (48 + n)] else decimal (n div 10) @ [char_of (48 + n mod 10)])"

declare decimal.simps [simp del]

text \<open>The loop state is \<open>(copy, result)\<close>; the stream is emptied at the end of each
  round, so it holds one number when it is read.\<close>

definition UI64T2String :: "u64 \<Rightarrow> string" where
  "UI64T2String input =
     snd (fold (\<lambda>i (copy, result). (drop_bit 1 copy, decimal (unat (copy AND 1)) @ result))
            [0..<64] (input, []))"

section \<open>The specification's arithmetic, on natural numbers\<close>

text \<open>The specification describes the operations as arithmetic modulo \<open>2^64\<close>.
  The following definitions follow its words on \<open>nat\<close>, with the wrap-around written
  out; the theorems below compare them with the definitions taken from the source.\<close>

definition spec_rotate_left :: "nat \<Rightarrow> nat \<Rightarrow> nat" where
  "spec_rotate_left x k = (x * 2 ^ k) mod 2 ^ 64 OR x div 2 ^ (64 - k)"

definition spec_transition :: "nat \<times> nat \<times> nat \<times> nat \<Rightarrow> nat \<times> nat \<times> nat \<times> nat" where
  "spec_transition s =
     (case s of (a, b, c, d) \<Rightarrow>
        let t = (b * 2 ^ 17) mod 2 ^ 64;
            c = c XOR a;
            d = d XOR b;
            b = b XOR c;
            a = a XOR d;
            c = c XOR t;
            d = spec_rotate_left d 45
        in (a, b, c, d))"

definition words :: "xstate \<Rightarrow> nat \<times> nat \<times> nat \<times> nat" where
  "words st = (unat (s0 st), unat (s1 st), unat (s2 st), unat (s3 st))"

definition spec_splitmix :: "nat \<Rightarrow> nat \<times> nat" where
  "spec_splitmix x =
     (let x = (x + 0x9e3779b97f4a7c15) mod 2 ^ 64;
          z = x;
          z = ((z XOR z div 2 ^ 30) * 0xbf58476d1ce4e5b9) mod 2 ^ 64;
          z = ((z XOR z div 2 ^ 27) * 0x94d049bb133111eb) mod 2 ^ 64
      in (z XOR z div 2 ^ 31, x))"

section \<open>The jump algorithm in the specification's words\<close>

definition xor_state :: "xstate \<Rightarrow> xstate \<Rightarrow> xstate" where
  "xor_state a b =
     \<lparr>s0 = s0 a XOR s0 b, s1 = s1 a XOR s1 b, s2 = s2 a XOR s2 b, s3 = s3 a XOR s3 b\<rparr>"

text \<open>The 256 bits of the four constants, from the first constant's least significant
  bit.\<close>

definition table_bits :: "u64 list \<Rightarrow> bool list" where
  "table_bits tbl = concat (map (\<lambda>c. map (bit c) [0..<64]) tbl)"

text \<open>An accumulator that starts at zero; for each bit in order, the accumulator takes
  the current state when the bit is set, and the state advances by one discarded output
  call in any case; the accumulator is the new state.\<close>

definition spec_jump :: "variant \<Rightarrow> u64 list \<Rightarrow> xstate \<Rightarrow> xstate" where
  "spec_jump v tbl st =
     fst (foldl (\<lambda>(acc, st) b. (if b then xor_state acc st else acc, advance v st))
            (zero_state, st) (table_bits tbl))"

section \<open>Sequences of operations on one generator\<close>

datatype operation = Call | Jump | Long_Jump

fun apply_operation :: "variant \<Rightarrow> operation \<Rightarrow> xstate \<Rightarrow> xstate" where
  "apply_operation v Call st = advance v st"
| "apply_operation v Jump st = jump v st"
| "apply_operation v Long_Jump st = long_jump v st"

definition run :: "variant \<Rightarrow> operation list \<Rightarrow> xstate \<Rightarrow> xstate" where
  "run v ops st = fold (apply_operation v) ops st"

section \<open>The draws of uniform\<close>

text \<open>The \<open>k\<close>-th raw output call from a state: its value and the state it leaves.\<close>

definition nth_call :: "variant \<Rightarrow> xstate \<Rightarrow> nat \<Rightarrow> u64 \<times> xstate" where
  "nth_call v st k = call v ((advance v ^^ k) st)"

definition rejected :: "u64 \<Rightarrow> bool" where
  "rejected n = (n = 0 \<or> n = - 1)"

text \<open>Uninterpreted \<open>double\<close> expressions, to show the shape of the value returned.\<close>

datatype dexpr = Const string | Cast u64 | Add dexpr dexpr | Sub dexpr dexpr
  | Mul dexpr dexpr | Div dexpr dexpr

definition symbolic_ops :: "dexpr double_ops" where
  "symbolic_ops = \<lparr>of_u64 = Cast, dadd = Add, dsub = Sub, dmul = Mul, ddiv = Div\<rparr>"

section \<open>Reading a binary string\<close>

fun parse_binary_from :: "nat \<Rightarrow> string \<Rightarrow> nat option" where
  "parse_binary_from acc [] = Some acc"
| "parse_binary_from acc (c # cs) =
     (if c = CHR ''0'' then parse_binary_from (2 * acc) cs
      else if c = CHR ''1'' then parse_binary_from (2 * acc + 1) cs
      else None)"

definition parse_binary :: "string \<Rightarrow> nat option" where
  "parse_binary s = parse_binary_from 0 s"

definition bit_char :: "bool \<Rightarrow> char" where
  "bit_char b = (if b then CHR ''1'' else CHR ''0'')"

section \<open>The transition as a linear map on 256-bit vectors\<close>

text \<open>Both calls update the state in the same way; \<open>transition\<close> names that update.\<close>

definition transition :: "xstate \<Rightarrow> xstate" where
  "transition st = snd (xoshiro256ss_call st)"

text \<open>A polynomial over GF(2) is the list of its coefficients, the constant one first.
  \<open>poly_apply p s\<close> is the xor of the states \<open>transition^i s\<close> over the coefficients
  \<open>i\<close> of \<open>p\<close> that are set: the polynomial applied to the transition, at \<open>s\<close>.\<close>

fun poly_apply :: "bool list \<Rightarrow> xstate \<Rightarrow> xstate" where
  "poly_apply [] s = zero_state"
| "poly_apply (b # p) s = xor_state (if b then s else zero_state) (poly_apply p (transition s))"

text \<open>The same with \<open>transition^(2i)\<close>: the square of the polynomial, applied.\<close>

fun sq_apply :: "bool list \<Rightarrow> xstate \<Rightarrow> xstate" where
  "sq_apply [] s = zero_state"
| "sq_apply (b # p) s =
     xor_state (if b then s else zero_state) (sq_apply p (transition (transition s)))"

fun select_sum :: "bool list \<Rightarrow> xstate list \<Rightarrow> xstate" where
  "select_sum (b # bs) (s # ss) = xor_state (if b then s else zero_state) (select_sum bs ss)"
| "select_sum bs ss = zero_state"

subsection \<open>Bit vectors\<close>

fun bxor :: "bool list \<Rightarrow> bool list \<Rightarrow> bool list" where
  "bxor [] ys = ys"
| "bxor xs [] = xs"
| "bxor (x # xs) (y # ys) = (x \<noteq> y) # bxor xs ys"

definition bit_at :: "bool list \<Rightarrow> nat \<Rightarrow> bool" where
  "bit_at l i = (i < length l \<and> l ! i)"

fun word_of_bits :: "bool list \<Rightarrow> u64" where
  "word_of_bits [] = 0"
| "word_of_bits (b # l) = of_bool b OR push_bit 1 (word_of_bits l)"

text \<open>A state as 256 bits: the words \<open>s0 .. s3\<close> in this order, each from its least
  significant bit.\<close>

definition state_of_bits :: "bool list \<Rightarrow> xstate" where
  "state_of_bits l = \<lparr>s0 = word_of_bits l, s1 = word_of_bits (drop 64 l),
     s2 = word_of_bits (drop 128 l), s3 = word_of_bits (drop 192 l)\<rparr>"

definition bits_of_state :: "xstate \<Rightarrow> bool list" where
  "bits_of_state st = map (bit (s0 st)) [0..<64] @ map (bit (s1 st)) [0..<64]
     @ map (bit (s2 st)) [0..<64] @ map (bit (s3 st)) [0..<64]"

subsection \<open>Bit vectors written as binary numerals\<close>

text \<open>A value of type \<open>num\<close> is read as a bit vector: the digits from the least
  significant one, without the leading \<open>1\<close>, which only marks the end. So a vector of
  256 bits is written as a numeral between \<open>2^256\<close> and \<open>2^257\<close>.\<close>

fun dec :: "num \<Rightarrow> bool list" where
  "dec num.One = []"
| "dec (num.Bit0 n) = False # dec n"
| "dec (num.Bit1 n) = True # dec n"

fun num_xor :: "num \<Rightarrow> num \<Rightarrow> num" where
  "num_xor num.One n = n"
| "num_xor (num.Bit0 m) num.One = num.Bit0 m"
| "num_xor (num.Bit1 m) num.One = num.Bit1 m"
| "num_xor (num.Bit0 m) (num.Bit0 n) = num.Bit0 (num_xor m n)"
| "num_xor (num.Bit0 m) (num.Bit1 n) = num.Bit1 (num_xor m n)"
| "num_xor (num.Bit1 m) (num.Bit0 n) = num.Bit1 (num_xor m n)"
| "num_xor (num.Bit1 m) (num.Bit1 n) = num.Bit0 (num_xor m n)"

text \<open>The xor of \<open>acc\<close> and the entries of a table that the bits of \<open>c\<close> select.\<close>

fun select_xor :: "num \<Rightarrow> num list \<Rightarrow> num \<Rightarrow> num" where
  "select_xor num.One ks acc = acc"
| "select_xor (num.Bit0 c) (k # ks) acc = select_xor c ks acc"
| "select_xor (num.Bit1 c) (k # ks) acc = select_xor c ks (num_xor k acc)"
| "select_xor c [] acc = acc"

text \<open>\<open>chain_to f a l b\<close>: the list \<open>l\<close> is \<open>f a, f (f a), ...\<close> and \<open>b\<close> is the last
  value reached.\<close>

fun chain_to :: "('a \<Rightarrow> 'a) \<Rightarrow> 'a \<Rightarrow> 'a list \<Rightarrow> 'a \<Rightarrow> bool" where
  "chain_to f a [] b = (a = b)"
| "chain_to f a (x # r) b = (f a = x \<and> chain_to f x r b)"

fun all_zero :: "num \<Rightarrow> bool" where
  "all_zero num.One = True"
| "all_zero (num.Bit0 n) = all_zero n"
| "all_zero (num.Bit1 n) = False"

text \<open>\<open>is_unit j n\<close>: bit \<open>j\<close> is the only bit of \<open>n\<close> that is set.\<close>

fun is_unit :: "nat \<Rightarrow> num \<Rightarrow> bool" where
  "is_unit j num.One = False"
| "is_unit 0 (num.Bit0 n) = False"
| "is_unit (Suc j) (num.Bit0 n) = is_unit j n"
| "is_unit 0 (num.Bit1 n) = all_zero n"
| "is_unit (Suc j) (num.Bit1 n) = False"

text \<open>Row \<open>j\<close> of a certificate: the entries of the table that \<open>c\<close> selects add up
  to the unit vector \<open>j\<close>.\<close>

fun cert_check :: "num list \<Rightarrow> num \<Rightarrow> nat \<Rightarrow> num list \<Rightarrow> bool" where
  "cert_check tab z j [] = True"
| "cert_check tab z j (c # cs) = (is_unit j (select_xor c tab z) \<and> cert_check tab z (Suc j) cs)"

text \<open>Taking, dropping and appending bits; the first argument of \<open>ntake\<close> and
  \<open>ndrop\<close> is a vector whose length is the number of bits meant.\<close>

fun ntake :: "num \<Rightarrow> num \<Rightarrow> num" where
  "ntake num.One n = num.One"
| "ntake (num.Bit0 r) num.One = num.Bit0 (ntake r num.One)"
| "ntake (num.Bit0 r) (num.Bit0 n) = num.Bit0 (ntake r n)"
| "ntake (num.Bit0 r) (num.Bit1 n) = num.Bit1 (ntake r n)"
| "ntake (num.Bit1 r) num.One = num.Bit0 (ntake r num.One)"
| "ntake (num.Bit1 r) (num.Bit0 n) = num.Bit0 (ntake r n)"
| "ntake (num.Bit1 r) (num.Bit1 n) = num.Bit1 (ntake r n)"

fun ndrop :: "num \<Rightarrow> num \<Rightarrow> num" where
  "ndrop num.One n = n"
| "ndrop (num.Bit0 r) num.One = num.One"
| "ndrop (num.Bit0 r) (num.Bit0 n) = ndrop r n"
| "ndrop (num.Bit0 r) (num.Bit1 n) = ndrop r n"
| "ndrop (num.Bit1 r) num.One = num.One"
| "ndrop (num.Bit1 r) (num.Bit0 n) = ndrop r n"
| "ndrop (num.Bit1 r) (num.Bit1 n) = ndrop r n"

fun napp :: "num \<Rightarrow> num \<Rightarrow> num" where
  "napp num.One n = n"
| "napp (num.Bit0 m) n = num.Bit0 (napp m n)"
| "napp (num.Bit1 m) n = num.Bit1 (napp m n)"

fun top_bit :: "num \<Rightarrow> bool" where
  "top_bit num.One = False"
| "top_bit (num.Bit0 num.One) = False"
| "top_bit (num.Bit1 num.One) = True"
| "top_bit (num.Bit0 n) = top_bit n"
| "top_bit (num.Bit1 n) = top_bit n"

fun drop_top :: "num \<Rightarrow> num" where
  "drop_top num.One = num.One"
| "drop_top (num.Bit0 num.One) = num.One"
| "drop_top (num.Bit1 num.One) = num.One"
| "drop_top (num.Bit0 n) = num.Bit0 (drop_top n)"
| "drop_top (num.Bit1 n) = num.Bit1 (drop_top n)"

definition ruler17 :: num where "ruler17 = num_of_nat 0x20000"
definition ruler19 :: num where "ruler19 = num_of_nat 0x80000"
definition ruler47 :: num where "ruler47 = num_of_nat 0x800000000000"
definition ruler64 :: num where "ruler64 = num_of_nat 0x10000000000000000"

text \<open>The transition on a state written as 256 bits. \<open>a b c d\<close> are the four words,
  \<open>e\<close> is \<open>d xor b\<close>; a shift left by 17 puts 17 zeros below the low 47 bits, and a
  rotation left by 45 puts the high 19 bits below the low 45.\<close>

definition tstep4 :: "num \<Rightarrow> num \<Rightarrow> num \<Rightarrow> num \<Rightarrow> num \<Rightarrow> num" where
  "tstep4 a b c d e =
     napp (num_xor (num_xor a d) b) (napp (num_xor (num_xor b c) a)
       (napp (num_xor (num_xor c a) (napp ruler17 (ntake ruler47 b)))
          (napp (ndrop ruler19 e) (ntake ruler19 e))))"

definition tstep3 :: "num \<Rightarrow> num \<Rightarrow> num \<Rightarrow> num \<Rightarrow> num" where
  "tstep3 a b c d = tstep4 a b c d (num_xor d b)"

definition tstep2 :: "num \<Rightarrow> num \<Rightarrow> num \<Rightarrow> num" where
  "tstep2 a b n = tstep3 a b (ntake ruler64 n) (ntake ruler64 (ndrop ruler64 n))"

definition tstep1 :: "num \<Rightarrow> num \<Rightarrow> num" where
  "tstep1 a n = tstep2 a (ntake ruler64 n) (ndrop ruler64 n)"

definition tstep_num :: "num \<Rightarrow> num" where
  "tstep_num n = tstep1 (ntake ruler64 n) (ndrop ruler64 n)"

text \<open>The xor of the table entries that \<open>r\<close> selects: with the table of the
  polynomials \<open>x^(2i)\<close> reduced, the square of \<open>r\<close> reduced.\<close>

definition poly_square_with :: "num list \<Rightarrow> num \<Rightarrow> num \<Rightarrow> num" where
  "poly_square_with tab z r = select_xor r tab z"

section \<open>Tables\<close>

text \<open>The characteristic polynomial of the transition (with and without its leading
  coefficient), the states \<open>transition^i (1,0,0,0)\<close> for \<open>i \<le> 256\<close>, the
  polynomials \<open>x^(2i)\<close> reduced modulo the characteristic polynomial, for each unit
  vector the combination of those states that gives it, and the powers \<open>x^(2^k)\<close>
  reduced, for \<open>k \<le> 192\<close>. They are checked below, not trusted.\<close>

definition charpoly :: num where
  "charpoly = num_of_nat 0x30003c03c3f3ecb1904b4edcf26259f850280002bcefd1a5e9d116f2bb0f0f001"

definition charpoly_low :: num where
  "charpoly_low = num_of_nat 0x10003c03c3f3ecb1904b4edcf26259f850280002bcefd1a5e9d116f2bb0f0f001"

definition zero_vec :: num where
  "zero_vec = num_of_nat 0x10000000000000000000000000000000000000000000000000000000000000000"

definition krylov_at_0 :: num where
  "krylov_at_0 = num_of_nat 0x10000000000000000000000000000000000000000000000000000000000000001"

definition krylov_at_32 :: num where
  "krylov_at_32 = num_of_nat 0x18c00dd25fba97ee83d16722d88cde3ff98a31540687f7fdfb434fecb30a76f15"

definition krylov_at_64 :: num where
  "krylov_at_64 = num_of_nat 0x17422df6c350a2d2b5ea4478e745908f0d96e7251986c58e7ead2c705c7f89ba6"

definition krylov_at_96 :: num where
  "krylov_at_96 = num_of_nat 0x1d3aad2280ff046d55831a790d6b7eba947f18fe357e401b64735b3b6ad2f517d"

definition krylov_at_128 :: num where
  "krylov_at_128 = num_of_nat 0x16ef435a2a182fdfb17f6ca2906c403f23bd5a14c1b4fb3ad773ec3c190d3331d"

definition krylov_at_160 :: num where
  "krylov_at_160 = num_of_nat 0x12a829092ec3f1a314fedcc872556644cae7a80fbbef14b4452e2cebebbaf1474"

definition krylov_at_192 :: num where
  "krylov_at_192 = num_of_nat 0x193a02e6389071f1466cc6a40e4f3a254e0f4e558d3a56a8479e9035644f414e3"

definition krylov_at_224 :: num where
  "krylov_at_224 = num_of_nat 0x1bd3e4b74cf28e06e30c4217fa2100b6bc66f0e91ec68ebaee458eb442050bc6f"

definition krylov_at_256 :: num where
  "krylov_at_256 = num_of_nat 0x1ae8a5672e0b84a2409d770d40e6ce3dca27edc5ac29edff1835b2a028e9cdc95"

definition krylov_tail_0 :: "num list" where
  "krylov_tail_0 = map num_of_nat
     [0x10000000000000000000000000000000100000000000000010000000000000001,
      0x10000200000000000000000000002000000000000000000010000000000000000,
      0x10000200004000000000000000000000000000000000200010000200000000001,
      0x14000200004000080000020040002000100002000000200000000000004020000,
      0x14010080000000080400020000400000100000004040200014000000000000080,
      0x14010280201008080000828040402008100002004000200800010080404020001,
      0x1500008020100c020401020040100008000180004000200004000000205008001,
      0x158040a030100c020001820020400808100082002040280811018080404024021,
      0x148142b01854020a0500420030100c0a010080804040040214814220501000080,
      0x10c102b038460b02808180a068042c02008180a02040080011008010080406001,
      0x1060520810420300c0c1403070000a02110080104040220201400200100205028,
      0x1420582c1a430a0041a1c2b024060f009081c22020422d029020d018400024004,
      0x14e05a943341874025c1522c3e030b00d100d0884444060244814a147a0103029,
      0x10284cbc11438ee0b05090b0480688024040c8b000460e000161c0080d048240f,
      0x101c160d10818220b051503459020a42b171980845440442b10944041c0102a04,
      0x10cc402db1c0aab8b1489eb84d8668e2f0298c3800470ca04064ca0149c484c24,
      0x14c31e1cb982b630f95c54371d026c20b105d8810405e080f0810614f84322dab,
      0x1ad600b8d8d3b7b0e8df5a282440aefa08d88aa2e144ae7af547c08945c4746ab,
      0x13394241d1434732e8dd58283d713a90b540100380c074ea47494a937c536da0a,
      0x167b14cf2a484a306f93133ba8f6d7301ad402b8c1e223da513018d12dd05e780,
      0x1d3d4795e2cefd754bd2882ec29229481477095244c4aa924d9f0ea6c67a37923,
      0x1afce12949d8f4c144e90f0151cc9eda223a8fda402cb44864d54061607060753,
      0x18112518cdde613e8f88cf39592c3eaf1206c0ba71904ae77c132e92698420fc1,
      0x157b3f42fcb45789c2ef028ba566fe53019d2111413854b47604cb30d5ca0b25e,
      0x1067b69cc3ca77b186c94bcbd9c41576e576e8aa3194a1c292e2d563684608185,
      0x1ace62a22bc6de4bd57ffd81f2073d6eb15d76028016bcac27f38b559a18de6b4,
      0x1c5cff726294157a0e8976f91147a305f3d100d6e8095fa9dc609ff531c8bc8cb,
      0x195a7bf1bff49153a344391e9fdcbf894138e9dac886402093ed6051bb55f65f6,
      0x1a2e670c52456eee531cc843a4c869d62191b095ec0f09f6bb8ff27acc27272c5,
      0x1ce31d77faf337c949b8e2277b022efa79028aac84e0470cc03025e3726d4034b,
      0x1e18b0bc32fb6fc26cd1ce048776eecec08a4d688d8f29c205d1b2380c7e30f13,
      0x18c00dd25fba97ee83d16722d88cde3ff98a31540687f7fdfb434fecb30a76f15]"

definition krylov_tail_1 :: "num list" where
  "krylov_tail_1 = map num_of_nat
     [0x1c026e294790cb27aa3a25c1847d48cea118199a6d015f335a09736aea3716e22,
      0x12829fa34ef6655233078ca9d02cfe2c812b4f31034b011fd71304d9c0a682f6d,
      0x1c89bc753a1249b7aa768ee612b5dcda553fc74113c17dc584bad44b8d1be6bb3,
      0x168e4536cf66853a604e7d2f64253a616bf39dec8c6f47a4ed0caf7fa4c8d2c91,
      0x1853d1afbb1b4861369bca8e4fa428a876b14fbc4c82af0c907177a5e7c110579,
      0x1cedb5dc53c27ef33992242ef67c18ffe05bf297e4e797f37e93e9b61058f73a3,
      0x1d200996c8e976e4b22e0457c9c20fc5d75a3f0f02c37836a225aefda77d1e3a7,
      0x11da434f46d339454e15af2c9ed251ffa75195a56c7c69c9085f98646d5710e86,
      0x1a1188d17add4555ed00efb020174117c11ba2ed9ff928deced44e8e47f840642,
      0x1db1656145479ca4860f9ecc36528173e2cf03d3f81629ad25de64b2a2dc2def0,
      0x16a135efccd657aa34760a52c7d4ec9ce11ef9ad6c988531caa002001f8d98e6a,
      0x1a537ef7f9885409dd8cd163d23af47a4fc8f1ffb4c1f14b8d1fce42bfc34a7d5,
      0x14a84ab371e109a9336c76a28f6ebe071f5beeded9384f4c9884414af28aef3f0,
      0x18dcb57e748db51b26558598e37d713814b3d936a4dc1e748377e5275a53a9daa,
      0x156df58ded891a0a374f290785c7d8e2b191b9891df2c6963f18896f8a0202b50,
      0x1b93809f89809e0f7b459b8d82e9ba57b9c619e112371cc18be4c56b7a79de290,
      0x1059de4ab32fd376f3637a88c113647eb9674707eaa778bf39b15c15e1ce5ce7f,
      0x15793927d329ab3114ddf3d3d1a3589943b5619aca7a4026708fc558b846f72e3,
      0x1d62ecd98b17a32a7767a27fe9a94fb777e75711a39fef9106439de5a1151c395,
      0x19976f50b77905110f0778a5979e538e26c3688beb23bc1f2cc6262d899d50822,
      0x1721c5ea80fb6b8b52d688cf663d430c05023603f520bf13239221f6d5c7e98c0,
      0x1a930e447e7d2ebb7d434378cddcea8004469f3a46da159321b1d21fa01c3d147,
      0x17650bdab22fc714e2861cd346e6979478b40e5d2b1ac2075f64436198bb063c2,
      0x10a277fa20b0f326a15809875a5331a8555651eff54753af00b546e6018e032f9,
      0x141134be84c2babef232a5effc833287c4bb1e8eae9a6128c54160f3d479a3a63,
      0x1b72c6154546054b1a6e9828eaab1121f3c8db928660f00935eb4ac3fe2178300,
      0x1ea8451743b0f864d8a0de2af4980911fc4d097992ea9918cd5157443d078d722,
      0x1c2f825ca98dda2b4702acbbfbae0463d9bc80175b751d7b1fb41b2aec5dec0e3,
      0x18ea0ab260497e5f1898017b2d05c86de10a37864c86f516fa2719611ea52b5e6,
      0x11693d3c07a68599fdb38117d98d033383b52f9c7f26162573c72455326aa0178,
      0x1277905b82540f10114c5b0ec7ad43240dc18ade94c1b501711b36f54aea33ab0,
      0x17422df6c350a2d2b5ea4478e745908f0d96e7251986c58e7ead2c705c7f89ba6]"

definition krylov_tail_2 :: "num list" where
  "krylov_tail_2 = map num_of_nat
     [0x1ceb995a995a7b5ac50d5b053026f93566d18f2da2bcdcbb1479e6a386a9eee6a,
      0x14fc3b4742cee77cdf2ff8df0ff937d3c7a5328b1433cb68de43f0d4bd4f49077,
      0x1582806b21398adfa47a206c2467ded4b6c93a80a685b5bc6d1af918ebb265137,
      0x17ec7869775d70f78c61947fa4ad7bc7cfa9e3f469500e7bae5143f36c0e5a70b,
      0x1fd18508b373a3c1a5d8052cd45461b77d993478a1f32fccd614d86e720324fc9,
      0x1181ae49162e02501b3d9ea4f9cee54bee55e93a07a46a87345c691e6083a8f1e,
      0x1d1ae5fa88ee62314d15f8f24c432dba01341e809ee9273d3b882e6d7109c026c,
      0x18a18f85df6f42c0eb9ceb4d73308d9cc7a9c81fa3a3caa1f7a6d517670e852ab,
      0x110c23e108f34f999c05791d817de8b67b93f645b79dc21788ae928d1bc20d4ba,
      0x11b1c353fab497edd82084ab1e90e5fddf381dd52d2227ea52314729a4ac80c5b,
      0x1600f1d13bd0daf2d1bb99c6f5e8c5386529de57971e42d23cb899af733a30c23,
      0x13041c6525f0d599d1ac2e55037695fa582ade3e11ccb7286f91b629dff4a8e2d,
      0x1c563765d84b66878241bbe5b2d2fd1886174642cd4e8a30e4bf7472ebc8ca536,
      0x1d96ed482e24e2a0ba7b550a4d7bf74be0e989d59454bd7b0efe0555fecd26e40,
      0x1bfb77afec93b74e072e78f6c940d1afe46cd98a27e26cd4e38161c844bd793fb,
      0x1b735df2f5c4b96e37bb56fa5454689050c3c0b4aa1fc444bc16cfed8fcca2a55,
      0x1fa5517613a8cbfb6ac4cd285311aa350b6e59a371870e71b7a652abd017df8fd,
      0x18b15a99611aac45fe247c8d9fe515bad60cc620f2817bcb636d5a7eb2381a050,
      0x1af1d3d7b39732737108c3f1da4bcfbfdb45e0d3df5c7474bdd0c6c721a3cd8b9,
      0x18c0f83686608d996d7fbb8e13016234479de5e524b47640fc64f5c34d688b8c5,
      0x1f7b33eba3ba745a9ad10725b2e809b81686aba87add9ff8e339e810efbc7055c,
      0x1d744f3fb3087b2cfeb81a8e62a5b9eddf6e449d2789e6153ac4705336db9bf7b,
      0x13a73843417452903d4625ce9854421a6b122e4073f7c40f58de7bf1a25a06ce7,
      0x12d3ed16a2c066507918b9d0b210e4d41e8a707f49f980db406b6df290d990511,
      0x1cd1678b33ad3d67398d47d1237ff48507f9a45d6b30f45e4c32f09b7be076da2,
      0x19272f65187acb13bd05612bb023025f2246131733af7601671a334d237dbfe35,
      0x17a25b6c278e457abc3135387f5c7dbc78594171a0f1cbbd1c7b0f3f08a802f18,
      0x11d8f5ff6343b0eff2a97be4e08e5f4df8137b76d705b4f0e38015228fd78c362,
      0x1083e33971d13688c7c4c0cd06b8137bd93a15b0b85c678b3a4b9bab3b9188293,
      0x1a207f373ed13931a6ee2bdef23ffb52e4b54ed68575fcd9d3f26d22f21cd92ac,
      0x18bd0fd2a63c377498b14c17f990827821a9082a8556dea1fd675cc349b81cc2b,
      0x1d3aad2280ff046d55831a790d6b7eba947f18fe357e401b64735b3b6ad2f517d]"

definition krylov_tail_3 :: "num list" where
  "krylov_tail_3 = map num_of_nat
     [0x188ec728b6bb96b0200c2bbee78f4bad458f59bc52c7cbb62d36eee7df53b161e,
      0x1ba0c1a033d29c8f8e4260d6afb0bacca8b59ce56a1b317a803770733b2fec67e,
      0x15bea062aba8ab3937bfc493f66a56ab46c08c40fe8467d1c3222d3662e64192e,
      0x199d1e6fc5844aa59c1c14ad5b2f9739a25d65e56a0870e8605c011437ca8d7a1,
      0x1749bf780f7155f1878ac1a98d35da43be1d705c06ed6aabdb9c7a9e9846b737e,
      0x17eb4b2a99e481338caeb6edc024cd74520bcb6b139e07df82c8b5ba91da886db,
      0x10dd80bc1008314f58b0246b5e414519ec6dc83c426042c6672835fb1ba00e81b,
      0x1e71279609100a4d0fe09550c06d8b9853f5d9ac0781095e3b987d7b49c87d088,
      0x106267b09fc741d22720e7299b199690d78d31878e24ffcee61c834147597e1bb,
      0x17c398fdeac6e23c7233782123dd288b66b155ef5264174581f3d57656bac0077,
      0x1eaf3e2e59a25714581e099f5bece88c1571f8b82703ffc990811864ee18357e8,
      0x151bb97bd8d2cfd439ef5ffc4a67fdf29deee94392f7223b0b5fdef290b99da34,
      0x1dbde71eaa070944b037a4e09ea86051df5e684d4829426ad3aa8ecada9c704c7,
      0x1965cc5c71ea7c45c307ba78c0e1b01dacc342670c1d52777149019938b23b621,
      0x15c656b4d1c76fbee680a3db5cbd6b7fbe8df986f44ed908c4ef8fa245451550a,
      0x16d6c56975e644b13162c4e4abe9fe2f1ce2d5ffedb6a727dfa4209060cca3e68,
      0x1c72dd468212d30a15393f19856afdc99224318b2693faee45903006f89c40706,
      0x153c8bcadd99b49023bf4238882a3db9f28d3e945b654757bbc6dccb5c1d69943,
      0x1e78f2f636abd0df955128395a98342dcaf4a0678f52137a7c776995dae19a53a,
      0x1874bc918a52373f39e95f08a68d4e7e63d2e1cb0f2bbd0418fb3b04631859f64,
      0x11476574cbab50af32847a5bbf9d378822c085c7cabeaa8c335d665ee661d3cd6,
      0x1f446070fc166022ba5689780ce48445431999c293424ec970da86ede77429ee6,
      0x15dd798bbf364dea8909291176024dab2995965778d2e3625c877f5f88200705a,
      0x15d11b891dfb98fc9920a7eb38e6eaae8c1bc01986f0a9ccd0cf90834fc4a98d7,
      0x162609395b72136169dc3a8924bbe323f5f4f771f1d2eaef29054b13d4cf98bd3,
      0x1f31c87a5fc915541e3a923f25aa3b9ec52d86eb01a69171ead7b55b7e6f61337,
      0x1084bf4389d22bcdf93b242979269aadb1c0a18f5a63cbdc50cbfbca2000e5168,
      0x1c02342883d99a763aee6b24ce9edfbb38307e6c0345b467618fe506f3b105072,
      0x15c22a864948901387b988a955e11abc1351f04e3e6a6edb75bdaf42732d2b167,
      0x1fd91ed27b590ee452985b3ffb7ad1aa6155d7a518a65f71132e758a040fd5de8,
      0x1a32a9d1992eec7feefc1ff941972474e0e3f910e7d35b05fda2bcfd67f0844bc,
      0x16ef435a2a182fdfb17f6ca2906c403f23bd5a14c1b4fb3ad773ec3c190d3331d]"

definition krylov_tail_4 :: "num list" where
  "krylov_tail_4 = map num_of_nat
     [0x1a9cacaa4329dd75922503f77f14d30ef5b1da8a48d588342221f572f2a1e7d4b,
      0x1aa837e5aec4017f8510672e9ddd74da45b52c0fc560bcee6d0c8352f95db2950,
      0x17b23de3a37d4d7490036ebd1d5c064f4da9c873a1e07aa1221198b892f90f04e,
      0x16fab7437eb20053a2f5b5c57ae7494bafbb3e762e4573ea880a6d28906438d15,
      0x1e7725283126aa1ee61384670d56719af544e69bc4c60270714be41dc0934b687,
      0x150dd36678767ebc1a6fe9f6c925daf2821c86e109033882fa7827ae3573e306e,
      0x18c7dce22ab0ee2eadd5dc5e8d53d9f4620b48b9f55501769d6972294406a5380,
      0x1deb0759928b7bfcb1cf44ddcbb85ccc62b7e6ce3c007dbaf7a5e6729be34a603,
      0x10c8c9eb9c32f5d16bf6daafab2ef6ac54dd44616c5b6b16a8f907e535684c267,
      0x13d8f882b1b15e0d3bcd05fc486bfa8a27d2992bf21dd19c8cec8a6fc501d2e1b,
      0x11f236814c35287595766ba82e53286b90f316b87f77f9f718e6ebc686ad5d700,
      0x1a3050202407266850e07e815b10551b9d6396d6d7898cec89e7cbffb5ef8cf28,
      0x15509aea78dede71d4aa1a6df726d9e9146423a8397655059eb40d09466126765,
      0x116e8826972848351d4e65881b4cdf9f4e7a34cc8831aa9adf80b44b07c9ad021,
      0x1c55f9e2979d43e33b57c1a049b0d29d5cb4e50f94b4d807809408a118d04fadd,
      0x137c961c239da06531dce068e16f9d3087772c0ec5d445370075144c1bf9d4496,
      0x1caa468177425cc939b47f8c70f84979e6ded82a3f420c4ee47eae5efdb0311b5,
      0x1a10fb4e93d569000d9eaf5695d5b862bb1409f8b20a742c5e0a30f5b5b0619c8,
      0x13a58a209e56c43be065fbb7c83d79fe3880965b926fadd26f0ec243946f7cb0d,
      0x1d3d3164a38f618723dc1d2b07f6c54ee7ebafafce3da89c842bde38985615595,
      0x1923755ad3d96db658a85f68ce99d017b01c6cbc519d788b3efd40f3f5e4dc42f,
      0x12a7ad27e33cd0488f2dbca1ca6b6c55464973276ae074de77c2591577a0c97f9,
      0x1492de9ddbc0113b9ea130745477452adea69693d72bd1f4a32c8715fe7c6de96,
      0x1819e7468901c19d70aa193609e268c3b32b21f27d20f9371918cf1bf297ad265,
      0x17154d6658d69e842a562c6c091be5e5ea99f7df86553cd2f22a09af06b6958c3,
      0x144adbb197573bd077c3296976089069d2e5d21c89f84cbb2fa6b316d83537dae,
      0x1eed6ad5e135a3d5ec5c898f374be7b33a80486327c5eb081909babbc69a40b1b,
      0x191bbe8da456d8de05937cbf27c187028fd57b57d6144c0a9d64980d006a086c4,
      0x129a92d9d8bb4e485e58489abfbeaf6ec7229fe5f1bfc3645baa5dd772289cb8d,
      0x11a580b701a785209a39f6324b5e93d612d08aa83c29f0b24e1250eb5b2c1194d,
      0x1eb25a6ea143e7b1c17bde8af1160242c6fb2c712c5b72f08d675af466a264060,
      0x12a829092ec3f1a314fedcc872556644cae7a80fbbef14b4452e2cebebbaf1474]"

definition krylov_tail_5 :: "num list" where
  "krylov_tail_5 = map num_of_nat
     [0x1ca2eb09f020d2a591cf87fdb08717038b37582c220083b7cd61aded7e9614501,
      0x1a224af2b664ba440cf66e11c97e83539799723cec1180e45af41ec8acb645424,
      0x17540bb76719cb4ea27ba8fa64006611d19b02e589d946f5874f2606f6c37fe21,
      0x11b764d9e12a5dd810ff9d4e1f2819f3c4af8c191b1a5f0641802f541803f2593,
      0x105bcaa31d181f46094d842eb9276baaf5d03e031c31b4acb498c794e233f0876,
      0x157d56b17e94002531d37bd9324dfb2d98057db947252f8121133334e31a5b6dd,
      0x15f483af056107362bb2c6a78e55e04048c5355496728fc16c6b183cdaab74c9c,
      0x111ee9a636df72627d70f27e4b7c54898f1cebcfc28c1b48e15aaec749b8fc3e8,
      0x1d2553c0404d3e8a6bb5d9a1345568b70336b776c048b3ffef58acaebdeb95141,
      0x11aeb1c27c96d000ba00f59eee413da317dbc27949f64e5cf14b48183dee18619,
      0x13cb88ceae7766ac1fb92e6a4f16c5c28c907fff9a596b9e773e3ba3088e863dd,
      0x11a64deb7ee62685c778217b90a4a3ff54176a36ddc128612865cc923ca08b0fb,
      0x11dc9cb624fbb464eb70566bfcc668f0eb0a87df71c50091cdd4eb4f9f8785eb5,
      0x169ea55ac36d2aa7d91a5eae62626d1bbdae3afb1284ed8a7702f026cab9311e7,
      0x18e5b56613f43a3d3bee8b8173cfbc05c3b69473ba5fb18fbc326f871b50f633d,
      0x1176516a6422b5357f3b90b90b802a36146a7075d2c0fbb9a7614e92b2fb7d815,
      0x19d19aa38423f6dc48b17baa4e0817b74c30ae5e6bbbac0ee27d6f8d0419330d8,
      0x1b5a54bc269fbdf30670c350120ce4bac6fcba7921aa88b4279c5b70eb8169df2,
      0x16a8e5b4ddd8a0e6a51edb75e8e5cd65e7102259d82705d1ca3ab5b5ecb45c980,
      0x14a6ec3718fda0bffb97de8e0ff211fde8344c99dc76942c2b827258e94bf9af6,
      0x16927b925415d8916926143bcee1a8528821e04f3acf7c7ea710d2f62dc0cd3cb,
      0x149df9d6737baddb5ea8b3531bdc256e36172682d9ee191099a3492b431a69d37,
      0x169978515bea9552ba0e49a46ae76cbd411cdcfa812855addb29967fe98fdd18b,
      0x181fecf0b4957b5858d2dd8b283311a5f03b03210240e4082cac32d4334d1de7d,
      0x13ea0f049dfa36dab23cebded36e4c422445ec7e193ee84a0488dd05859882b7a,
      0x1bd216f5fc6f50989e4804a68662cef582f1daa54fc826bf83273e7f015c5c271,
      0x1ec4e324798a1674e825a549ca4192d29f9ee07cc8f6b46d1a04f22fb2fb2a000,
      0x14433e2b406b162f92d8c68b106098d29dbfb71ab04c0cbf8b5ef17703878819f,
      0x1352033f91263e04e7b357640a9810cb643980e6a3ab1c74e2a27846f3a09289e,
      0x144e00ed707b2651a4dc6874c1d142428128afc45a939e3665c9fb9fc12db0f9e,
      0x170cf8acd5e5255d1e9d26cc3c9032bb603d3c2f5a6f6c8d00af54b6ebc5089e2,
      0x193a02e6389071f1466cc6a40e4f3a254e0f4e558d3a56a8479e9035644f414e3]"

definition krylov_tail_6 :: "num list" where
  "krylov_tail_6 = map num_of_nat
     [0x14eb20e6a99676b54d594ce5c750fb6b7ffd18c4e73a2dc330abdc86d1e566173,
      0x1b6ecf62c70449d58c7b5e174d33fd7c420f88a7f18fb0bf7bbde4a49f493d614,
      0x1f2d5f2c28f8a6d1768959acb304201d05c9321423f570a272dca361a9c2c40bb,
      0x1ace615c8da70161b07dbd27fb820416b19cc8d9393394b4c838ce59a2cf1278b,
      0x12baaf6a5530b69299f701197024966e09d9bba7607e82dac36a67dc165b87adc,
      0x16890b6c6299a6a9cdd3a63863ca91c3c344dd6206019319080973112315b3e59,
      0x16b618b9bac1cc930f1ed92a66ed2226569e084b46deb13f5dc4a51f478d86555,
      0x1fb58a05021e5f83e24cf188431e04730444747e67be154c5decb5edbb92fbf90,
      0x1959f77e3fcf6cb4075c8b19d2145f8a0be4301b9f32eac6561d4b96de32b136b,
      0x10ce4a57b8ecb41fb176feead9aa4ebcbaa5f0949314047ae4a08cf37ecf3744e,
      0x160cab4d7758657f14ff5431af90b9f85f73828d34717d82becb363055378721b,
      0x131fb52fe53808652f2e0ae301a25ed9e547e08cced6435b57b41ff0161e9fdc1,
      0x1967cecb0ab4657dc98388bf910a6105fdddf59fd96a825ea1ec4a533df0d4e26,
      0x1ce46c97476a9a7bd3507039a847f5e795b23773759037b935567107ee2e33c10,
      0x15b85d2acb7c865f58e0ea1e291ba62693b4364d33f9f19fac002ae3dcd49e03e,
      0x1ef81ec18d6cff10a87aa70e16f078257754f6b0c636c9bada0c41842451e9c31,
      0x16d54f359d0e296b4f176ae7a1d431e66522103af497585cb3a0a9f56f0bdf696,
      0x1e26fe7eebe1ed332cc22a3c7e668e8f0995d3283a48b6d3b057f6fa0692ae5e9,
      0x1b7c12f665aada352ac5a857155340d195000fee42bc960227e4dbacd73bf5be0,
      0x1986e1cf83a304e2c2fdf682ee6cf56f98217c1580d4236db998c6b4f02db9890,
      0x14f1ee34f3bb406ee34e319e589a2ce693444c239e956f8b283f5b6ef35a9e067,
      0x15fcb8f6b442eda5c33657da74d6f2e0e83526d33555dd6bcf8af9799e74b1e3b,
      0x1619c1b933c4b022e11ac4085075c30354898870dff79e689243675c1f63812db,
      0x15c94e5209393d8663b81cbb73c7622ee7d02b2490e1dc4670d32e95f350af67c,
      0x1c3802432caed33b152213ed381b2d4924bb190a1076110f52ca4be36a884ea7d,
      0x184689106369279b15fc78e2708dc3eef353410442e572e1aa4950aa56508c939,
      0x1aaf5762b90284318dbdad82c31e0f7d6ce6694c64383d9cc15c98be77dcd9e92,
      0x1735a8c927c5dba75e79fd4ccffb569440075c70d0faeb088715a690aae660446,
      0x1615fae65e973ee7e18dfa29b30c36d0296b07acb5e7ddd8a02752295dd950ebb,
      0x1c67e9efdfa95d6e1ef3c3cf5564263b98c1afac5b32bbe33f59af63b6a9b3d4f,
      0x1cd1a494c8c870937ef2dac9940bf5ef696bc300b8ff2e0c5bffe92032325559d,
      0x1bd3e4b74cf28e06e30c4217fa2100b6bc66f0e91ec68ebaee458eb442050bc6f]"

definition krylov_tail_7 :: "num list" where
  "krylov_tail_7 = map num_of_nat
     [0x101780f6a28bca468c9bf12ea551cb70412f3c4aa6e285caa9f09aea10310b7af,
      0x19f184271797808d2dfe2601bef5800ab444578e138245c018c82656145844f6d,
      0x18a9a7b6ba752082ba2a2753212de4fc617257d9b92f813c757df5ff104d81bbe,
      0x1437d93b7e0de06b50e4a0f3331885478e258575884fe47bfca60590131720052,
      0x108215424b89dec846a9b5fce8f84542a2672016a840413956b459dee55524158,
      0x13fe225ca6aa9c793030bca28fdfc157227acc34a5ed206e74516c8a069cbbe49,
      0x1782e8309dcd0068fc089bf2c99f9ab3b61b1c1c2cae5addc5d582e205db07f3d,
      0x1b56a6333e85962c61e5404c79ff1d406fc6050ce0eac79da44c76ceb4b85d46e,
      0x1a3638921467fbcdefb0f757427c00068a6f338e2dad879b20dcd5f16ad70cf72,
      0x1f8ad80b21638739487079fd279d4cf1a503112805068b6a8085deed531d70a1e,
      0x118a79513924648caaa5ad1d62553c504df6b6387186b73aca0c17ce77787cf22,
      0x1a76cd8f99ed29145cd959de7b58c0a26d5f0ceb64abf798a670d8a73fdaaf444,
      0x1bd19ee5382c9fa8d37f482eabb32fe627f68d922029987e815919c3c29c71c8b,
      0x10facb84e26ee300a90211be59d25e2e95d0dc7f4906c6501d7e0ab4da99761ee,
      0x14aa16a542ff756d0c8289070feb083071acc775ca4dee6068541d4f71f1534e5,
      0x1361aca0da3a11165a3d00d3a2da9b7e257a533db457b51e4d52cc9ff943c8433,
      0x148102c37ff3adcdb114a4e331a5d33d12159f71efcee6235b493302972e6c4b2,
      0x197ddcd293b65207a4be487c6acd1f7638480890494559556dddaeb0071327a5c,
      0x116a5826ba885b5e68437446df74f8d3f12bee5c249b61869ce87af2dde02cf70,
      0x175b1e0836cf53c268134782c199f424f580e0e8260fb5a26ca9cc8843f3162ff,
      0x1ccc005b7fdc0218156ac715e92e220b013a6be2a46557a96e7232685333f04ff,
      0x1ab62fbecd773b772cddbdb7154f1244fa229e9f1e7885ed938459d1888aa5fe8,
      0x17d3561296243a61f267d897961e97ba757b7af983bd3257e310e8f05b851b643,
      0x1106c255059d62b32484371da9344cde440c4a9e4e26be89a1b8c41b4e1c13522,
      0x1b8750a15119697770006f4b9a3b1f8c6130b998a90ee105c4b24cd005a7cf68a,
      0x110e5756fd273f02f78371865d9750e4c5829a03369231e10e05a5e9fdb0471a1,
      0x11dc7e9199aab976ad80b94bc3e517fedc044e6c96b5261fda8968bc360549f9e,
      0x13ed2fbb061fa1e3fbd0fc9db9dffe073b0d9f9b63557818e7515841391ad6909,
      0x1b3f631c16040ca953b7627670f4e897a78c3b47e390508f4fb1e8615c500f6b8,
      0x1b84c3966b0b7eb28a894d378dba67fc2b8ab150cf34b7736302b03aa9c4534d9,
      0x19383c01ce58d487fb2a63644a98f4b1b2014c5deb4a83c2d30cc2fc0dfb9a8c7,
      0x1ae8a5672e0b84a2409d770d40e6ce3dca27edc5ac29edff1835b2a028e9cdc95]"

definition krylov_tail :: "num list" where
  "krylov_tail = krylov_tail_0 @ krylov_tail_1 @ krylov_tail_2 @ krylov_tail_3 @ krylov_tail_4 @ krylov_tail_5 @ krylov_tail_6 @ krylov_tail_7"

definition squares_at_0 :: num where
  "squares_at_0 = num_of_nat 0x10000000000000000000000000000000000000000000000000000000000000001"

definition squares_at_32 :: num where
  "squares_at_32 = num_of_nat 0x10000000000000000000000000000000000000000000000010000000000000000"

definition squares_at_64 :: num where
  "squares_at_64 = num_of_nat 0x10000000000000000000000000000000100000000000000000000000000000000"

definition squares_at_96 :: num where
  "squares_at_96 = num_of_nat 0x10000000000000001000000000000000000000000000000000000000000000000"

definition squares_at_128 :: num where
  "squares_at_128 = num_of_nat 0x10003c03c3f3ecb1904b4edcf26259f850280002bcefd1a5e9d116f2bb0f0f001"

definition squares_at_160 :: num where
  "squares_at_160 = num_of_nat 0x1132b59d33c8006eb2c19d64b66abab3a8ddf01dcff10da08d1e3ca82da224298"

definition squares_at_192 :: num where
  "squares_at_192 = num_of_nat 0x1aa13164889370dd1233bd40637479c68db7832822522d514d44069b0585199e1"

definition squares_at_224 :: num where
  "squares_at_224 = num_of_nat 0x193a8df011f222ed216fc5baf0b12a10184933cbfca76917008f7498409c5a6b7"

definition squares_at_255 :: num where
  "squares_at_255 = num_of_nat 0x16f9ead82c46b73cb1a581daa919c1597e0dd9d731a8499f69688c48e2fb11122"

definition squares_tail_0 :: "num list" where
  "squares_tail_0 = map num_of_nat
     [0x10000000000000000000000000000000000000000000000000000000000000004,
      0x10000000000000000000000000000000000000000000000000000000000000010,
      0x10000000000000000000000000000000000000000000000000000000000000040,
      0x10000000000000000000000000000000000000000000000000000000000000100,
      0x10000000000000000000000000000000000000000000000000000000000000400,
      0x10000000000000000000000000000000000000000000000000000000000001000,
      0x10000000000000000000000000000000000000000000000000000000000004000,
      0x10000000000000000000000000000000000000000000000000000000000010000,
      0x10000000000000000000000000000000000000000000000000000000000040000,
      0x10000000000000000000000000000000000000000000000000000000000100000,
      0x10000000000000000000000000000000000000000000000000000000000400000,
      0x10000000000000000000000000000000000000000000000000000000001000000,
      0x10000000000000000000000000000000000000000000000000000000004000000,
      0x10000000000000000000000000000000000000000000000000000000010000000,
      0x10000000000000000000000000000000000000000000000000000000040000000,
      0x10000000000000000000000000000000000000000000000000000000100000000,
      0x10000000000000000000000000000000000000000000000000000000400000000,
      0x10000000000000000000000000000000000000000000000000000001000000000,
      0x10000000000000000000000000000000000000000000000000000004000000000,
      0x10000000000000000000000000000000000000000000000000000010000000000,
      0x10000000000000000000000000000000000000000000000000000040000000000,
      0x10000000000000000000000000000000000000000000000000000100000000000,
      0x10000000000000000000000000000000000000000000000000000400000000000,
      0x10000000000000000000000000000000000000000000000000001000000000000,
      0x10000000000000000000000000000000000000000000000000004000000000000,
      0x10000000000000000000000000000000000000000000000000010000000000000,
      0x10000000000000000000000000000000000000000000000000040000000000000,
      0x10000000000000000000000000000000000000000000000000100000000000000,
      0x10000000000000000000000000000000000000000000000000400000000000000,
      0x10000000000000000000000000000000000000000000000001000000000000000,
      0x10000000000000000000000000000000000000000000000004000000000000000,
      0x10000000000000000000000000000000000000000000000010000000000000000]"

definition squares_tail_1 :: "num list" where
  "squares_tail_1 = map num_of_nat
     [0x10000000000000000000000000000000000000000000000040000000000000000,
      0x10000000000000000000000000000000000000000000000100000000000000000,
      0x10000000000000000000000000000000000000000000000400000000000000000,
      0x10000000000000000000000000000000000000000000001000000000000000000,
      0x10000000000000000000000000000000000000000000004000000000000000000,
      0x10000000000000000000000000000000000000000000010000000000000000000,
      0x10000000000000000000000000000000000000000000040000000000000000000,
      0x10000000000000000000000000000000000000000000100000000000000000000,
      0x10000000000000000000000000000000000000000000400000000000000000000,
      0x10000000000000000000000000000000000000000001000000000000000000000,
      0x10000000000000000000000000000000000000000004000000000000000000000,
      0x10000000000000000000000000000000000000000010000000000000000000000,
      0x10000000000000000000000000000000000000000040000000000000000000000,
      0x10000000000000000000000000000000000000000100000000000000000000000,
      0x10000000000000000000000000000000000000000400000000000000000000000,
      0x10000000000000000000000000000000000000001000000000000000000000000,
      0x10000000000000000000000000000000000000004000000000000000000000000,
      0x10000000000000000000000000000000000000010000000000000000000000000,
      0x10000000000000000000000000000000000000040000000000000000000000000,
      0x10000000000000000000000000000000000000100000000000000000000000000,
      0x10000000000000000000000000000000000000400000000000000000000000000,
      0x10000000000000000000000000000000000001000000000000000000000000000,
      0x10000000000000000000000000000000000004000000000000000000000000000,
      0x10000000000000000000000000000000000010000000000000000000000000000,
      0x10000000000000000000000000000000000040000000000000000000000000000,
      0x10000000000000000000000000000000000100000000000000000000000000000,
      0x10000000000000000000000000000000000400000000000000000000000000000,
      0x10000000000000000000000000000000001000000000000000000000000000000,
      0x10000000000000000000000000000000004000000000000000000000000000000,
      0x10000000000000000000000000000000010000000000000000000000000000000,
      0x10000000000000000000000000000000040000000000000000000000000000000,
      0x10000000000000000000000000000000100000000000000000000000000000000]"

definition squares_tail_2 :: "num list" where
  "squares_tail_2 = map num_of_nat
     [0x10000000000000000000000000000000400000000000000000000000000000000,
      0x10000000000000000000000000000001000000000000000000000000000000000,
      0x10000000000000000000000000000004000000000000000000000000000000000,
      0x10000000000000000000000000000010000000000000000000000000000000000,
      0x10000000000000000000000000000040000000000000000000000000000000000,
      0x10000000000000000000000000000100000000000000000000000000000000000,
      0x10000000000000000000000000000400000000000000000000000000000000000,
      0x10000000000000000000000000001000000000000000000000000000000000000,
      0x10000000000000000000000000004000000000000000000000000000000000000,
      0x10000000000000000000000000010000000000000000000000000000000000000,
      0x10000000000000000000000000040000000000000000000000000000000000000,
      0x10000000000000000000000000100000000000000000000000000000000000000,
      0x10000000000000000000000000400000000000000000000000000000000000000,
      0x10000000000000000000000001000000000000000000000000000000000000000,
      0x10000000000000000000000004000000000000000000000000000000000000000,
      0x10000000000000000000000010000000000000000000000000000000000000000,
      0x10000000000000000000000040000000000000000000000000000000000000000,
      0x10000000000000000000000100000000000000000000000000000000000000000,
      0x10000000000000000000000400000000000000000000000000000000000000000,
      0x10000000000000000000001000000000000000000000000000000000000000000,
      0x10000000000000000000004000000000000000000000000000000000000000000,
      0x10000000000000000000010000000000000000000000000000000000000000000,
      0x10000000000000000000040000000000000000000000000000000000000000000,
      0x10000000000000000000100000000000000000000000000000000000000000000,
      0x10000000000000000000400000000000000000000000000000000000000000000,
      0x10000000000000000001000000000000000000000000000000000000000000000,
      0x10000000000000000004000000000000000000000000000000000000000000000,
      0x10000000000000000010000000000000000000000000000000000000000000000,
      0x10000000000000000040000000000000000000000000000000000000000000000,
      0x10000000000000000100000000000000000000000000000000000000000000000,
      0x10000000000000000400000000000000000000000000000000000000000000000,
      0x10000000000000001000000000000000000000000000000000000000000000000]"

definition squares_tail_3 :: "num list" where
  "squares_tail_3 = map num_of_nat
     [0x10000000000000004000000000000000000000000000000000000000000000000,
      0x10000000000000010000000000000000000000000000000000000000000000000,
      0x10000000000000040000000000000000000000000000000000000000000000000,
      0x10000000000000100000000000000000000000000000000000000000000000000,
      0x10000000000000400000000000000000000000000000000000000000000000000,
      0x10000000000001000000000000000000000000000000000000000000000000000,
      0x10000000000004000000000000000000000000000000000000000000000000000,
      0x10000000000010000000000000000000000000000000000000000000000000000,
      0x10000000000040000000000000000000000000000000000000000000000000000,
      0x10000000000100000000000000000000000000000000000000000000000000000,
      0x10000000000400000000000000000000000000000000000000000000000000000,
      0x10000000001000000000000000000000000000000000000000000000000000000,
      0x10000000004000000000000000000000000000000000000000000000000000000,
      0x10000000010000000000000000000000000000000000000000000000000000000,
      0x10000000040000000000000000000000000000000000000000000000000000000,
      0x10000000100000000000000000000000000000000000000000000000000000000,
      0x10000000400000000000000000000000000000000000000000000000000000000,
      0x10000001000000000000000000000000000000000000000000000000000000000,
      0x10000004000000000000000000000000000000000000000000000000000000000,
      0x10000010000000000000000000000000000000000000000000000000000000000,
      0x10000040000000000000000000000000000000000000000000000000000000000,
      0x10000100000000000000000000000000000000000000000000000000000000000,
      0x10000400000000000000000000000000000000000000000000000000000000000,
      0x10001000000000000000000000000000000000000000000000000000000000000,
      0x10004000000000000000000000000000000000000000000000000000000000000,
      0x10010000000000000000000000000000000000000000000000000000000000000,
      0x10040000000000000000000000000000000000000000000000000000000000000,
      0x10100000000000000000000000000000000000000000000000000000000000000,
      0x10400000000000000000000000000000000000000000000000000000000000000,
      0x11000000000000000000000000000000000000000000000000000000000000000,
      0x14000000000000000000000000000000000000000000000000000000000000000,
      0x10003c03c3f3ecb1904b4edcf26259f850280002bcefd1a5e9d116f2bb0f0f001]"

definition squares_tail_4 :: "num list" where
  "squares_tail_4 = map num_of_nat
     [0x1000f00f0fcfb2c6412d3b73c98967e140a0000af3bf4697a7445bcaec3c3c004,
      0x1003c03c3f3ecb1904b4edcf26259f850280002bcefd1a5e9d116f2bb0f0f0010,
      0x100f00f0fcfb2c6412d3b73c98967e140a0000af3bf4697a7445bcaec3c3c0040,
      0x103c03c3f3ecb1904b4edcf26259f850280002bcefd1a5e9d116f2bb0f0f00100,
      0x10f00f0fcfb2c6412d3b73c98967e140a0000af3bf4697a7445bcaec3c3c00400,
      0x13c03c3f3ecb1904b4edcf26259f850280002bcefd1a5e9d116f2bb0f0f001000,
      0x1f00f0fcfb2c6412d3b73c98967e140a0000af3bf4697a7445bcaec3c3c004000,
      0x1c0387f7a8a5a599fe0121074f5eba20f07abce814959b3f2c818018c21101003,
      0x100e5bdae682a3b548d957782bdc028b3192f3a797661e1288753b74c5551500f,
      0x10396f6b9a0a8ed523655de0af700a2cc64bce9e5d98784a21d4edd315545403c,
      0x10e5bdae682a3b548d957782bdc028b3192f3a797661e1288753b74c5551500f0,
      0x1396f6b9a0a8ed523655de0af700a2cc64bce9e5d98784a21d4edd315545403c0,
      0x1e5bdae682a3b548d957782bdc028b3192f3a797661e1288753b74c5551500f00,
      0x196f2f9e4e9ae0f1d58033ca66acc6cebbb69e5a5d4838cfee9ee802994512c03,
      0x15bcc67ebd8c5aa4769652907e77a8ca4e8a796c0cff407469d98def130a5500e,
      0x16f325f935c286204a12049d0bbcfad16a01e5b28f12d0744eb7214ef7265b039,
      0x1bccabe714f9f430b8035ca8dc91b2bdf82f96c880a49074d30d93c96796630e5,
      0x1f32d79bd40009a1c09bef1a9682790740ee5b277b4de2989f9462c0e84792396,
      0x1ccb1a6b14141355b2b26f0f4caf0e15f3c16c9a2807f88c4422b0146c0f59e5b,
      0x132c2da8144478847a146f58241ad25f3f7db26f652f90df2af9fb467d2c7696f,
      0x1cb0b6a05111e211e851bd60906b497cfdf6c9bd94be437cabe7ed19f4b1da5bc,
      0x12c29e850053bd95119b26e7570bcffb07a326f197c97f1c95ec8f701fd6786f3,
      0x1b0a7a14014ef654466c9b9d5c2f3fec1e8c9bc65f25fc7257b23dc07f59e1bcc,
      0x1c29905782dc00323924f3cc94784c40da626f1c054852828d6adae48b7998f32,
      0x10a6055a4f64351a544e1c574747db0b99f1bc77d01138e40fd85085e0f772ccb,
      0x129815693d90d4695138715d1d1f6c2e67c6f1df4044e3903f61421783ddcb32c,
      0x1a6055a4f64351a544e1c574747db0b99f1bc77d01138e40fd85085e0f772ccb0,
      0x19812e945eea9ff63311886835327116dc3f1df17d919a4825b60c9d4bc2ad2c2,
      0x1604c256fc4da6bbecd0bc19300d77abd0ac77c08f99ca6b457a1f905914aab0a,
      0x1813355832c5765e2309beb8325787571299df008288f808fc3968b3df5da5c29,
      0x104cad674cf2001bacb067592d9aaeacea377c0773fc436823478f2a0b68890a6,
      0x1132b59d33c8006eb2c19d64b66abab3a8ddf01dcff10da08d1e3ca82da224298]"

definition squares_tail_5 :: "num list" where
  "squares_tail_5 = map num_of_nat
     [0x14cad674cf2001bacb067592d9aaeacea377c0773fc436823478f2a0b68890a60,
      0x132b65d0ff73ea5abc52989794c9f2c2ddf701de43ff0bad3832dc70612d4d981,
      0x1cad9743fdcfa96af14a625e5327cb0b77dc07790ffc2eb4e0cb71c184b536604,
      0x12b6190bb32a907975f45a1c5a39c6252f081de3fac0c83db95efc11dfc5c8813,
      0x1ad8642eccaa41e5d7d1687168e71894bc20778feb0320f6e57bf0477f172204c,
      0x1b61e8bcb54edef47fd33c7c4758d1a250d1de3ad5d32090464decf88a4296132,
      0x1d87daf552dca2b2dfda6c48f9a7f579e31778ee2e93210aca959e075f14464ca,
      0x161f2fd10f66bf19cfb46246f0393fef7c25e3bf7f7cf6c51025430ab1400832b,
      0x187c8347fe6910d6ae9ac7c73286a645a0bf8eff411c0ab1a9441ad87e0f2fcad,
      0x11f275187e439a399afd82a52ede2ae622ae3bf87daf898d76b246848e22a12b6,
      0x17c9d461f90e68e66bf60a94bb78ab988ab8efe1f6be2635dac91a12388a84ad8,
      0x1f276d8427ca4f283f93648e1f80f79a7acbbf856617497282f57eba59251db61,
      0x1c9df214db3d09724e90415d68a534611b56fe125d6d572431a6c1fea98567d87,
      0x12778c5728e0101b8a9cd610b4323b8c9d23f84eb0852e7efce83ced6b048e61f,
      0x19de315ca380406e2a735842d0c8ee32748fe13ac214b9fbf3a0f3b5ac123987c,
      0x1778bd7509e6d8db895bfcb2a7e70b39726f84ee718d44a41d21e333c656f81f2,
      0x1de2c9d7e4688fdfb524bc166dfe751d999613bb7adac3359d569a3da254ef7c9,
      0x178b635bd5b60aac644f233ca15f3e7e96204eea2e5b7e384f2953e14442acf27,
      0x1e2db16c952bc6000177c22e771ea00208a93baa05822944d5745977aa05bcc9d,
      0x18b681b610bb2dd2b502dbdccadc6a00d2dceeafd338d7fd6fa25ec96507e2277,
      0x12da7edfc50b6e29f49df2cacfb51bf3eb23baba353cfcbe6d2b56c0e201969de,
      0x1b69fb7f142db8a7d277cb2b3ed46fcfac8eeae8d4f3f2f9b4ad5b0388065a778,
      0x1da795fbd7513bfc6949b1151f950cce126baba62a1068ad011741eb560777de2,
      0x169e13eb1950da2315fb173168f2d930b9d6ae9f6d71d05a3e2e3cba950cce78b,
      0x1a7873afa6b0843dc7a7121951a93d3ab772ba7f092890cd1169e418ef3c36e2d,
      0x19e1b6b91d25c9943e0ad5dca260471a7d9ae9f95d7de07f9605bd86caeec58b6,
      0x1786a2e3f370ff33d8bdcacb6d45af99563ba7e00c2822b58bb4dbfe5da5082da,
      0x1e1ab78c0e30107ef2bc65f14774e79d08c69f828c4f5b73c702790bcd9b2fb69,
      0x186a9a347cd474297a2c44a00b75747cd3627e0df40d1f21267adf38fb7dafda7,
      0x11aa10d674b609c6c8278f39c9116203edd9f832a9ebdfcf4a4951069be8a169e,
      0x16a84359d2d8271b209e3ce72445880fb767e0caa7af7f3d2925441a6fa285a78,
      0x1aa13164889370dd1233bd40637479c68db7832822522d514d44069b0585199e1]"

definition squares_tail_6 :: "num list" where
  "squares_tail_6 = map num_of_nat
     [0x1a84bd95a5aa1a17685868b8691554ea968e0ca5f097160ee6b23789600a78786,
      0x1a128e51114fb13e81f73f584091e05afa683292bb83fb70496af3c0f637ffe1a,
      0x184a4143c2d91d99274a60d8e683329b49f0ca4f97d04e8af609e2e6aec1e186a,
      0x11297d088c83af07bdbf1eda7ec8799d8793293b269e99600b85a67fcd19981aa,
      0x14a5f422320ebc1ef6fc7b69fb21e6761e4ca4ec9a7a65802e1699ff3466606a8,
      0x1297ec8b0bc91cca4bbaa37b1ee5c020291a93b0d50647a5518b710e6a968eaa1,
      0x1a5fb22c2f2473292eea8dec7b970080a46a4ec354191e95462dc439aa5a3aa84,
      0x197eb0b73b7615c79b3caa080a98b1f231f93b0829bbd91ecb153d03df76f4a12,
      0x15fabadb6a3f8e7d4c643599cea6743867b4ec25df30c730fff6d9ea0bc5cc84a,
      0x17ead76e6b0dd544a1db98bbc8fb8919cefbb095c02ccd66160a715a94183d129,
      0x1fab61ba6fc4b9a317252c33d18c7d9f6bc6c255bc5ce43db1f8d398eb6ffb4a5,
      0x1eadc2edfb06d35eec4963aa50971c755f6309513443e218fd90757460aefc297,
      0x1ab74fb3a80f78a901f85dcc54fa9bdd8df42543143ffa8dcc32eec64faae1a5f,
      0x1add46c927da3bc72777ea88b72edc86978095092920497ce36996fc48b59897e,
      0x1b756323188f367fbd49379b387fc1eafe525421dd5e86b85e04761454c87c5fa,
      0x1dd5f48be5db009dd5b243d5053bb45b591950820ca5b9aaabb3f5b4253fef7ea,
      0x1757962bd37837a5e614dc3102483b65941d420ff7a6944494bcedc759eeacfab,
      0x1d5e64ac8e13322608183e18fb42b46e005d083d627580b7bb22a1efdcb5bcead,
      0x1579d6b67c58fd4a90bd2b06fbac3bb0f10c20f24ce67030d6f9bca8bfc7e2ab7,
      0x15e766da3290199bd2bfe2c71cd2b73b941883cb8f761166b237e450441085add,
      0x179da76b09b38adedab4c5c081288516004a0f2c8137943f210e87b3ab4d19b75,
      0x1e76a1afe53dc7cafa9859def6c04da051003cb0b83181596deb083c163b69dd5,
      0x19dac2bbd0e32af95abcb41ecda7dc89b478f2c525f6778b8ddf1be795fcb6757,
      0x176b72e8c46b72864a644dc2d25bc1d671b3cb11ee067d65e4de427b21ecc7d5e,
      0x1dadf7a0d25e26a8b9da79d7bb0d5ea196e72c4504f624327aa81f1e3cbc10579,
      0x16b79a870d6caf7057b4343bfa93908eabe4b113d6e8e227d0d3476f3fe1505e7,
      0x1ade561ff6415170ce9b9e33182c1bc2ffbac44de74c593aaa9c0b4e448a4e79d,
      0x1b7920785ee29ca01af8e5758474dcfb5ebb1132e4eec7a179d200dc643727e76,
      0x1de4f9e6fc6dabe34b75086ff517c01ddabc44ceea64bdce34ea2e94e6c2819da,
      0x1793a39fb5a29a5f9d09f2dac2f9ea7f9a89133c6ca285d6e9db8144561b1776b,
      0x1e4eb27d157985cfe46c85b7f985f0063a0c4cf30e65c6fe4ebf13e3e36352dad,
      0x193a8df011f222ed216fc5baf0b12a10184933cbfca76917008f7498409c5a6b7]"

definition squares_tail_7 :: "num list" where
  "squares_tail_7 = map num_of_nat
     [0x14ea4fc7c02f52d7a5298b5226001bb0c174cf2a8b420717d19fff84746f77ade,
      0x13a9031cc34ea7ef04ed63946a62373b55fb3ca891e7cdfaafaee8e36ab2d1b79,
      0x1ea40c730d3a9fbc13b58e51a988dced57ecf2a2479f37eabebba38daacb46de4,
      0x1a9075c870fe4b22fe0bea23b08599bdafcbca8edb4cad44c09db521663c0a793,
      0x1a41af26441ef5e8d8b9353726d2d5061f7f2a3e14ed1658d1d4f960eeee37e4e,
      0x1906c49e979c0ec0427249657f8fe7e8ddaca8fd2a6bfa2894f1c866cda6c193a,
      0x141b6a7dd997e262295fb82c1afb2c53d6e2a3f1d0704be980650c7e4085184ea,
      0x106d95f4a5ac65393535ae6c998ee8b70ba28fc5fd2efe03e845270bb91b6e3a9,
      0x11b657d296b194e4d4d6b9b2663ba2dc2e8a3f17f4bbf80fa1149c2ee46db8ea4,
      0x16d95f4a5ac65393535ae6c998ee8b70ba28fc5fd2efe03e845270bb91b6e3a90,
      0x1b65412aa8eaa2fcdd20d5fa91d8743ab88bf17df750515ff898d41cfdd481a41,
      0x1d957cad244d52905415ca53a3a5631a427fc5f2a49ee63431c17d96814c18906,
      0x1655b6b0d5217f93e08afa2b98336661f98717cd574bea3efd76cd4dc8217341b,
      0x1956e6c0977612fe1260a67292afc07fb6345f37e1c0795e1c0a23c59b8ac206d,
      0x155be305da3f929b69140473ae7bb20e78817cdafede4633a38aa2f31835161b6,
      0x156fb014ab0da6dc341b5f124b8c91c1b22df3694796c96b67fb9d3edbdb576d9,
      0x15befc516fc577c140263295dc501efe989fcda7a2b4f408763f6209d46252b65,
      0x16fbcd467ce633b490d3848b832222023257369c363c0184312c9ed5ea8645d95,
      0x1bef091a306b2263d3055cf2feead1f09974da72641fd7b52d636da5111618655,
      0x1fbc5c6f464b50ec6c83ee721f6ff432c58369cce9a0fd9f662f9b7132467f956,
      0x1ef135b95d39766302d26aad6b193ac3e675a73463b38493a2cd56d30408ef55b,
      0x1bc492e130f1ec5ebb9479d0bac2010769ae9cd64bfe60a0b146605bdd32ac56f,
      0x1f12338344206819cec77afb0fccb7ed06ea735c562621c916bbac8a02d4af5be,
      0x1c488a09549595b58bc03889299435bcebd1cd769da8f5ca609d893fc643ac6fb,
      0x11226c21164263049fdd3141b0f63cfb5f3f35ddb393a5c7b8051fe8d41fa0bef,
      0x1489b08459098c127f74c506c3d8f3ed7cfcd776ce4e971ee0147fa3507e82fbc,
      0x1226fe12a7d5dcf86d985ac7fd01964da3db5dd985d58dde6980e87ffaf504ef1,
      0x189bf84a9f5773e1b6616b1ff40659368f6d776617563779a603a1ffebd413bc4,
      0x126f992dfaba16e5f91331c634ddd72a9de5dd9d24877ead4bacaa1ad94e50f12,
      0x19be64b7eae85b97e44cc718d3775caa77977674921dfab52eb2a86b653943c48,
      0x16f9ead82c46b73cb1a581daa919c1597e0dd9d731a8499f69688c48e2fb11122]"

definition squares_tail :: "num list" where
  "squares_tail = squares_tail_0 @ squares_tail_1 @ squares_tail_2 @ squares_tail_3 @ squares_tail_4 @ squares_tail_5 @ squares_tail_6 @ squares_tail_7"

definition certs_0 :: "num list" where
  "certs_0 = map num_of_nat
     [0x10000000000000000000000000000000000000000000000000000000000000001,
      0x1f2c9adf7af0df9f465ab73f77cd3a2ef3c25140c5c9c3038e1dedd95ca1747bb,
      0x10b460444ac625d79b203cd6b025af2f4ac2a3bb3949b9b88bb714d51dc513ff9,
      0x13551458e3890805b945c1b47157b3a5e69b3afa458ab4f609978da00617ff5df,
      0x1df47767c553f3001a1d225b497038b0a8296cd3a1e5e73c9d37648a6a077762c,
      0x1919955f819cf734aae74a0c3528773bf594698cbe24c201bf75bb029e5370af6,
      0x14f360160b8ba7f5839a35309544b938097aa4026f3c3246637d527114e9e5c03,
      0x1878e684570dd1a2fb420385235f699a998ad6fbb19907ff9f2e21b93d5c0bb00,
      0x10877ae21c02c2f0d8f023f169078d5ba155bf47e5d123c6966f8bfa66bbe07f2,
      0x18443be2e129ae113b575190e092eda0c4bb3d7964eac24622d80c1e9a8aa51f3,
      0x1ac86331b906f1879278675f2f91c33f2d73e6d9fcc56dc6d5524f5ae275f3594,
      0x18c7bd673189f29a00644c1bc411593687c063b2b45b0e0377787b22ce9a70db6,
      0x18b48e6dc3ee323f718ef9aeba1ebda63ee156c10a348d0b758e9ccb2c611da0f,
      0x13c0983725f6e0a82965f304d65de789c2c8f887cb776dbdb9298aadf12472bf2,
      0x10ce2bb4c57d9bd28a735e07cef04e43c8fa63333b1f5e002019a9a8e232b213e,
      0x148f60e0a500cd7ea18f2b39ee60290def1e935bdc1e2ffeb161296e849eab201,
      0x19214069e88fd4d32d92800681171d7541cda6a0b12e646193d5c2497d0a5f6af,
      0x1f765117ab7bdca5917e70b6aebd99d35693efad2fb24dec4f9ef5c4b4297aafc,
      0x1ec48e053e19f460ef691f5491ccc7ca8d85501b197b93a9ad5ffa09be83e4edb,
      0x181478d3e7da97a2d9c785136f3f04442aef9a71b507f20b6e47cca56aa7a9e45,
      0x196d538ee43b0728a2a28e01c5b87169df7aebae792938ce632a5976409e10449,
      0x1052e56790d730b665e764f0de28c69d6382056c0236744ff6502769bd863b017,
      0x10059775805a2f1a9e797c407f95007f2e605a4f1a6154310e9218c028ab2d984,
      0x155759818f8a22dc5c56d946938bbef5c0ce147d9cb4de6d20c06b110e316b421,
      0x1b7e0cf5459a9150148908641c2e7c7d9f537dc2a55eb94c88e9c9f82d5c01a0b,
      0x13a74ea63bdaf892e80beaa8c5383564fa427c620cf849a7398b05dc2f0cc9f5a,
      0x11f7e55eca1bd520677be006d8e34b9665fb54310b7773899b6e4e17452361fb6,
      0x1e23a606b789ae0b17e3198ec56ed9af4f993df6acf0de2a732c2827db3c507b6,
      0x1fac451a8560880a12c127103ebaee67070e91848508324138cf300c012cbfd02,
      0x1845ed8a3a86fa7347123109ca8d5472bc280f77498b87365a1a9c29fa49d9243,
      0x1de2e2570cac9424f5150daa66b71f2e901b7dd57563489b91f583c2ca02be3d3,
      0x1e95777bc2e70a59eb57fbbfd9f6292bbd2792aa0670378e213dedbbd61139002]"

definition certs_1 :: "num list" where
  "certs_1 = map num_of_nat
     [0x15691044a4901cbd416aa594bfce5e38517602b0c5be0e539ed60f057a9c9bdf6,
      0x11f62a7cd1b67f0a4cb1051648c6d9b00c94489d5c39ccfd026a76adba409a306,
      0x15bf0110a1b2e33841ac5015891119a4b65fb0b5dc079a7740f6392847d2ce324,
      0x1a9cefbb2398fde751a075e9c8d033999d6ab7cb1cf3dbf4733eaf5f8a952c432,
      0x18197a7371801283f05095cfacbdbec99116e83b0893f4bb9c585577028ee41a9,
      0x1c3cfb69a0840156fc1ad4d65fb58a271fe2d5f79346d7c065a6b9b9c74f00926,
      0x1442fa7f8fec3fde23f315234282ac158ae5cd073d8054526ee6c5139d5e7ff7d,
      0x1c5ccfa104c4ea917c8c3bc7bdde4f53bd803da661447c47bef897c5fca45ede6,
      0x13541748facd1b46868bed551f2ab30fdeeecf5b3515237de78b96d75f6344bde,
      0x1d90a7d792d282235eff7a1722f49a007ed616b462ebb003479403bb048fd8d83,
      0x1934c81c6d9b632a9f3dd52ad03800717900ca6c845043fbcec1de38eb7216bb6,
      0x11ffb87dd592a5db160f711ad7a70cbeb3191b42b49c4613eb55dad8aaa6c7531,
      0x1df151fadca38f28b46d1e95bbd70287e44b7c6dd26a4d1c230ad372015834ff9,
      0x1784d601d889e9508ab04072506a8b174f5278c34e9430c94aa7b06e0af15bc30,
      0x1ece66530c6962977860b3d87e954b8dcf4a98d21e525e3dc53b9f0dbcbb0f508,
      0x1110d6660856a26f51ab823bd6fd53955fd362620f6c3b74d20c0f82e2faf52c9,
      0x113731e8f7e052045c917769561b48b6cc92c593c3dcbf9d93d90bd5c686b1033,
      0x1e13618d737a989ea1ee7a32ea1e8b4d21ce38f67eeecc1f8a114a8ea5551277f,
      0x1e3b5d2841d30ddf22e6c3ccdce4b63452df24aac7dc3004ef9e7424484c45807,
      0x1b84cb22cfc89e93a2ee3286f22eba23fd993cfb863226cf8ce5a2745bb4be98b,
      0x1dd1605839d4476f956b883a3c7ff63a33cf08321c5410af1b4fc494cc05e5350,
      0x1c1a8e347ef8a8d9eb3a06220e9608f49990082b39b08383d853d019d7000d8d4,
      0x1cbd1a53b7d01d3f3d5e6b80f7790c995e0bb7574018ea3980727bfa7a6933345,
      0x12e430dcc18c87e7b62625db74347e6bda17fd27d64485c93bb902e31f17dfba3,
      0x1d356e8ce367ae60a4e10de3b84f7807cb82d58f851fe8a173edb643cfbf8051d,
      0x11318159d212269000ab2524aa69d2134db16949c8b524d144e31b504ac97fe56,
      0x14eac4963c14804e3302b6779d28ac9ecba2d02f1997e144a3be429067fad8bb7,
      0x126fea1baeb2a4023493f5e18c459a0f35cb2afa2760388d7bd7bca9144bf07f5,
      0x1d20eda578f7681dc663b60417732c050cc72a09bfd7b2b94c974f582f5d45807,
      0x1e9286a960c0eb016907539bbe66597ec7ae8656f4bea496075dac159d9a2818d,
      0x1884c7d752f75136f2b49a9de29a5c44ef244495bffad8a8584b97f12063c4901,
      0x1b2dea88091ac86cdf10ab9187ad2975c5734fdd4d83f34abef97db4e9a9ccb91]"

definition certs_2 :: "num list" where
  "certs_2 = map num_of_nat
     [0x18001e01e1f9f658c825a76e79312cfc281400015e77e8d2f4e88b795d8787802,
      0x11cf5ad36a93ca1877f6dc53df2f9c4ee6598a220bef5ef1c60cb0d5f19ada4aa,
      0x1932eeab5116af1c33f5c0a84168a53518f016aab040477fa65d28b9e8ef2980e,
      0x1f00bc9c572f6251660cc4dca3359265166fe888f7a7db45e30c56e952a386951,
      0x1d12e97fabfdf331a97f9b47c43a34c1546e6fcc2fd6ec429d246da35a025a74f,
      0x16bfdc130004794290f67fc282a68c1241cae7dd9fb434a64880bd76c88056096,
      0x139f6e26f32b6a490edcd797191a02103e5c1a04b791957d03ac86a3fe20bee07,
      0x14cd8249466ea7251b6e481425733e002ff8c68807115da5181a455c5f191db81,
      0x114d48b53604e499dd98561a668cdc1a9201a12c394ad66e67e8d209fe2a30c1d,
      0x1caa483690cd91c3b36be25b3a3fd8959317e44d9938dcd849e583b99ed89031e,
      0x10f4cbf86d7d777d7d87b3cd3a893e199c763eddbb07bccb29dcafea0ede101e3,
      0x15ec987e3824f0c890b1f0e69848470e1c48f6be8e744aa2bc9ddd264176d6db6,
      0x1d3379ef4421678803b46638a261509b1a8e06e173eb65e44ce3ea78287a3d118,
      0x16617c75d916b10446791f8bc7953cd764f58d4c73556da5aec7d00d1adadc21d,
      0x11fb42b3e845fa4c51df130c7a98bba67589f7ffebb11300503f8785b57c3d2e3,
      0x13596fb0f9780a1adbfc648152c16a6101a66f1b0844a0d0ce9a4d1316f584502,
      0x1ed202e5075259269582a9bcc9f6c1545b419e12d853c384f378f83da21919e08,
      0x1957b6a740b9bba87a0897eaf847a6b75646288e74526c8b51238799894947087,
      0x12eb790ac1350818f10858b1e02c997425f408385cd2d7f09129949c44ceb32da,
      0x1c22efcc1e527e7d8702211de2b2ffae3894f9d8521424647695e29386940fba9,
      0x1e6c2cd89861972c4c7ab2b1e2ffaf632974a2882c5ed48ceaf803dc47fba02b7,
      0x188ca67d083c0f6f3118dcf7aa74c2885ed1086f5b003a6ae360d61ef848ec025,
      0x1009e551c09949b873ce46a0c0e080c1cbf099b9b9f2027a9a6d3de04503cdfca,
      0x100501c23928a28e5ea3794017e38e6d49ef22c4a9443b3e250868d3c6fde4a52,
      0x1b433d920bf270e17b387d48bd18b3c189334567fa8a1748489eea87aa9e8b112,
      0x169d3a1f6a588d6ca4122005e8ec707b89a5c6f51f8cb79defd38956499ff7119,
      0x13143812f13a40d0fd4a300eddb732e7f90b027a93555ed7fb6bbb2528d7730b7,
      0x1b56a30df72467a2347cf1061a08867168d6e514b37602e4361f52aee0e987cb6,
      0x188e94bb8b82b8a0bca99374904af205ddb26bc9f47bac070428eeecb9c02f484,
      0x1ca90fd34a44933675c39325fb0f77d85e781956d54af4808401ebccef3fd65a6,
      0x15349787bd0578b2c8ce74337566c4ce10074543b2ef0c0df6285bef178cabe4e,
      0x1a606949a74e7d2eb34f447cad751f3af4f4ec03b337a57ebb343b58fc25e1804]"

definition certs_3 :: "num list" where
  "certs_3 = map num_of_nat
     [0x1866a8ab1b683724226019e3207b936c8a570439e9a31b8ef2c7198848777a517,
      0x131741c7cbb7c191bf3a88a7b5eedfb81f62b574166f7f8485e1d60da9a17978f,
      0x19a182a913bcb7eca38e8821d6aabf9b3790b931560cf9d521976ec4ac4cfb7da,
      0x107794a8150e698c9bdb9ffb87aa2707a44834710b718bb736331fe26b6fc1a7c,
      0x1c3e6bdd79ca36af40e788ca0476d7f3929aa46877f62a5deba51dde62d232b87,
      0x1e67b76452b9eeb716738d1b62d388a5e01cc11653c115c5104f395dd6368e6de,
      0x12a497c139d7960b9e3a07b95d7522ddf8ad7c8cbbb76a5f1e5663d7a99447944,
      0x1e97c49148184cdbd71524b05731e0f6f5e8659d4ec517094b5c729bbc159dd3e,
      0x1702253588fcbb2e4e522c00b1c03f9852aaf91bf0a0d7453cd2e6c511772b253,
      0x15e93e46cec65fbe4aefa0975fc00c04bafb2631163a817031db9b206dd0d55c6,
      0x16f3c8352e089b71e1ae0e1c3a0e59221ea9f1edf66777af9332459f1852292b6,
      0x1b00b2c4a015ef036f3cfdd6bdacb3de17aabb256d0147fcd7e9d3a45d996a8fa,
      0x151a290af51cc32c6a825bd32116f148428f46eeaf7985c14aa952d6e494fb00f,
      0x1ccbc7035d5726095038a0dd88e053a5390dcde73a6279f6301cb8eb109a1a678,
      0x1afbc38c5d1598d4dcba708030026b2529187dcf8f6242c0813be76f1c2496095,
      0x1aa9d9fef57fe3b1c3a762043fb5221c385b75f44719838139f693bde90f174f6,
      0x1af5e52475c97b525f4ff2087e0a19cad778e9ef3820c8271ab6193833c9bd07f,
      0x132f51de7d42679b4b4520ce2a612638ab476d942032c747cc13add1fe8825540,
      0x136b36c6814587b88cd00fcd5ce84276f4eddb030ece417cb5ca4fd152362140c,
      0x1acbd1d6da7f6887ccc595fc16195c527dc2e7892de5678fc28008597c3baafd2,
      0x1d4a4c9facb141d970299ab594a24e912e51947f8a6df8ac52e97d91450637f09,
      0x1e386771017ee96eb3a24189e8054c6b2fc0144153569763b55f5ecdfe8f12dc3,
      0x17249b8c96422e08bc7d0b731e1dea7a6b2eb506c2a59818dde457822f6e77729,
      0x1cba67d60226ba647f7afe352b43ef1e713004dd19dca1a41e460fceec23d7297,
      0x14f0485d9576911843dc748427ea39080af8c1db2a281c6543142a2d9e28480b5,
      0x12fbc21f4d2d5e680103d8db01e74d2f3dba66377530dbca2bb7bb08b0f640387,
      0x13a0f56687dab6e3b7a190ba8df4238eda80c848e193daf9e24b2f11a18f5aab5,
      0x1de83f3b6bc5ec5dbb4bb65da798d5e5d967c0880307858ebeac2c7fff359f410,
      0x14d18f9a6f9f7edc37985eb8ae0cbb0ce7d1c11442dc8559225ca497af9ca140c,
      0x126c6c0453ebb96b3ee3e74828aceb4694b64f8571ba2210102c13aa1371ccbdd,
      0x1d4bce472e9f101fc45d91c7bf2ae3afd1e6ab624290e473818b7991367ee3e83,
      0x1bcd025634b2ee0689c7eb5947dfb35510633857df5e26473fb7d838410ff7aeb]"

definition certs_4 :: "num list" where
  "certs_4 = map num_of_nat
     [0x18001e01e1f9f658c825a76e79312cfc281400015e77e8d2f4e88b795d8787801,
      0x10bac9b1267146082d524bceb51a8bc5a23779e1f95aca50bdfb904caf7649c66,
      0x18ee4e678e5cc1649e9585d391065444c7b7f267fb9a8db63a8415c6cea01d805,
      0x1aff807573b47a5fadc2860030cd468b3dc2a7863938065ff9b4c009589b87730,
      0x1b0e4cd427fa0a801713b376edc824e8fc3ddaba711714a2d3acd6cf5f04ccd3a,
      0x1d955ff041528caeff94ef0a2fbc4ca60f5e5d4ae136a30160cf6683d17ac8f8d,
      0x1e8ace1cefb782578a7288c6a6d7c95825d3f60206d5c3b7a62b7030c31a90a02,
      0x1c4495c67c8b397386e30247b2f0dd57d54fbd866955840050b93165a3f20e680,
      0x10c4c7931203a388b4883209dd844bf671ff60e41739b225dd584e0755e61040b,
      0x1466381270448f416ed95e36e9eab78c8ef2a3c488e84bb7c75c81688a487010a,
      0x1fac52a9658589445b4454f0b85922a0bbca15b502a7db25bffb68f7934f0af5e,
      0x1ca463d4a94d0bd700566a162619f5adc420526bee768902ccc446b3a9d748b6d,
      0x14eed75ac3e0dd78016c22179e20cf890985fda0d159235c3ba159d7e7d614f08,
      0x1220d42cb70d90fc3dd70a86bd73144d23ac84c42eccdb6365bd4ffb09b64be0b,
      0x10a93e6ea7c3563bcf4af104298869622c8752aaa690f10030157d7c932beb1a1,
      0x1ec8ce9116795d99396d19cb606111773085daf76c66d0d31d3936a09b5679301,
      0x15b1fe5cfd31c8e2737e676bb8adbf33c93f75f1b7cebe83aed7a8149e08f75f8,
      0x18cd799c7ec632f759c148edf9e3553afdda187bb86b6b1a68518f26ee3dc7f82,
      0x11a6d70640ecf80850f83790a01b88d3e353f817cbb1b2af8f188c743c45911b6,
      0x141e5abbf5ce2a2b7d01e0f4a191aa9a178c574831f3e3dc2d8ca18e8273fa967,
      0x15dbe44877df72e43bd66e6f5e55652118d39e781bca4c7ba657feb43d569fe6d,
      0x187b89d5b9455eb59f3171e6c80d892ffa5707db5d5aa6baf990bfa43ec2a101c,
      0x10075ccf40773897d145c260405f8040b95077689751fe2989db14a03cfebb546,
      0x1ffceb40a9b6c5eaba58128ba37f4d7308bd1e420c9959894448d5e0d4ae59631,
      0x16c1148e06ae2fa0d6e82b386b086ebf78eec322a9860d383875a67d667586f0e,
      0x1274e9f5263784db9c0e1ffca7a42fd6876342530a846d74a54e8732388aad0f7,
      0x110c17f1af163fb054c61005b492ee5d5706fe298eccca4d56d9691ce7b2d106d,
      0x19327505ec4d790e9c129549a7d9b578e855a30dfa88b13f4aba3c3436a27846d,
      0x187a6797c7d0cc0f1ba1b49821e799548489d946c78c2b61a4a8a80a01bae0383,
      0x1467054ec63c71122cbe8ee356fad2b7ca2808cdb339ac7f83ff59445aeab2362,
      0x13138d7d6b03286e47ba2c112cddbc45f002c33e91a50404ade7c95af28466a3a,
      0x19dfccc623948f751efc0660350d3dbe63b45bff05482c4931a31b663d19a5803]"

definition certs_5 :: "num list" where
  "certs_5 = map num_of_nat
     [0x17dd9866f6d812e3e1dff75ee029712479cd03e8a761097a51bd0887c7d2d630d,
      0x110d3f42b96d408f6ae9879d6ca5b5680ade6cd3f2252a83835f4dfb6760d7285,
      0x17608198f16b92a4617a781f4d999576ed7068ef3204574ce08d25bc643ba92b6,
      0x1fd29866b2548314f9704f1d2cb82a5553dfec2e928a360e4aa1f8f04fdfba62b,
      0x1415d94b28b9ed9ac05d784603d24d5171899c27d2ade634a69cf4b5de4e1197d,
      0x1a2286dd70c601fd8217bebd706f4f349013bf0c5ae5bc205775e56524e880db5,
      0x1e639941a9e3d669fa2f38dc9af2d6e367832b85fd3796a9ad7d2ce30e76c78c3,
      0x1a72a87186a69fd9c2ca2624633168fa6340237551e642646184dc2702f671b15,
      0x12fe1cec87ab96e5c5ce1bff90bfea883199a8f6af9fb2c3144e5dbcf0d2e6e31,
      0x1358ea3dba42356a39a56072cabffbfc69a91def0de980d010b6891fdb4fb3342,
      0x1daeac125b56d2bfd0a33fbfb8240049c580af5ac678620629a131249ecb1de6d,
      0x19007a42dea2016e552d6ef9c545a61dc28196e2b0a58dc8ea17bccda272237a9,
      0x1309e706530bbee4267e36b11f0daf383e7ac25a65288340c66731b25c73a9005,
      0x1446bd0134cd1df8cfe8604b785fce9ce8fb44a2e9de28adeff468590f89f6228,
      0x19a9557a8a5dd3dcc450ea3441dfee4b28efd4bb117b712327a6508b62e688f8c,
      0x1998a354ed840500315be44844b2d6a3d82ed35256adce1c4fe2833ace00083ad,
      0x19acb71d6de98d5ebafc6bb38427c01182cfa75b7c450881aedd054678426e02a,
      0x111acf4a2b3e2289393ce045e620e217993d248c1fee42c2bbf164b0aa781ccc0,
      0x1126edbd80c37d687bb00544cba7c1d253a4b6fefa45c0d46cb9c54f31ede0c04,
      0x1646b0b249d52782bbbc8cabf208cbce2b41a2871b5cdd7abe7ff8372be96654e,
      0x1b39d074253e64d85fde4c2722400d272a288c2b127e18f896e826deaa0717af8,
      0x1a17c92e4184fcb51ea7053309dd0c8ed5580c3ea568c242347a38153c800b4be,
      0x12e3897b8dc1e5f86bd4f92ef5f4a629d91a6cfdbe6377f7b4a3cd7e1ada2d2e7,
      0x1b9636b340b3324ca5109058b71f6da21f0803b563112fff528d08ebcd1bb7e72,
      0x13afc7cb732d8f083eb42c7c1d59e8f80657bf4919e7f4233ef3e61b75e7c7f93,
      0x11a941f53b1b35d800feb7b6ff5d3b1aeb69dded2cefb6b9e69296f86fadc017d,
      0x1e9fb8dcc3e73631e2a64a222a8dd62d8667b839cb2bf9340689e8a109803366c,
      0x1b5801179812005be6ffa87f33567bf4873abf866aa7cc1932d4e984c3e98fc0f,
      0x13b0857625752a4bed77ca6865fb96fba2b0bf0c3e4b83371e34638d657460c04,
      0x11dbdbfc315968d915a15d381864593d8c6dc57cd0961e0ff01bf1660ed0bb94b,
      0x14c6ba3d1a750ff543cb70bd6ae65e9ab0a266de3e705c2e8086d770edd5a1581,
      0x16bb01cdec6e5a0278bd59373d4a91330fdee832b535e23d156d4817c0faad659]"

definition certs_6 :: "num list" where
  "certs_6 = map num_of_nat
     [0x1866adcf2e66140f00d7d0afb958101f42f30c3c2d79a936bab40956845aa7bc2,
      0x11fb9c39ffac53106471a9b260b5960064dcb338ebc028dee286ae8517757fe24,
      0x17a4aaa2e2831bdf5caa77e848250e1eb75a365aaeee7dfc975d675b0026c78ba,
      0x1a6d10f647576a0bc8e191855d85e9c71131d3f0819110dac1a182c7e5590a2cf,
      0x17a6472b435853ab7a7d49793b10c6ca2b66dbc6c8e721ec5b968fd9b5e5a04e6,
      0x15e39c7d203dd9a8302fa113e3da0a3b3d87af871bc6d1e1a82d699db2bf20a7e,
      0x15aeac95de65bd98d49eb5194428a5a1a52c9827ea15f307205eaf026b67cd21c,
      0x1dcbd72b07f7153f3588deec7b7fbaa3ac67c45c0e2d1d397cc53fb59e28d79c6,
      0x10d198153e1d54b8fd5372e90618a5fc98b0d093a0ad8be306bbf8941d7a7e268,
      0x127979d4eed9b0a28898bc1a04586f0dd90b697eccb53f4032937d927fea372a7,
      0x14179486ade570448d4d208f74217ba92667f0359bc03a31186fe60512e024324,
      0x1b27f98b262718f39d1c75b7bdae84df783c6143f4ff9291c46fecc93c974a2ac,
      0x199947bf852fecc514311255582c918d72dd01f713820129ab6db3e611327a825,
      0x1cd81af061e58be98ebd2128cb005062069a2a745c5ab1a7dbbf57dfb37206e0e,
      0x15e905890dad40d0f64e99ba5d5278aa7e9721ff9ccd8ca4e0f1c9f4714ef1793,
      0x191b0a5a1f51f03e8ec80a00f2844b3f9587d96381a19cd775e164a023e1aae05,
      0x113d823739b423aaa21299c2626e57b65b9a6773131f5fd5bf83a9a79d227904e,
      0x164c333979a95976bf94477e5b9993aba3c908bf890e99ba7d1c5df22277b799f,
      0x1c7797bd197c3bc63d11f409ff57ec18b6f5fa3265894fdd080529d31cc1b00a2,
      0x1839748f8527b78e24ad8db01202a6d19c1a4b279248c54c1e916980aaf900ac3,
      0x1c4b79da6c325c44ab4c34b7abb7df48f5c72c4a170360dab43ef080f67230536,
      0x1bfb39e358d3e3ec54832ee23237c8bdc278199a081bec0b446e2b600357f9c56,
      0x1d345dc0027f54d06369d18ce839582037bcc4de938fcaa71371467abb7e945a5,
      0x197891548790cee35b306f71ad7c90e3ddc067dcf45e17124943f91d006de2063,
      0x1f4ed645d32a5224da76f3d586cb17df797e6923813bdc84648adb4b92761703a,
      0x1304f119f2dfa2851e4aafd8c0884862afb77222f376dd500cead56f2235826a3,
      0x161e193ae6f6600fa9799f7551ce789ae4ce483682ad375873d5b8d16d85db338,
      0x17791f09c4ca7d59f55835b3e1bb3e29eb94f6b2862eaae4bacbe859e323172ef,
      0x1eea8066d4256a0c85096aeb64406c494716fc7c7aa96e5271c6adb662e4c3fd2,
      0x1e292287aa4833432d0a2fad26673b11e533ffa03752365155d2366f29d3790b3,
      0x1b6293eff4bc30337c211b6094bde104dc078e4a1eb985d7de25bcfca6cd7d8bf,
      0x1b860663c21d8516b796d39b39dc70af4fe949afd48ef38131c0a457be1626413]"

definition certs_7 :: "num list" where
  "certs_7 = map num_of_nat
     [0x14d8855a62bacbaa67ebc25e3a67072d2bf614624cf25ffa22b4ac6d64f74e9fc,
      0x1a0f89fb0ff469b5955a693873fb7c711115b4b03e0dc8fe05a554d5b800b224a,
      0x1e521ba4be887fdbaf978a64c4fb85b1b9f834ea70a4eb82ee6325bd6f9e35e90,
      0x15d0b6c60d166f26f9d97615d55f3217e378685c07f64210e65e837c0bdbaaa3e,
      0x172aa4a50414a5faa7e26958fb9216b1196ff04240ceb680f0a20442907ca9c1b,
      0x1025b66a5cfc1d486085906fd071331fd48b97e2fb67cc0eb6d1c8356dc7584c2,
      0x163dc7780565c42803af4c49a84005620b7fc31057e4488f383bd6499bd3bfadf,
      0x100bdb3db47b5b6aebe007b80b34c80da42388f63b238e4e856333a2856b37468,
      0x14579755d10f7c55690461db968ebdd90e4b6b609e8767bb51f2dedbae1a5ebc4,
      0x10527d0bc856eb799ecb55cde566e11024b5693578b23d522a72a2e0dff8a6413,
      0x182632a594fc20bc2a237a43c79364b57a7456d96670c2a6372998eba8087ddea,
      0x1f58a91de2a58da72e196609d187214ccd27b931c4a4259933070bb0c1efefa85,
      0x177ad071973e16d6d513d8a6bdafa572a5fe0727908e482617f0030e91b6db4ad,
      0x10cd679d9f3fc4af91e4ef8380d279c6d5ce187ae61c83c89cb9045fb3ba40784,
      0x1cdba2ac85a879bf8eb9e45bb6a6162e3a7b3731124992be4b10b0d3724b8bbf3,
      0x1ffd35018fc012692274d306206fb3122476cf0e64954241a50dda631d889ce8d,
      0x178f09b7aed430a3b8cdac62383e39d394d09d19fa4744e663059edd77aae4040,
      0x12b8f93143e35456eee7b0a93f51b524fee4db5e302ba4e42a1a7b3901cc37fe0,
      0x12deada5c1e74464cab8082bf29c634d8e9b368289a961c2ef2f6839fb2d31e0a,
      0x1fae393db740dcc42aa75f021d15f27b4323944dbb17d44823c00c75c2267f83b,
      0x13ef74d19b10176d0018f08127c24525916d5e41112cec288f754820ba02ab88d,
      0x11244ac860386b812256c6236536c6a290341e60a48a34009b187ad25c4f1c322,
      0x1cb6c84b3c9acf542a6629a4e82233bb76adef84fd80bcc647fef73a655ecb4bd,
      0x12e74a3ce2cc110e88e22641c7d3346d61bc06b2cb4519a4e58d8350c7b5bb3dc,
      0x1e887272be342fccaa17e9a84d2e09702790a137e14bfa851676b4420cbbeb8ef,
      0x1b863d110a420704c9a793d8f825c7448b73552d91df5efdca84edf5b50ae7a44,
      0x1a7091d425ce1bcaa454ff89b23f1eb59fd4ac6dcf2ddf57e78633e02ccf707ef,
      0x1b1c20a6de271a7366ee6d737454bf1735d420cc02844749e1fa3a4000af50e18,
      0x16b948575850c1b22c5471e4f90ae68a9439219e63b2c7f5b372f6dc7852f1e0a,
      0x1b5a44079be7938669b7b38245cbb219f6f968469710dbcaecd29106474ead633,
      0x13ee376558296e48ee56fe4a198ebe841101fed23daf7e98b5a64e20f0c6159c2,
      0x162b9d7ccf126f5d0501b99b9d014603b046a47d6e86ddb65484bf5d3c0f8bf9e]"

definition certs :: "num list" where
  "certs = certs_0 @ certs_1 @ certs_2 @ certs_3 @ certs_4 @ certs_5 @ certs_6 @ certs_7"

definition power_at_0 :: num where
  "power_at_0 = num_of_nat 0x10000000000000000000000000000000000000000000000000000000000000002"

definition power_at_16 :: num where
  "power_at_16 = num_of_nat 0x1d87f8ce230817a21ef43beaa06f02fb892ae7ca370c0bf6b7e89ac5ca2fbf2c7"

definition power_at_32 :: num where
  "power_at_32 = num_of_nat 0x10e055d3520fdb9d7214fafc0fbdbc2087d8d0632bd08e6ac58120d583c112f69"

definition power_at_48 :: num where
  "power_at_48 = num_of_nat 0x15f728be2c97e9066474579292f705634f825539dee5e4763f11fb4faea62c7f1"

definition power_at_64 :: num where
  "power_at_64 = num_of_nat 0x112e4a2fbfc19bff934faff184785c20ab60d6c5b8c78f106b13c16e8096f0754"

definition power_at_80 :: num where
  "power_at_80 = num_of_nat 0x12c09ebb60b81941a5d23c239088b488e0355dab5aaada3566c1a4d1bee4cfb25"

definition power_at_96 :: num where
  "power_at_96 = num_of_nat 0x131eebb6c82a9615fb27c05962ea56a13cdb45d7def42c317148c356c3114b7a9"

definition power_at_112 :: num where
  "power_at_112 = num_of_nat 0x119809df824096ba19a5475c8d2fb2d20e903694ada9d6795ff09f37df22eab9a"

definition power_at_128 :: num where
  "power_at_128 = num_of_nat 0x139abdc4529b1661ca9582618e03fc9aad5a61266f0c9392c180ec6d33cfd0aba"

definition power_at_144 :: num where
  "power_at_144 = num_of_nat 0x1b81875d0f4f6f253962c90a866ea6719c51212c8b1aa27873dcd32f39276a95f"

definition power_at_160 :: num where
  "power_at_160 = num_of_nat 0x1f567382197055bf04823b45b89dc689c69e6e6e431a2d40bc04b4f9c5d26c200"

definition power_at_176 :: num where
  "power_at_176 = num_of_nat 0x12432aaa71d816e63259022fe05f4023e0b4df9e68366344a053ff7e4e8581163"

definition power_at_192 :: num where
  "power_at_192 = num_of_nat 0x139109bb02acbe63577710069854ee241c5004e441c522fb376e15d3efefdcbbf"

definition power_tail_0 :: "num list" where
  "power_tail_0 = map num_of_nat
     [0x10000000000000000000000000000000000000000000000000000000000000004,
      0x10000000000000000000000000000000000000000000000000000000000000010,
      0x10000000000000000000000000000000000000000000000000000000000000100,
      0x10000000000000000000000000000000000000000000000000000000000010000,
      0x10000000000000000000000000000000000000000000000000000000100000000,
      0x10000000000000000000000000000000000000000000000010000000000000000,
      0x10000000000000000000000000000000100000000000000000000000000000000,
      0x10003c03c3f3ecb1904b4edcf26259f850280002bcefd1a5e9d116f2bb0f0f001,
      0x1be7976372e9304356dd49b656055c9da81f675e7a4ef7d84c7327d130e34b489,
      0x165507439cf43f0e28456faeb6230d9841be1d76854ddda93060106bbbe4ff028,
      0x151edef31819e01ff3c8ca36ec9a74fa715fe822628b16f04876c2301125a85c0,
      0x10f41cce3698fad39aa6eb691cbf9ce10d638d47ec5bcf595d7f4e8da7e228b85,
      0x1da66e09e52b341d132104b94fe2534d3b1df898a4a6f1548669da12373880674,
      0x13cec2c375bef249c023ecbee3f717fce3886af219b8852484f20eb915e780231,
      0x11a9dcf944ae47603a69393ac0d837e54c3ce2f061f077568449b3ae793888c8c,
      0x1d87f8ce230817a21ef43beaa06f02fb892ae7ca370c0bf6b7e89ac5ca2fbf2c7]"

definition power_tail_1 :: "num list" where
  "power_tail_1 = map num_of_nat
     [0x1bd53027696368bbbf0c168649cdba61f54adade3697d477f6c4adbe18e29df8a,
      0x1f78a97c0d882cd371ea49b5067452594f2c602feb5ed002b1a673fecf40e36b8,
      0x11639a36e0968e3c5590923d02ec52531770323eab8d437bdef4606da56224c47,
      0x18b3919a9d298a4152f679f694a74c76a7cde241817a3ce0f31d9d05c5d95f3cd,
      0x1624eb7b63c322e71d9b36372fd70ec83eace6d3840b79fef6b6622ae9590047a,
      0x12bac5517c9469796cebbfd2ef4e9aff4eb2c7e29d3c33d2e1b91fd9ba98d9e23,
      0x1fb678bd3e5dac186657a6b736317866bba0ffb6562a3a28a01f356e6083fe109,
      0x1f5c010059e83bc3ff3469dbb4fe25d26e46916a1426b676dc5461100f197a7e8,
      0x1e677849e207f6afd5de3e273dc7b84dc3eec4eb6495ce5aa22dc028cb8c259dc,
      0x10d19a1bdceb7522cdf2332a778d9c8dc114e10c3b7c36788832d418900fd3b0f,
      0x1f38f7e750d5f4f2a98273f4d18ad073e8b3ed7c37e947e38e2d0c9c10e8d7157,
      0x1afa9e3fe5fea15c36d48dd206d56754d34f30137eadb90b9e7109518f3510d70,
      0x11ca234ff511bcb05c76a456d998ddc4cd7c26ebd51ecf6c48ee774f507ec9f39,
      0x13e667662caa54d16e0e9fa345826626d352f8b5d2137de834905d8261158a7bc,
      0x1a43d37468704d53682b9aa358fe2ed58e1185a166bb38173272a32be4bac7912,
      0x10e055d3520fdb9d7214fafc0fbdbc2087d8d0632bd08e6ac58120d583c112f69]"

definition power_tail_2 :: "num list" where
  "power_tail_2 = map num_of_nat
     [0x1a1b7ebf581a90f09ffed2ffbcf857b425d33a22177777716d9eb3e225a9ebb7d,
      0x10afe97309a7881b0a59f09ab33f1c8f40c2e65cfa3a44f3b3a433a5cff8501f4,
      0x1c1cdf918a717c89794295f82142a68bd53a34398808ef457635e9c6882ce5c6a,
      0x1ac7fe0806aecd6c863d3f9df102dfa7e306c4d371040af1e1a2c804af78e2ed4,
      0x1702cf168260fa29e976589eefbb1c7f57823a1cd9453899b7743a154e17a5e9b,
      0x1c4671ec91b902bae03803bdb9ea7d7e868ef5242f2d9c5b22edfce1b0667bf3f,
      0x1755b16e231d1e7c9af03bea7ea7109fd0af3e6140fcff1854d2c07a0b0f7980f,
      0x151fc9b8eb1974e73eece73d85df1836113a31dc36460a3b0d24b31ab16542ea0,
      0x1fb43cf1f4658ae1bde49d57f23fdecb5a374bf9822d660aaec9c79ebd62a4a91,
      0x19b48db8907d00f973aa3d49368a9c56248b8b0570f008a917602414a37bf1c08,
      0x18ec1a9dd27957370a6994477ec2d6d859e11e129fcced20ef7569be74f972355,
      0x1ba8b1a7be4521854f6c987b8eb4f76db82f1f8d3ebd9baffc223943200d6e8a0,
      0x1a8f7de3ed772d2d2bad2e3487a438d37f6faaff592dc08c7e226bff99e7f9d4f,
      0x13c63f6f95954e65e181d6c749bfc7e7bb006241469247fbd6322f95d362137f1,
      0x181f450881b8436920df6566ff12f17f469811136f33b48faaa878816402dab5f,
      0x15f728be2c97e9066474579292f705634f825539dee5e4763f11fb4faea62c7f1]"

definition power_tail_3 :: "num list" where
  "power_tail_3 = map num_of_nat
     [0x15ff98760441a364cec104b9942b386be36d6c9bc4bcb56f5f18ac1f5eac5120e,
      0x1b01e1ff4eb0b05f6d1c440c801f3cddf168b84ac131ea85612b825906ddc86af,
      0x1140bd5e4e00ffdaaf1ab1bce1577ad4eb5bb35fe03c3158a5696a9ed59ffcbe3,
      0x15177664e86d5e31b49c2df736ebe9c688eadd052a304405f61507225f9f0e0fa,
      0x1a93a7aadeced9cd75b8d5f58ce3357a7ca120d886e8fdf3387aac36cc0c1abae,
      0x1d5372758d87157efa6f4a2ea423cc2f62b95939579346af1d4eb47064a9ac499,
      0x17e0b8abe53e950f8b86994c9cb3059a556df3905d6712eed549bf83ef12aebc3,
      0x10888f2c33969763bc405c1164a3a6d4927cc40c1479b95df0b32b0dbe851dd9d,
      0x1fecb2b39fb96f07831acd0e23e87d9d37e5cbd2047cefb5e920a67ed72aa1155,
      0x1f643cc9255f0674182f88d9e6b9b17c097a6c4a0d2cdf9ac9841d4c5510c4700,
      0x1e8e07ed05188af0f65ba2fdf5fe59ed155756dedb136961f30ac848541c0b04f,
      0x1679b88958f3bbdcb04ad0ecd62544db26d885bb5321527a7adcede280bb92b99,
      0x1d10d621b74213644bbf25302a56d6131aaee46b89b10620184db0e338a94ce16,
      0x16ff477672ddf72b15083dee093b632b731fbe8b0a2035587ed3c94e03147ca9b,
      0x1a9559a2368719526bae4d9a25a3928b922a36cdc0fda409f936ece877e64cc97,
      0x112e4a2fbfc19bff934faff184785c20ab60d6c5b8c78f106b13c16e8096f0754]"

definition power_tail_4 :: "num list" where
  "power_tail_4 = map num_of_nat
     [0x11e22c55ed04628f471c9cddcc21b4d96e9cd737204214bdf69135f8ae4f3becb,
      0x1b6e16802c1e5a473d3c646ca742cfd35cdc2f8abc30facd843f19411729e47a3,
      0x171583507471df592e9121d42d889f1e6cf7a45ddbd380c46e1040fefa7016612,
      0x1790035ed5d8a52063481941c63b9723bef00865ccdc62b407dc73de451f84f31,
      0x1c5245c9108c8303b1b2e1e5f58ca50e9e2b26892066519e7b7fde9c10dde1033,
      0x172636702af55f1ae80dd958fc2ce8b38d0229895c9855019f7e31117fca1fde3,
      0x1af24371b5a1a053d59970509d58afcb4369b623ac732f278f4fdf1938a08c423,
      0x1c2a214d5ccfdc9cc98aea009de1e6b3b4f2a8443cc705e1be38bd8d6060eecb2,
      0x1045c97103176ad4cb35a81ddfd74498bfe60945b17507ff1779e326bea03051e,
      0x18c79d3fd0cd87d25e54b1f90f1804a5b967c5d39bff598c3f99f64a8eef50acc,
      0x144a26649c72eaf799b135f39cbd2444200dc697c0ce8f5bf5bf7c3946011203d,
      0x1621f84d4c5b7d5b26f0bd8889bc16b6505063f82926b10501fe0ce6e4a5fbfa9,
      0x1afb60de4ef76f2d8a2ce3240999f03958cac609dd3f769ea0bd0d4953231dc02,
      0x16d9d47d177fda8e15d5a93bb678d1ff3b46e28d0dd20be9ce41a05c6d5ad6443,
      0x169b492ad849876a0f671f175f29bd401c05cb5489fabd6ba3750097bc18818df,
      0x12c09ebb60b81941a5d23c239088b488e0355dab5aaada3566c1a4d1bee4cfb25]"

definition power_tail_5 :: "num list" where
  "power_tail_5 = map num_of_nat
     [0x13d8c3676399ece2d1c4df4e6dc4daa6ca77d08c97aa93a7b85bc661b5fe4c77f,
      0x1d6fc185137af1d8b97595ce59431e3aab12fec5cc69849360d50032e0877ba29,
      0x186b251394485c94bd5cace972fee73fa754228fc6853084549aa26e5d4bf7857,
      0x1b0baae7f98b528c0bff33c810d4f1e62dfd675636a53a2ad8d480422727ca5ce,
      0x13fa865ff30ea93f76a4d1fd3bf02d5587d85e7cb6751bcbbb0908faa94bfc92c,
      0x13c3c2884d98788bc5aa4dacdc52add36a789c54654ca7c28d0d6be52a69e58c9,
      0x115e0fed2f7bccfef4c9ca45e4bc2a3c341288120b4579cf85f3f3b8fef0ed6b3,
      0x1a949942afc5a2f2c9c885317a50787eb53b8a4a16a46d7c3d262b21891db8d4e,
      0x1fe740ffad9e176874ea029ea5dbf8c1dc0a2019a1a152787718aec6a573de99d,
      0x177a27a67f88f49e1228277008b5fb66935e2e29698d7eb0d07f145f47c78ac8e,
      0x11029f062e580da266648b4ef24a588567c62ece20d8be0116627da855e5050fb,
      0x1a0d23922f4dc99166f17a03a6bc6a87734092a8e98b795bea9ffe6995923a7b1,
      0x1336f2f9401f8204135e67f142da25aca0ee2caf1df36f661062e89b53f6cea07,
      0x1a3a29886c86c3cded617e92e93ea456793b549a81fd07be4bf67135726c63517,
      0x1fe0143fd314c9e7ec51d91ed4856b46ef9d3a86c856b8a2621ff06188c9cc699,
      0x131eebb6c82a9615fb27c05962ea56a13cdb45d7def42c317148c356c3114b7a9]"

definition power_tail_6 :: "num list" where
  "power_tail_6 = map num_of_nat
     [0x1c78709f4e0724160d863413b92cae906d8aed72f2c4c8d065d4da92b5d749ee7,
      0x143b4a1c47d75f54af59e618faaebae8ae2ece3b6969fe76ac72a478e776aa7e8,
      0x157f74d5c8e13eabef018da68303dd3aab24feee905fd903285043fb7b5ec46d9,
      0x1bf7e526feafe9fab6bef1c2cbcff5536a797dd2a234c782b1fe7835e4087fe62,
      0x1944120083af78d6175b4d7f6cc9f25e15aa27a47492448382b8e518ff5d4cf7b,
      0x1a1d8b4c28aebb8511965ee22fd231ead1bf5aad8660b3dff3d6f902c3475cabe,
      0x19c9e175a184afb5365e7e4d9e2832455c97a1beedb0cd1818f55a96afe8c60d6,
      0x1b9d862913d6f7e400a65eef99174032874b6da57ea2bc33a652cb4ccd4073f0f,
      0x182998b76e46a33d6d4b46d9444c365a710698e01c2ae9c871045804fface6bf3,
      0x18da69514b40b00e7f1a9cb543a0bfa1002416381d70e6c430a2c871d4e66d5cd,
      0x127b45c44ee4a622983d4e917f16be77b4dc5ff02cd80ea1db79a9592b42dcf38,
      0x13762beab010e60b1219d46c745e04de7ae1e5f3ff8b477204d5d5691e346a117,
      0x11cbf90cd7272db76634ad6497e9d5d70b46fba890f1ca8f6a26c20feb2ae9f7d,
      0x15f46daf7953c1bb34fb63d3b5eb990979b34b9c8c6c9c0e0b0c0f65d5e452c0d,
      0x10127923940e883a8188dc353d2d4788aa08f672eaf81f8987fafc3b0810db88e,
      0x119809df824096ba19a5475c8d2fb2d20e903694ada9d6795ff09f37df22eab9a]"

definition power_tail_7 :: "num list" where
  "power_tail_7 = map num_of_nat
     [0x17ea9fc3051e87b78e6a590ca622a3320861797e8573bfcd7656c70a5f3f5c710,
      0x1644a875145d5d51f84d72b234e8a54795ad3eec2014d42b66aaa9929398cd48a,
      0x16d2cc53f91af5f85203951cfd23e94cb00659f02b37a017c6c738865ed73b377,
      0x1c0864662b10083e8bef3d95e4e54413a8bc10737770d137ef7af674289519c6c,
      0x1cecda49faf04bbfbeb185b3b61ef25071d6286a155723d48f5238b0ff86d1867,
      0x12732a7244a31e5dda02ccbd8d031b5d599c6cd156b9744df644b243f9d056a3a,
      0x1216f9077c64f36f6df8f6390d609a5d475e9335039224b3b25523b168236da8c,
      0x156ab0ca212a8d012ef5b7611f90b7c08565c9f7a11c40482c291983aa3a3a178,
      0x145c2ad3649667c04c7abdfbc652abf3ed73fe72ba2d98892b400d4604c1d59db,
      0x191c1510f9b6f2ef8058b3d55bfaa4aad543fa081564a326f9bb885cd5aa00a8c,
      0x19d6ef09217bf59b753c8dfba6c9aacae09cf7d85a86c1a907a3e03325fb2eeb7,
      0x1a1a3090ef816c214d8289b4ae487d7e10bbfd59ed2151f31e98651fa6fb0337b,
      0x1aa72e405fb26c80a56e93ecb5b3619951b18a0517cea386aaeb33557c76543fe,
      0x1fd4d894c8f82680a8397aeedc528c3f057c811875c62528446555cf90fc3d1cb,
      0x1d46cb8565abad18ea50845f0f43019854dd8801baa92fddaeacbd852b93bd815,
      0x139abdc4529b1661ca9582618e03fc9aad5a61266f0c9392c180ec6d33cfd0aba]"

definition power_tail_8 :: "num list" where
  "power_tail_8 = map num_of_nat
     [0x1a23e49ee6f1a7a8da5a28cccb37dba5bccfc8ca2814de79e8cfe9bd9ab71d992,
      0x1d4e9921bccb8090bca8a45310219dc675e38f4fbb6fcda721b2a94a672a48c05,
      0x1ee658f69deb5df26fa0587a90f71743834cd4cc8228d74acf30974a2b1dbbb71,
      0x1d7aaaf48aa459c582573e3218d8bb7dad2c0d8e0c8a2fb9bb42bd4670583b289,
      0x18fd437c01abeab24d82be75b83dbc2d0cc7efdcfed1ac303f6a5ab84efb67883,
      0x17d16742eceb4d5abb0b87a330b854c8aedc8b8d02a22310bc85ee5171484f5a4,
      0x16533981804b420ea13c97c0891cab48a4157dc48443e35654298ba0e862a6007,
      0x1a1ee335d14807ae0613b2ed9f0acc107edc28c89cb341660ee5f5a6f02dfe47c,
      0x1799d469b2145a8a30531513e8e0ac7064b26f71c1fb1b47b5ec3050c6b43565a,
      0x16007bb31ec5a2964b6acd7be4906b73d7123f2290a1f413b34f0a6799020283e,
      0x1ec907801890a47ab7e42d6f54484049954fe6df4cff0db73aa0711c54877febd,
      0x1964e9d188c16508ed8c4367e574ab1603ec263f5c999196e03833e601d82a673,
      0x124d9ba21277dd8d815ac212f3b861b5af524fd4408357a5cd64f3f2aaf8f2171,
      0x1f89354cfe1e6b5fb17a7af3e97d8c402bbe0e2c0c44b2e1cfe9b778d7d1ca2de,
      0x1b89526857566cd94aad8c318bc459ccef4873d277cd1ab72695cf225704e767d,
      0x1b81875d0f4f6f253962c90a866ea6719c51212c8b1aa27873dcd32f39276a95f]"

definition power_tail_9 :: "num list" where
  "power_tail_9 = map num_of_nat
     [0x111495a1b200d4eb8a5a140826c351d071c554e97b2277f47b43cf8e4eaf8e068,
      0x13e53bfa0db28e11005af69bf1fb82891ff957b6f55288048417b73b324735d32,
      0x148f6214560239b46d3da65e82bdd39e2fdb3f4ea18f0a56bb6c7a6004612889c,
      0x1de364ef64a484f59ec60b640d685171dd9dc0929a54fea75f1267ba0ec3c645e,
      0x12b29c7d3ef18d3b3cb6286958a9af01ad7f1c5ade3de404a2761cbab38e0f580,
      0x16a3b6a431109e3d199455c744595c01f547db3576511edc25a5ce93f67a3cdd6,
      0x100d2333b0c03f620ed1d0a619aa607480d9d73da9f40f374afd80c1c832a739e,
      0x13f03458e0273439b2a47bd3fc39081daef46e42368baead311428ceb13f2cc2c,
      0x1ade2626c292a2a9f0fdcfd4ab0f5afee9f8160e9d012439847558e815c898e8b,
      0x1c35abe5cebab1ba4d84fc5f798c1a55ef8be2d3d6ce206b0e848ff06d72a9252,
      0x17c25b2c3282fb73060ef7116e6f3c1e0ee1d857a675ca074b0dd0edb19af078c,
      0x16298f48fa13cc12f57059d3707ee283a6b590805d407e77eb51a19064886308a,
      0x1ab5d0760d1fe77dc1780be415c86b5d5cf69cee6182fa1644f1102acb29c3230,
      0x110000e5f7bf7a58bd81275131f4f91f8a57d650a8007d505c639b7c24b26ef11,
      0x109d89163f581d1e0743eedc2ede6d478f1d3279f36823213295b23eaa04478ed,
      0x1f567382197055bf04823b45b89dc689c69e6e6e431a2d40bc04b4f9c5d26c200]"

definition power_tail_10 :: "num list" where
  "power_tail_10 = map num_of_nat
     [0x1da01b157a2b021e9be61763d20685d37f32c270b20ce5f3809f16c9da06c8a66,
      0x19d7c0c2cf565896ca1fbf40a9936c15daccd356978aafc8ec6d70a8c6aec7778,
      0x1592056e6bbf026f6fbdcc8828b2c1889327a229ce124857890c526d9d0b6773f,
      0x1746ea463d01f96a40fbd392d992b9686e63e390ab5f8a1a5a14aaaccc2890705,
      0x14d1dc582c66946beb4bb676b08602d23441424d88baa1859d8cd74de1850f135,
      0x1621c1b93e8fa11834b145a211d1fdfdf994b90f8d7149b3d2adbc6211da0644c,
      0x1faf3fe8684e4e6117bd5128045929790340889c14a3c57362fd0c3d604d53cdf,
      0x14a55ccb047f7ed1f6d8bf975dcc010745f15699d4848bfcc01e53e1bc659d517,
      0x1929a14fdb0efb0b5efcb70ac050d5190629372507db35e6171ce8d56b9692c38,
      0x1cf9e9a1026630265de5841dcae8e37bbe890fcbab799d18627d627035f8c74a5,
      0x1bfbcf2e3dee7abfa9d53ec478a607c58fd3a5a8b24565256b405010a26f11c18,
      0x120d9430de74248c9bc2ad4d4d5a4ecb88f148500f69fe8f8b072a316838de4ee,
      0x16db40995b68e4c6863eb42892a0f4361a0851e63a9ec247c732bd9e5c94b916a,
      0x108543e7ab4077f4329f4387fbb3eebe2b38ada6d1a5427bae87d88258b7992ce,
      0x12281c456455c4a6d7f05b87543072eb80a1db90231a55a326735bb34738c34f7,
      0x12432aaa71d816e63259022fe05f4023e0b4df9e68366344a053ff7e4e8581163]"

definition power_tail_11 :: "num list" where
  "power_tail_11 = map num_of_nat
     [0x1065e8192b0d9e2abdcdf361320fa2c0b81690de70406c5b2fc89e47923390d01,
      0x16f46880c9915650efac68c11fe1e596ce3da1faabf2f681d54ae81c77079738d,
      0x18de6f3aa90cec54870f4ef60d5dd38903ac1fea4d54d07109350f3f8897dc5cc,
      0x1f930e902851defa3cb5512bde4e7bf59c22f28a3d0afc80be7b23f10622b3386,
      0x1b05640b794289f317a55e55bbd72fb817bf0fe15bdc9337fcaefa30f55ce5c0f,
      0x10fa65f166fbb0db461d6cf653e616a08b8b27bb7572d287130121e7a60194d6a,
      0x17a974830be953c4a1c46fb7ea04848573444a78d93dffc9a646fe4bfa600d564,
      0x17691957a691df817b8f35b514eb14767be489e3f8ac415340ffabb6c5ce8d644,
      0x157f44892a2ad86eaa9c11c5aaf2cab9783f997e75e88067f5b16024d0563a65a,
      0x16062e8c7dc309cb2947c9b3af027e7917fe5c232f064f464a6c7eee290c62375,
      0x12629bab11c98b6ae4c5bac1c57856ed752a29a371c84710f038e07e40a2812e1,
      0x1aaa38210dde97c64c3f6fbf07e4643273e3494a05f161ecd637242c48b99b633,
      0x1d6e3b368fb2a311081d165297d239d2ac188ca2c76798705c4d01c7eb078fd29,
      0x16309de7dbb3bf59d5a70368075759194acfe2b03b09803d07f90ffb775c02726,
      0x1db9d6b2d354321b478a3e873f00291ed902b0ee66222acc7f0f03027dfdc22d5,
      0x139109bb02acbe63577710069854ee241c5004e441c522fb376e15d3efefdcbbf]"

definition jump_powers :: "num list" where
  "jump_powers = power_tail_0 @ power_tail_1 @ power_tail_2 @ power_tail_3 @ power_tail_4 @ power_tail_5 @ power_tail_6 @ power_tail_7"

definition long_jump_powers :: "num list" where
  "long_jump_powers = power_tail_8 @ power_tail_9 @ power_tail_10 @ power_tail_11"

section \<open>Arithmetic modulo the characteristic polynomial\<close>

definition krylov :: "num list" where
  "krylov = krylov_at_0 # krylov_tail"

definition squares :: "num list" where
  "squares = squares_at_0 # squares_tail"

text \<open>\<open>x * p\<close> reduced: shift the 256 coefficients up by one, and add the low part of
  the characteristic polynomial when the coefficient of \<open>x^255\<close> was set.\<close>

definition mulx :: "bool list \<Rightarrow> bool list" where
  "mulx p = (if p \<noteq> [] \<and> last p then bxor (False # butlast p) (dec charpoly_low)
             else False # butlast p)"

fun mulx_reduce :: "bool \<Rightarrow> num \<Rightarrow> num" where
  "mulx_reduce True q = num_xor q charpoly_low"
| "mulx_reduce False q = q"

definition mulx_num :: "num \<Rightarrow> num" where
  "mulx_num p = mulx_reduce (top_bit p) (num.Bit0 (drop_top p))"

definition mulx2_num :: "num \<Rightarrow> num" where
  "mulx2_num p = mulx_num (mulx_num p)"

definition poly_square :: "num \<Rightarrow> num" where
  "poly_square = poly_square_with squares zero_vec"

section \<open>Shifts and rotation as arithmetic\<close>

lemma unat_shl: "unat (push_bit k (x :: u64)) = (unat x * 2 ^ k) mod 2 ^ 64"
  unfolding unsigned_push_bit_eq by (simp add: push_bit_eq_mult take_bit_eq_mod)

lemma unat_shr: "unat (drop_bit k (x :: u64)) = unat x div 2 ^ k"
  unfolding unat_drop_bit_eq by (simp add: drop_bit_eq_div)

lemma unat_rotl: "unat (rotl x k) = spec_rotate_left (unat x) k"
  by (simp only: rotl_def spec_rotate_left_def unsigned_or_eq unat_shl unat_shr)

section \<open>The raw output calls\<close>

lemma words_ss: "words (snd (xoshiro256ss_call st)) = spec_transition (words st)"
  by (simp add: xoshiro256ss_call_def words_def spec_transition_def Let_def unsigned_xor_eq
      unat_rotl unat_shl)

lemma words_p: "words (snd (xoshiro256p_call st)) = spec_transition (words st)"
  by (simp add: xoshiro256p_call_def words_def spec_transition_def Let_def unsigned_xor_eq
      unat_rotl unat_shl)

lemma same_update: "snd (xoshiro256p_call st) = snd (xoshiro256ss_call st)"
  by (simp add: xoshiro256p_call_def xoshiro256ss_call_def Let_def)

lemma ss_result: "unat (fst (xoshiro256ss_call st))
      = (spec_rotate_left ((unat (s1 st) * 5) mod 2 ^ 64) 7 * 9) mod 2 ^ 64"
proof -
  have "fst (xoshiro256ss_call st) = rotl (s1 st * 5) 7 * 9"
    by (simp add: xoshiro256ss_call_def Let_def)
  then show ?thesis
    by (simp only: unat_word_ariths unat_rotl) simp
qed

lemma p_result: "unat (fst (xoshiro256p_call st)) = (unat (s0 st) + unat (s3 st)) mod 2 ^ 64"
proof -
  have "fst (xoshiro256p_call st) = s0 st + s3 st"
    by (simp add: xoshiro256p_call_def Let_def)
  then show ?thesis
    by (simp only: unat_word_ariths) simp
qed

text \<open>A known answer: from the state \<open>(1,2,3,4)\<close> the scrambled variant returns
  \<open>11520\<close>.\<close>

lemma ss_call_known_answer:
  "xoshiro256ss_call \<lparr>s0 = 1, s1 = 2, s2 = 3, s3 = 4\<rparr>
     = (11520, \<lparr>s0 = 7, s1 = 0, s2 = 262146, s3 = 211106232532992\<rparr>)"
  by (simp add: xoshiro256ss_call_def Let_def rotl_def)

text \<open>C1: for every state, one raw output call of either variant changes the state by
  the sequence \<open>t = s1 << 17\<close>, \<open>s2 ^= s0\<close>, \<open>s3 ^= s1\<close>, \<open>s1 ^= s2\<close>,
  \<open>s0 ^= s3\<close>, \<open>s2 ^= t\<close>, \<open>s3 = rotate_left(s3, 45)\<close> (all modulo \<open>2^64\<close>),
  and the two variants leave the same state.\<close>

theorem transition_update_both_variants:
  "words (snd (call v st)) = spec_transition (words st)
   \<and> snd (xoshiro256ss_call st) = snd (xoshiro256p_call st)"
  by (cases v) (simp_all add: words_ss words_p same_update)

text \<open>C2: the scrambled variant returns \<open>rotate_left(s1 * 5, 7) * 9\<close>, both products
  modulo \<open>2^64\<close>, computed from the state before the update, and leaves the state
  updated by the transition.\<close>

theorem scrambled_output_value:
  "unat (fst (xoshiro256ss_call st))
      = (spec_rotate_left ((unat (s1 st) * 5) mod 2 ^ 64) 7 * 9) mod 2 ^ 64
   \<and> words (snd (xoshiro256ss_call st)) = spec_transition (words st)"
  using ss_result words_ss by blast

text \<open>C3: the additive variant returns \<open>s0 + s3\<close> modulo \<open>2^64\<close>, computed from the
  state before the update, and leaves the same state as the scrambled variant does.\<close>

theorem additive_output_value:
  "unat (fst (xoshiro256p_call st)) = (unat (s0 st) + unat (s3 st)) mod 2 ^ 64
   \<and> words (snd (xoshiro256p_call st)) = spec_transition (words st)
   \<and> snd (xoshiro256p_call st) = snd (xoshiro256ss_call st)"
  using p_result words_p same_update by blast

section \<open>splitmix64\<close>

text \<open>C4: for every internal state \<open>x\<close>, a call of the seed expander first adds
  \<open>0x9e3779b97f4a7c15\<close> to \<open>x\<close> and returns the mixed value (xor with the shift right
  by 30, times \<open>0xbf58476d1ce4e5b9\<close>, xor with the shift right by 27, times
  \<open>0x94d049bb133111eb\<close>, xor with the shift right by 31), all modulo \<open>2^64\<close>; the
  function is total, so no state makes it fail, and from the state zero it returns
  \<open>0xe220a8397b1dcdaf\<close>.\<close>

theorem splitmix64_call_spec:
  "(case splitmix64_call x of (r, x') \<Rightarrow> (unat r, unat x')) = spec_splitmix (unat x)
   \<and> splitmix64_call 0 = (0xe220a8397b1dcdaf, 0x9e3779b97f4a7c15)"
proof -
  have "(case splitmix64_call x of (r, x') \<Rightarrow> (unat r, unat x')) = spec_splitmix (unat x)"
    by (simp add: splitmix64_call_def spec_splitmix_def Let_def unsigned_xor_eq
        unat_shr unat_word_ariths)
  moreover have "splitmix64_call 0 = (0xe220a8397b1dcdaf, 0x9e3779b97f4a7c15)"
    by (simp add: splitmix64_call_def Let_def)
  ultimately show ?thesis
    by simp
qed

section \<open>The all-zero state\<close>

lemma call_zero: "call v zero_state = (0, zero_state)"
  by (cases v)
    (simp_all add: xoshiro256ss_call_def xoshiro256p_call_def zero_state_def rotl_def Let_def)

lemma advance_zero: "(advance v ^^ n) zero_state = zero_state"
  by (induction n) (simp_all add: advance_def call_zero)

text \<open>C7: the all-zero state is a fixed point: from it, every raw output call of either
  variant returns \<open>0\<close> and leaves the state all-zero, so the \<open>n\<close>-th output is \<open>0\<close>
  for every \<open>n\<close>.\<close>

theorem zero_state_fixed_point:
  "call v zero_state = (0, zero_state)
   \<and> (advance v ^^ n) zero_state = zero_state
   \<and> fst (call v ((advance v ^^ n) zero_state)) = 0"
  by (simp add: advance_zero call_zero)

section \<open>The jump loops\<close>

lemma bit_test: "(c AND push_bit b 1 \<noteq> 0) = bit (c :: u64) b"
  by (simp only: bit_iff_and_push_bit_not_eq_0)

lemma jump_inner_loop:
  "fold (\<lambda>b (loc, st).
       (if (c :: u64) AND push_bit b 1 \<noteq> 0
        then \<lparr>s0 = s0 loc XOR s0 st, s1 = s1 loc XOR s1 st,
              s2 = s2 loc XOR s2 st, s3 = s3 loc XOR s3 st\<rparr>
        else loc,
        snd (call v st))) bs accst
   = foldl (\<lambda>(acc, st) b. (if b then xor_state acc st else acc, advance v st))
       accst (map (bit c) bs)"
proof (induction bs arbitrary: accst)
  case Nil
  then show ?case by simp
next
  case (Cons b bs)
  obtain loc st where accst: "accst = (loc, st)" by (cases accst)
  show ?case
    unfolding bit_test by (simp add: accst Cons.IH [unfolded bit_test] xor_state_def advance_def)
qed

lemma all_fields: "st\<lparr>s0 := s0 loc, s1 := s1 loc, s2 := s2 loc, s3 := s3 loc\<rparr> = (loc :: xstate)"
  by (cases st, cases loc) simp

lemma upt_4: "[0..<4] = [0, 1, 2, 3]"
  by (simp add: upt_rec)

lemma jump_spec: "jump v st = spec_jump v JUMP st"
  unfolding jump_def spec_jump_def table_bits_def jump_inner_loop upt_4
  by (simp add: JUMP_def zero_state_def all_fields split: prod.split)

lemma long_jump_spec: "long_jump v st = spec_jump v LONG_JUMP st"
  unfolding long_jump_def spec_jump_def table_bits_def jump_inner_loop upt_4
  by (simp add: LONG_JUMP_def zero_state_def all_fields split: prod.split)

lemma length_table_bits: "length (table_bits tbl) = 64 * length tbl"
  by (induction tbl) (simp_all add: table_bits_def)

text \<open>C6: \<open>jump\<close> and \<open>long_jump\<close> each run the algorithm of the specification
  (\<open>spec_jump\<close>): a four-word accumulator starts at zero; the 256 bits of the four constants
  are visited from the first constant's least significant bit; the accumulator is xor-ed with
  the current state when the bit is set and the state advances by one discarded output call
  in every round; the accumulator then replaces the state. The two differ in their tables
  only.\<close>

theorem jump_algorithm:
  "jump v st = spec_jump v JUMP st \<and> long_jump v st = spec_jump v LONG_JUMP st
   \<and> length (table_bits JUMP) = 256 \<and> length (table_bits LONG_JUMP) = 256"
  by (simp add: jump_spec long_jump_spec length_table_bits) (simp add: JUMP_def LONG_JUMP_def)

section \<open>uniform\<close>

lemma nth_call_Suc: "nth_call v st (Suc k) = nth_call v (advance v st) k"
  by (simp add: nth_call_def funpow_swap1)

lemma uniform_loop_first:
  "\<forall>i<k. rejected (fst (nth_call v st i)) \<Longrightarrow> \<not> rejected (fst (nth_call v st k))
   \<Longrightarrow> uniform_loop v (call v st) = Some (nth_call v st k)"
proof (induction k arbitrary: st)
  case 0
  then show ?case
    by (subst uniform_loop.simps) (simp add: nth_call_def rejected_def)
next
  case (Suc k)
  from Suc.prems(1) have r0: "rejected (fst (call v st))"
    by (auto simp: nth_call_def dest: spec [of _ 0])
  have "\<forall>i<k. rejected (fst (nth_call v (advance v st) i))"
    using Suc.prems(1) by (auto simp: nth_call_Suc [symmetric])
  moreover have "\<not> rejected (fst (nth_call v (advance v st) k))"
    using Suc.prems(2) by (simp add: nth_call_Suc)
  ultimately have "uniform_loop v (call v (advance v st)) = Some (nth_call v (advance v st) k)"
    by (rule Suc.IH)
  moreover have "uniform_loop v (call v st) = uniform_loop v (call v (advance v st))"
    using r0 by (subst uniform_loop.simps) (simp add: rejected_def advance_def)
  ultimately show ?case
    by (simp add: nth_call_Suc)
qed

text \<open>What \<open>uniform\<close> returns in general: when the first \<open>k\<close> raw outputs of the
  object's own variant are rejected and the next one is not, the value is
  \<open>low + (high-low) * n / max\<close> for that output \<open>n\<close>, evaluated with the operations on
  \<open>double\<close>, and the state is the one that draw leaves.\<close>

lemma uniform_first_accepted:
  "\<forall>i<k. rejected (fst (nth_call v st i)) \<Longrightarrow> \<not> rejected (fst (nth_call v st k))
   \<Longrightarrow> uniform ops v low high st
       = Some (dadd ops low (ddiv ops (dmul ops (dsub ops high low)
                 (of_u64 ops (fst (nth_call v st k)))) (of_u64 ops (- 1))),
               snd (nth_call v st k))"
  by (simp add: uniform_def uniform_draw_def uniform_loop_first uniform_value_def
      split: prod.split)

lemma ss_call_1000: "xoshiro256ss_call \<lparr>s0 = 1, s1 = 0, s2 = 0, s3 = 0\<rparr>
    = (0, \<lparr>s0 = 1, s1 = 1, s2 = 1, s3 = 0\<rparr>)"
  by (simp add: xoshiro256ss_call_def Let_def rotl_def)

lemma ss_call_1110: "xoshiro256ss_call \<lparr>s0 = 1, s1 = 1, s2 = 1, s3 = 0\<rparr>
    = (5760, \<lparr>s0 = 0, s1 = 1, s2 = 0x20000, s3 = 0x200000000000\<rparr>)"
  by (simp add: xoshiro256ss_call_def Let_def rotl_def)

lemma p_call_1000: "xoshiro256p_call \<lparr>s0 = 1, s1 = 0, s2 = 0, s3 = 0\<rparr>
    = (1, \<lparr>s0 = 1, s1 = 1, s2 = 1, s3 = 0\<rparr>)"
  by (simp add: xoshiro256p_call_def Let_def rotl_def)

text \<open>The draws are those of the object's own variant, since \<open>operator()\<close> is virtual:
  from the state \<open>(1,0,0,0)\<close> an \<open>xoshiro256p\<close> object accepts its additive output \<open>1\<close>
  after one draw, while an \<open>xoshiro256ss\<close> object rejects the scrambled output \<open>0\<close> and
  accepts the next one, \<open>5760\<close>.\<close>

lemma uniform_draw_own_variant:
  "uniform_draw P \<lparr>s0 = 1, s1 = 0, s2 = 0, s3 = 0\<rparr>
     = Some (1, \<lparr>s0 = 1, s1 = 1, s2 = 1, s3 = 0\<rparr>)
   \<and> uniform_draw SS \<lparr>s0 = 1, s1 = 0, s2 = 0, s3 = 0\<rparr>
     = Some (5760, \<lparr>s0 = 0, s1 = 1, s2 = 0x20000, s3 = 0x200000000000\<rparr>)"
proof -
  have "uniform_loop P (1, \<lparr>s0 = 1, s1 = 1, s2 = 1, s3 = 0\<rparr>)
      = Some (1, \<lparr>s0 = 1, s1 = 1, s2 = 1, s3 = 0\<rparr>)"
    by (subst uniform_loop.simps) simp
  moreover have "uniform_loop SS (0, \<lparr>s0 = 1, s1 = 1, s2 = 1, s3 = 0\<rparr>)
      = uniform_loop SS (5760, \<lparr>s0 = 0, s1 = 1, s2 = 0x20000, s3 = 0x200000000000\<rparr>)"
    by (subst uniform_loop.simps) (simp add: ss_call_1110)
  moreover have "uniform_loop SS (5760, \<lparr>s0 = 0, s1 = 1, s2 = 0x20000, s3 = 0x200000000000\<rparr>)
      = Some (5760, \<lparr>s0 = 0, s1 = 1, s2 = 0x20000, s3 = 0x200000000000\<rparr>)"
    by (subst uniform_loop.simps) simp
  ultimately show ?thesis
    by (simp add: uniform_draw_def ss_call_1000 p_call_1000)
qed

subsection \<open>The conversion to double\<close>

lemma bit_length_le: "m < 2 ^ k \<Longrightarrow> bit_length m \<le> k"
proof (induction k arbitrary: m)
  case 0
  then show ?case by (simp add: bit_length.simps)
next
  case (Suc k)
  show ?case
  proof (cases "m = 0")
    case True
    then show ?thesis by (simp add: bit_length.simps)
  next
    case False
    from Suc.prems have "m div 2 < 2 ^ k" by simp
    then have "bit_length (m div 2) \<le> k" by (rule Suc.IH)
    with False show ?thesis by (subst bit_length.simps) simp
  qed
qed

lemma bit_length_eq: "2 ^ k \<le> m \<Longrightarrow> m < 2 ^ Suc k \<Longrightarrow> bit_length m = Suc k"
proof (induction k arbitrary: m)
  case 0
  then have "m = 1" by simp
  then show ?case by (simp add: bit_length.simps)
next
  case (Suc k)
  from Suc.prems have "2 ^ k \<le> m div 2" "m div 2 < 2 ^ Suc k" by simp_all
  then have "bit_length (m div 2) = Suc k" by (rule Suc.IH)
  moreover from Suc.prems have "m \<noteq> 0" by auto
  ultimately show ?case by (subst bit_length.simps) simp
qed

text \<open>An integer below \<open>2^53\<close> is converted exactly.\<close>

lemma double_of_u64_exact: "unat n < 2 ^ 53 \<Longrightarrow> double_of_u64 n = unat n"
proof -
  assume "unat n < 2 ^ 53"
  then have "bit_length (unat n) \<le> 53" by (rule bit_length_le)
  then show ?thesis by (simp add: double_of_u64_def Let_def)
qed

text \<open>In \<open>[2^63, 2^64)\<close> neighbouring doubles are \<open>2048\<close> apart, and every integer from
  \<open>2^64 - 1024\<close> on is converted to \<open>2^64\<close>.\<close>

lemma double_of_u64_top:
  assumes "2 ^ 64 - 1024 \<le> unat n"
  shows "double_of_u64 n = 2 ^ 64"
proof -
  let ?m = "unat n"
  have lt: "?m < 2 ^ 64"
    using unsigned_less [of n] by simp
  from assms have "(2::nat) ^ 63 \<le> ?m" by simp
  with lt have bl: "bit_length ?m = 64"
    using bit_length_eq [of 63 ?m] by simp
  have q: "?m div 2048 = 2 ^ 53 - 1"
    using assms lt by simp
  have r: "1024 \<le> ?m mod 2048"
    using assms lt q by (simp add: modulo_nat_def)
  have "odd (2 ^ 53 - 1 :: nat)" by simp
  with bl q r show ?thesis
    by (simp add: double_of_u64_def Let_def)
qed

text \<open>C9, at an input where it fails. An \<open>xoshiro256ss\<close> object with the state
  \<open>(0, 0x6c5b05b05b05b05b, 0, 0)\<close> returns \<open>2^64 - 2\<close> from its first scrambled output;
  \<open>uniform(0.0, 1.0)\<close> accepts it, being neither \<open>0\<close> nor \<open>2^64 - 1\<close>, and returns
  \<open>0.0 + (1.0 - 0.0) * n / max\<close> with the state that draw leaves. The conversion to
  \<open>double\<close> gives \<open>2^64\<close> both for \<open>n = 2^64 - 2\<close> and for \<open>max = 2^64 - 1\<close>, so the
  quotient is \<open>1.0\<close> and the value returned is \<open>high\<close>, which is not inside the open
  interval \<open>(low, high)\<close> that the claim and the comments of the source promise.\<close>

theorem uniform_returns_high:
  "uniform symbolic_ops SS (Const ''0.0'') (Const ''1.0'')
       \<lparr>s0 = 0, s1 = 0x6c5b05b05b05b05b, s2 = 0, s3 = 0\<rparr>
     = Some (Add (Const ''0.0'') (Div (Mul (Sub (Const ''1.0'') (Const ''0.0''))
               (Cast 0xfffffffffffffffe)) (Cast (- 1))),
             \<lparr>s0 = 0x6c5b05b05b05b05b, s1 = 0x6c5b05b05b05b05b, s2 = 0xb60b60b60b60000,
              s3 = 0xb60b6d8b60b60b60\<rparr>)
   \<and> double_of_u64 0xfffffffffffffffe = 2 ^ 64
   \<and> double_of_u64 (- 1) = 2 ^ 64"
proof -
  let ?st = "\<lparr>s0 = 0, s1 = 0x6c5b05b05b05b05b, s2 = 0, s3 = 0\<rparr>"
  let ?st' = "\<lparr>s0 = 0x6c5b05b05b05b05b, s1 = 0x6c5b05b05b05b05b, s2 = 0xb60b60b60b60000,
               s3 = 0xb60b6d8b60b60b60\<rparr>"
  have c: "xoshiro256ss_call ?st = (0xfffffffffffffffe, ?st')"
    by (simp add: xoshiro256ss_call_def Let_def rotl_def)
  have "uniform_loop SS (0xfffffffffffffffe, ?st') = Some (0xfffffffffffffffe, ?st')"
    by (subst uniform_loop.simps) simp
  then have d: "uniform_draw SS ?st = Some (0xfffffffffffffffe, ?st')"
    by (simp add: uniform_draw_def c)
  have u: "uniform symbolic_ops SS (Const ''0.0'') (Const ''1.0'') ?st
      = Some (Add (Const ''0.0'') (Div (Mul (Sub (Const ''1.0'') (Const ''0.0''))
               (Cast 0xfffffffffffffffe)) (Cast (- 1))), ?st')"
    by (simp add: uniform_def d uniform_value_def symbolic_ops_def)
  have "unat (0xfffffffffffffffe :: u64) = 2 ^ 64 - 2" by simp
  then have a: "double_of_u64 0xfffffffffffffffe = 2 ^ 64"
    by (intro double_of_u64_top) simp
  have "unat (- 1 :: u64) = 2 ^ 64 - 1" by (simp add: unsigned_minus_1_eq_mask mask_eq_exp_minus_1)
  then have b: "double_of_u64 (- 1) = 2 ^ 64"
    by (intro double_of_u64_top) simp
  from u a b show ?thesis by simp
qed

section \<open>UI64T2String\<close>

lemma char_of_digits: "char_of (48 :: nat) = CHR ''0''" "char_of (49 :: nat) = CHR ''1''"
  by code_simp+

lemma decimal_bit: "decimal (unat (w AND 1)) = [bit_char (bit (w :: u64) 0)]"
proof (cases "bit w 0")
  case True
  then have "w AND 1 = 1"
    by (simp add: and_one_eq bit_0 mod_2_eq_odd)
  then show ?thesis using True by (simp add: decimal.simps bit_char_def char_of_digits)
next
  case False
  then have "w AND 1 = 0"
    by (simp add: and_one_eq bit_0 mod_2_eq_odd)
  then show ?thesis using False by (simp add: decimal.simps bit_char_def char_of_digits)
qed

lemma format_step: "decimal (unat (drop_bit n x AND 1)) = [bit_char (bit (x :: u64) n)]"
  by (simp add: decimal_bit bit_drop_bit_eq)

lemma format_loop:
  "fold (\<lambda>i (copy, result). (drop_bit 1 copy, decimal (unat (copy AND 1)) @ result))
     [0..<n] (x :: u64, []) = (drop_bit n x, map bit_char (rev (map (bit x) [0..<n])))"
proof (induction n)
  case 0
  then show ?case by simp
next
  case (Suc n)
  have "drop_bit 1 (drop_bit n x) = drop_bit (Suc n) x"
    by simp
  with Suc show ?case
    by (simp add: format_step del: drop_bit_drop_bit)
qed

lemma UI64T2String_bits: "UI64T2String x = map bit_char (rev (map (bit x) [0..<64]))"
  unfolding UI64T2String_def format_loop by simp

lemma parse_binary_from_bit_char:
  "parse_binary_from acc (bit_char b # cs) = parse_binary_from (2 * acc + of_bool b) cs"
  by (simp add: bit_char_def)

lemma parse_binary_from_bits:
  "parse_binary_from acc (map bit_char (rev (map (bit x) [0..<n])))
     = Some (acc * 2 ^ n + unat (take_bit n (x :: u64)))"
proof (induction n arbitrary: acc)
  case 0
  then show ?case by simp
next
  case (Suc n)
  have "unat (take_bit (Suc n) x) = of_bool (bit x n) * 2 ^ n + unat (take_bit n x)"
    by (simp add: unsigned_take_bit_eq take_bit_Suc_from_most bit_unsigned_iff)
  then show ?case
    by (simp add: Suc.IH parse_binary_from_bit_char algebra_simps del: parse_binary_from.simps)
qed

text \<open>C10: the formatter maps every \<open>x\<close> to 64 characters \<open>'0'\<close>/\<open>'1'\<close>, the most
  significant bit first, and reading that string as a base-2 number gives \<open>x\<close> back; the
  boundary values \<open>0\<close> and \<open>2^64-1\<close> give 64 zeros and 64 ones.\<close>

theorem format_binary_round_trip:
  "UI64T2String x = map bit_char (rev (map (bit x) [0..<64]))
   \<and> length (UI64T2String x) = 64
   \<and> parse_binary (UI64T2String x) = Some (unat x)
   \<and> UI64T2String 0 = replicate 64 (CHR ''0'')
   \<and> UI64T2String (- 1) = replicate 64 (CHR ''1'')"
proof -
  have "take_bit 64 x = x"
    by (rule take_bit_word_eq_self) simp
  then have p: "parse_binary (UI64T2String x) = Some (unat x)"
    using parse_binary_from_bits [of 0 x 64] by (simp add: parse_binary_def UI64T2String_bits)
  have "map (bit (0 :: u64)) [0..<64] = replicate 64 False"
    by (rule nth_equalityI) simp_all
  then have z: "UI64T2String 0 = replicate 64 (CHR ''0'')"
    by (simp only: UI64T2String_bits) (simp add: bit_char_def)
  have "map (bit (- 1 :: u64)) [0..<64] = replicate 64 True"
    by (rule nth_equalityI) simp_all
  then have m: "UI64T2String (- 1) = replicate 64 (CHR ''1'')"
    by (simp only: UI64T2String_bits) (simp add: bit_char_def)
  show ?thesis
    using p z m by (simp add: UI64T2String_bits)
qed

section \<open>The transition is linear\<close>

lemma transition_closed:
  "transition st = \<lparr>s0 = s0 st XOR s3 st XOR s1 st, s1 = s1 st XOR s2 st XOR s0 st,
     s2 = s2 st XOR s0 st XOR push_bit 17 (s1 st), s3 = rotl (s3 st XOR s1 st) 45\<rparr>"
  by (cases st) (simp add: transition_def xoshiro256ss_call_def Let_def ac_simps)

lemma advance_transition: "advance v = transition"
  by (rule ext, cases v) (simp_all add: advance_def transition_def same_update)

lemma rotl_xor_form: "rotl x 45 = push_bit 45 x XOR drop_bit 19 x"
  unfolding rotl_def
  by (rule bit_word_eqI) (auto simp: bit_simps dest: bit_imp_le_length)

lemma rotl_xor: "rotl (x XOR y) 45 = rotl x 45 XOR rotl y 45"
  by (simp add: rotl_xor_form ac_simps)

lemma xor_state_assoc: "xor_state (xor_state a b) c = xor_state a (xor_state b c)"
  by (simp add: xor_state_def ac_simps)

lemma xor_state_commute: "xor_state a b = xor_state b a"
  by (simp add: xor_state_def ac_simps)

lemma xor_state_left_commute: "xor_state a (xor_state b c) = xor_state b (xor_state a c)"
  by (simp add: xor_state_def ac_simps)

lemmas xor_state_ac = xor_state_assoc xor_state_commute xor_state_left_commute

lemma xor_state_zero [simp]: "xor_state zero_state a = a" "xor_state a zero_state = a"
  by (simp_all add: xor_state_def zero_state_def)

lemma xor_state_self [simp]: "xor_state a a = zero_state" "xor_state a (xor_state a b) = b"
  by (simp_all add: xor_state_def zero_state_def)

lemma transition_xor: "transition (xor_state a b) = xor_state (transition a) (transition b)"
  by (simp add: transition_closed xor_state_def rotl_xor ac_simps)

lemma transition_zero [simp]: "transition zero_state = zero_state"
  by (simp add: transition_closed zero_state_def rotl_def)

lemma poly_apply_zero [simp]: "poly_apply p zero_state = zero_state"
  by (induction p) simp_all

lemma poly_apply_xor: "poly_apply p (xor_state a b) = xor_state (poly_apply p a) (poly_apply p b)"
  by (induction p arbitrary: a b) (simp_all add: transition_xor xor_state_ac)

lemma poly_apply_transition: "poly_apply p (transition s) = transition (poly_apply p s)"
  by (induction p arbitrary: s) (simp_all add: transition_xor)

lemma poly_apply_commute: "poly_apply p (poly_apply q s) = poly_apply q (poly_apply p s)"
  by (induction p arbitrary: s) (simp_all add: poly_apply_xor poly_apply_transition)

lemma poly_apply_bxor: "poly_apply (bxor p q) s = xor_state (poly_apply p s) (poly_apply q s)"
  by (induction p q arbitrary: s rule: bxor.induct) (auto simp: xor_state_ac)

lemma poly_apply_snoc:
  "poly_apply (l @ [b]) s
     = xor_state (poly_apply l s) (if b then (transition ^^ length l) s else zero_state)"
  by (induction l arbitrary: s) (simp_all add: funpow_swap1 xor_state_ac)

text \<open>The jump loop applies the polynomial of the table bits.\<close>

lemma jump_loop:
  "foldl (\<lambda>(acc, st) b. (if b then xor_state acc st else acc, advance v st)) (acc, st) bs
     = (xor_state acc (poly_apply bs st), (transition ^^ length bs) st)"
  by (induction bs arbitrary: acc st)
    (simp_all add: advance_transition xor_state_ac funpow_swap1)

lemma spec_jump_poly: "spec_jump v tbl st = poly_apply (table_bits tbl) st"
  by (simp add: spec_jump_def jump_loop)

text \<open>In characteristic 2 the square of a polynomial has the doubled exponents.\<close>

lemma poly_apply_square: "poly_apply p (poly_apply p s) = sq_apply p s"
proof (induction p arbitrary: s)
  case Nil
  then show ?case by simp
next
  case (Cons b p)
  have "poly_apply p (transition (poly_apply p (transition s)))
      = sq_apply p (transition (transition s))"
    using Cons.IH [of "transition (transition s)"] by (simp add: poly_apply_transition)
  then show ?case
    by (cases b) (simp_all add: poly_apply_xor poly_apply_transition transition_xor xor_state_ac)
qed

lemma upt_shift: "[0..<Suc n] = 0 # map Suc [0..<n]"
  by (simp add: upt_conv_Cons map_Suc_upt del: upt_Suc)

lemma poly_apply_select:
  "length p \<le> n \<Longrightarrow> poly_apply p s = select_sum p (map (\<lambda>i. (transition ^^ i) s) [0..<n])"
proof (induction p arbitrary: s n)
  case Nil
  then show ?case by simp
next
  case (Cons b p)
  then obtain m where n: "n = Suc m" and le: "length p \<le> m"
    by (cases n) auto
  have "map (\<lambda>i. (transition ^^ i) s) [0..<Suc m]
      = s # map (\<lambda>i. (transition ^^ i) (transition s)) [0..<m]"
    by (simp add: upt_shift funpow_swap1 comp_def del: upt_Suc)
  with Cons.IH [OF le, of "transition s"] show ?case
    by (simp add: n del: upt_Suc)
qed

lemma sq_apply_select:
  "length p \<le> n \<Longrightarrow> sq_apply p s = select_sum p (map (\<lambda>i. (transition ^^ (2 * i)) s) [0..<n])"
proof (induction p arbitrary: s n)
  case Nil
  then show ?case by simp
next
  case (Cons b p)
  then obtain m where n: "n = Suc m" and le: "length p \<le> m"
    by (cases n) auto
  have "map (\<lambda>i. (transition ^^ (2 * i)) s) [0..<Suc m]
      = s # map (\<lambda>i. (transition ^^ (2 * i)) (transition (transition s))) [0..<m]"
    by (simp add: upt_shift funpow_swap1 comp_def del: upt_Suc)
  with Cons.IH [OF le, of "transition (transition s)"] show ?case
    by (simp add: n del: upt_Suc)
qed

lemma select_sum_take: "select_sum p ss = select_sum (take (length ss) p) ss"
  by (induction p ss rule: select_sum.induct) simp_all

section \<open>Bit vectors and states\<close>

lemma bit_at_Nil [simp]: "bit_at [] i = False"
  by (simp add: bit_at_def)

lemma bit_at_Cons: "bit_at (b # l) i = (case i of 0 \<Rightarrow> b | Suc j \<Rightarrow> bit_at l j)"
  by (simp add: bit_at_def split: nat.split)

lemma bit_at_append:
  "bit_at (a @ b) i = (if i < length a then bit_at a i else bit_at b (i - length a))"
  by (auto simp: bit_at_def nth_append)

lemma bit_at_take: "bit_at (take n l) i = (i < n \<and> bit_at l i)"
  by (auto simp: bit_at_def)

lemma bit_at_drop: "bit_at (drop n l) i = bit_at l (n + i)"
  by (auto simp: bit_at_def)

lemma bxor_Nil_right [simp]: "bxor a [] = a"
  by (cases a) simp_all

lemma bit_at_bxor: "bit_at (bxor a b) i = (bit_at a i \<noteq> bit_at b i)"
proof (induction a b arbitrary: i rule: bxor.induct)
  case (3 x xs y ys)
  then show ?case by (cases i) (simp_all add: bit_at_Cons)
qed simp_all

lemma length_bxor [simp]: "length (bxor a b) = max (length a) (length b)"
  by (induction a b rule: bxor.induct) simp_all

lemma drop_bxor: "drop n (bxor a b) = bxor (drop n a) (drop n b)"
proof (induction a b arbitrary: n rule: bxor.induct)
  case (3 x xs y ys)
  then show ?case by (cases n) simp_all
qed simp_all

lemma bit_word_of_bits_step:
  "bit (of_bool b OR push_bit 1 (w :: u64)) i
     = (case i of 0 \<Rightarrow> b | Suc j \<Rightarrow> Suc j < 64 \<and> bit w j)"
  unfolding bit_or_iff bit_push_bit_iff bit_of_bool_iff
  by (cases i) (auto dest: bit_imp_le_length)

lemma bit_word_of_bits: "bit (word_of_bits l) i \<longleftrightarrow> i < 64 \<and> bit_at l i"
proof (induction l arbitrary: i)
  case Nil
  then show ?case by simp
next
  case (Cons b l)
  show ?case
    unfolding word_of_bits.simps bit_word_of_bits_step bit_at_Cons
    by (cases i) (auto simp: Cons.IH)
qed

lemma word_of_bits_cong:
  "(\<And>i. i < 64 \<Longrightarrow> bit_at a i = bit_at b i) \<Longrightarrow> word_of_bits a = word_of_bits b"
  by (rule bit_word_eqI) (simp add: bit_word_of_bits)

lemma word_of_bits_bxor: "word_of_bits (bxor a b) = word_of_bits a XOR word_of_bits b"
  by (rule bit_word_eqI) (auto simp: bit_word_of_bits bit_at_bxor bit_simps)

lemma state_of_bits_bxor:
  "state_of_bits (bxor a b) = xor_state (state_of_bits a) (state_of_bits b)"
  by (simp add: state_of_bits_def xor_state_def drop_bxor word_of_bits_bxor)

lemma state_of_bits_cong:
  assumes "\<And>i. i < 256 \<Longrightarrow> bit_at a i = bit_at b i"
  shows "state_of_bits a = state_of_bits b"
  unfolding state_of_bits_def
  by (auto intro!: word_of_bits_cong simp: bit_at_drop assms)

lemma state_of_bits_zero: "(\<And>i. \<not> bit_at l i) \<Longrightarrow> state_of_bits l = zero_state"
  using state_of_bits_cong [of l "[]"]
  by (simp add: state_of_bits_def zero_state_def)

lemma state_of_bits_of_state: "state_of_bits (bits_of_state st) = st"
proof -
  have w: "word_of_bits (map (bit w) [0..<64] @ r) = w" for w :: u64 and r
    by (rule bit_word_eqI) (auto simp: bit_word_of_bits bit_at_def nth_append)
  show ?thesis
    using w [of "s3 st" "[]"] by (simp add: state_of_bits_def bits_of_state_def w)
qed

section \<open>Numerals as bit vectors\<close>

lemma dec_num_xor: "dec (num_xor m n) = bxor (dec m) (dec n)"
  by (induction m n rule: num_xor.induct) auto

lemma select_xor_sum:
  assumes h: "\<And>a b. h (bxor a b) = xor_state (h a) (h b)"
  shows "h (dec (select_xor c tab acc))
     = xor_state (h (dec acc)) (select_sum (dec c) (map (\<lambda>t. h (dec t)) tab))"
  by (induction c tab acc rule: select_xor.induct) (simp_all add: dec_num_xor h xor_state_ac)

lemma length_select_xor:
  assumes "length (dec acc) = n" and "\<forall>t \<in> set tab. length (dec t) = n"
  shows "length (dec (select_xor c tab acc)) = n"
  using assms
  by (induction c tab acc rule: select_xor.induct) (simp_all add: dec_num_xor)

lemma all_zero_bit_at: "all_zero n \<Longrightarrow> bit_at (dec n) i = False"
  by (induction n arbitrary: i) (auto simp: bit_at_Cons split: nat.split)

lemma is_unit_bit_at: "is_unit j n \<Longrightarrow> bit_at (dec n) i = (i = j)"
  by (induction j n arbitrary: i rule: is_unit.induct)
    (auto simp: bit_at_Cons all_zero_bit_at split: nat.split)

lemma is_unit_numeral:
  "is_unit (numeral k) (num.Bit0 n) = is_unit (pred_numeral k) n"
  "is_unit (numeral k) (num.Bit1 n) = False"
  by (simp_all add: numeral_eq_Suc)

lemma all_zero_state: "all_zero n \<Longrightarrow> state_of_bits (dec n) = zero_state"
  by (rule state_of_bits_zero) (simp add: all_zero_bit_at)

lemma all_zero_apply: "all_zero n \<Longrightarrow> poly_apply (dec n) s = zero_state"
  by (induction n arbitrary: s) simp_all

lemma is_unit_apply: "is_unit j n \<Longrightarrow> poly_apply (dec n) s = (transition ^^ j) s"
  by (induction j n arbitrary: s rule: is_unit.induct)
    (simp_all add: all_zero_apply funpow_swap1)

lemma chain_to_nth: "chain_to f a l b \<Longrightarrow> i < length l \<Longrightarrow> l ! i = (f ^^ Suc i) a"
proof (induction l arbitrary: a i)
  case Nil
  then show ?case by simp
next
  case (Cons x r)
  then show ?case
    by (cases i) (auto simp: funpow_swap1)
qed

lemma chain_to_last: "chain_to f a l b \<Longrightarrow> b = (f ^^ length l) a"
  by (induction l arbitrary: a) (auto simp: funpow_swap1)

lemma chain_to_link: "chain_to f a l1 b \<Longrightarrow> chain_to f b l2 c \<Longrightarrow> chain_to f a (l1 @ l2) c"
  by (induction l1 arbitrary: a) auto

lemma cert_check_append:
  "cert_check tab z j (a @ b) = (cert_check tab z j a \<and> cert_check tab z (j + length a) b)"
  by (induction a arbitrary: j) auto

lemma cert_check_nth:
  "cert_check tab z j cs \<Longrightarrow> i < length cs \<Longrightarrow> is_unit (j + i) (select_xor (cs ! i) tab z)"
proof (induction cs arbitrary: j i)
  case Nil
  then show ?case by simp
next
  case (Cons c cs)
  show ?case
  proof (cases i)
    case 0
    with Cons.prems show ?thesis by simp
  next
    case (Suc m)
    with Cons.prems Cons.IH [of "Suc j" m] show ?thesis by simp
  qed
qed

lemma length_dec_ntake [simp]: "length (dec (ntake r n)) = length (dec r)"
  by (induction r n rule: ntake.induct) simp_all

lemma bit_at_ntake: "bit_at (dec (ntake r n)) i = (i < length (dec r) \<and> bit_at (dec n) i)"
  by (induction r n arbitrary: i rule: ntake.induct)
    (auto simp: bit_at_Cons split: nat.split)

lemma dec_ndrop: "dec (ndrop r n) = drop (length (dec r)) (dec n)"
  by (induction r n rule: ndrop.induct) simp_all

lemma dec_napp: "dec (napp m n) = dec m @ dec n"
  by (induction m) simp_all

lemma dec_drop_top: "dec (drop_top n) = butlast (dec n)"
  by (induction n rule: drop_top.induct) simp_all

lemma top_bit_last: "top_bit n = (dec n \<noteq> [] \<and> last (dec n))"
  by (induction n rule: top_bit.induct) simp_all

lemma ruler_lengths:
  "length (dec ruler17) = 17" "length (dec ruler19) = 19"
  "length (dec ruler47) = 47" "length (dec ruler64) = 64"
  by (simp_all add: ruler17_def ruler19_def ruler47_def ruler64_def)

lemma ruler17_zero: "all_zero ruler17"
  by (simp add: ruler17_def)

section \<open>The transition on bit vectors\<close>

lemma tstep_num_correct: "state_of_bits (dec (tstep_num n)) = transition (state_of_bits (dec n))"
proof -
  define l where "l = dec n"
  define a b c d e where "a = ntake ruler64 n" and "b = ntake ruler64 (ndrop ruler64 n)"
    and "c = ntake ruler64 (ndrop ruler64 (ndrop ruler64 n))"
    and "d = ntake ruler64 (ndrop ruler64 (ndrop ruler64 (ndrop ruler64 n)))"
    and "e = num_xor d b"
  define A B C D where "A = dec (num_xor (num_xor a d) b)" and "B = dec (num_xor (num_xor b c) a)"
    and "C = dec (num_xor (num_xor c a) (napp ruler17 (ntake ruler47 b)))"
    and "D = dec (napp (ndrop ruler19 e) (ntake ruler19 e))"
  have ba: "bit_at (dec a) i = (i < 64 \<and> bit_at l i)"
    and bb: "bit_at (dec b) i = (i < 64 \<and> bit_at l (64 + i))"
    and bc: "bit_at (dec c) i = (i < 64 \<and> bit_at l (128 + i))"
    and bd: "bit_at (dec d) i = (i < 64 \<and> bit_at l (192 + i))" for i
    by (simp_all add: a_def b_def c_def d_def l_def bit_at_ntake dec_ndrop bit_at_drop
        ruler_lengths add.assoc)
  have be: "bit_at (dec e) i = (bit_at (dec d) i \<noteq> bit_at (dec b) i)" for i
    by (simp add: e_def dec_num_xor bit_at_bxor)
  have len: "length A = 64" "length B = 64" "length C = 64" "length D = 64" "length (dec e) = 64"
    by (simp_all add: A_def B_def C_def D_def a_def b_def c_def d_def e_def dec_num_xor
        dec_napp dec_ndrop ruler_lengths)
  have tb: "dec (tstep_num n) = A @ B @ C @ D"
    by (simp add: tstep_num_def tstep1_def tstep2_def tstep3_def tstep4_def dec_napp
        A_def B_def C_def D_def a_def b_def c_def d_def e_def)
  have st: "state_of_bits l = \<lparr>s0 = word_of_bits l, s1 = word_of_bits (drop 64 l),
      s2 = word_of_bits (drop 128 l), s3 = word_of_bits (drop 192 l)\<rparr>"
    by (simp add: state_of_bits_def)
  have bA: "bit_at A i = ((bit_at (dec a) i \<noteq> bit_at (dec d) i) \<noteq> bit_at (dec b) i)"
    and bB: "bit_at B i = ((bit_at (dec b) i \<noteq> bit_at (dec c) i) \<noteq> bit_at (dec a) i)"
    and bC: "bit_at C i = ((bit_at (dec c) i \<noteq> bit_at (dec a) i)
        \<noteq> (17 \<le> i \<and> i < 64 \<and> bit_at (dec b) (i - 17)))"
    and bD: "bit_at D i = (if i < 45 then bit_at (dec e) (19 + i)
        else i < 64 \<and> bit_at (dec e) (i - 45))" for i
    by (auto simp: A_def B_def C_def D_def dec_num_xor dec_napp dec_ndrop bit_at_bxor
        bit_at_append bit_at_drop bit_at_ntake ruler_lengths len
        all_zero_bit_at [OF ruler17_zero])
  have w0: "word_of_bits (A @ B @ C @ D) = s0 (transition (state_of_bits l))"
    by (rule bit_word_eqI)
      (auto simp: bit_word_of_bits bit_at_append len transition_closed st
        bit_simps bA ba bb bd bit_at_drop)
  have w1: "word_of_bits (B @ C @ D) = s1 (transition (state_of_bits l))"
    by (rule bit_word_eqI)
      (auto simp: bit_word_of_bits bit_at_append len transition_closed st
        bit_simps bB ba bb bc bit_at_drop)
  have w2: "word_of_bits (C @ D) = s2 (transition (state_of_bits l))"
    by (rule bit_word_eqI)
      (auto simp: bit_word_of_bits bit_at_append len transition_closed st
        bit_simps bC ba bb bc bit_at_drop)
  have w3: "word_of_bits D = s3 (transition (state_of_bits l))"
    by (rule bit_word_eqI)
      (auto simp: bit_word_of_bits len transition_closed st
        bit_simps bD be bb bd bit_at_drop rotl_xor_form)
  have "state_of_bits (A @ B @ C @ D)
      = \<lparr>s0 = word_of_bits (A @ B @ C @ D), s1 = word_of_bits (B @ C @ D),
         s2 = word_of_bits (C @ D), s3 = word_of_bits D\<rparr>"
    by (simp add: state_of_bits_def len)
  then show ?thesis
    by (simp add: tb w0 w1 w2 w3 l_def [symmetric])
qed

lemma tstep_num_funpow:
  "state_of_bits (dec ((tstep_num ^^ i) n)) = (transition ^^ i) (state_of_bits (dec n))"
  by (induction i) (simp_all add: tstep_num_correct)

lemma chain_states:
  assumes "chain_to tstep_num k0 ks kn"
  shows "map (\<lambda>t. state_of_bits (dec t)) (k0 # ks)
     = map (\<lambda>i. (transition ^^ i) (state_of_bits (dec k0))) [0..<Suc (length ks)]"
proof (rule nth_equalityI)
  show "length (map (\<lambda>t. state_of_bits (dec t)) (k0 # ks))
      = length (map (\<lambda>i. (transition ^^ i) (state_of_bits (dec k0))) [0..<Suc (length ks)])"
    by simp
next
  fix i
  assume "i < length (map (\<lambda>t. state_of_bits (dec t)) (k0 # ks))"
  then have i: "i < Suc (length ks)" by simp
  have "(k0 # ks) ! i = (tstep_num ^^ i) k0"
  proof (cases i)
    case 0
    then show ?thesis by simp
  next
    case (Suc j)
    with i chain_to_nth [OF assms, of j] show ?thesis by simp
  qed
  then have eq: "state_of_bits (dec ((k0 # ks) ! i))
      = (transition ^^ i) (state_of_bits (dec k0))"
    by (simp only: tstep_num_funpow)
  have l: "map (\<lambda>t. state_of_bits (dec t)) (k0 # ks) ! i = state_of_bits (dec ((k0 # ks) ! i))"
    by (rule nth_map) (use i in simp)
  have "[0..<Suc (length ks)] ! i = i"
    using i nth_upt [of 0 i "Suc (length ks)"] by simp
  then have r: "map (\<lambda>i. (transition ^^ i) (state_of_bits (dec k0))) [0..<Suc (length ks)] ! i
      = (transition ^^ i) (state_of_bits (dec k0))"
    using i nth_map [of i "[0..<Suc (length ks)]" "\<lambda>i. (transition ^^ i) (state_of_bits (dec k0))"]
    by (simp del: upt_Suc)
  show "map (\<lambda>t. state_of_bits (dec t)) (k0 # ks) ! i
      = map (\<lambda>i. (transition ^^ i) (state_of_bits (dec k0))) [0..<Suc (length ks)] ! i"
    by (simp only: l r eq)
qed

text \<open>A combination of the states \<open>transition^i v\<close> is a polynomial applied to \<open>v\<close>.\<close>

lemma select_krylov:
  assumes "chain_to tstep_num k0 ks kn" and "all_zero z"
  shows "state_of_bits (dec (select_xor c (k0 # ks) z))
     = poly_apply (take (Suc (length ks)) (dec c)) (state_of_bits (dec k0))"
proof -
  have "state_of_bits (dec (select_xor c (k0 # ks) z))
      = select_sum (dec c) (map (\<lambda>t. state_of_bits (dec t)) (k0 # ks))"
    using select_xor_sum [of state_of_bits c "k0 # ks" z]
    by (simp add: state_of_bits_bxor all_zero_state [OF assms(2)])
  also have "\<dots> = select_sum (take (Suc (length ks)) (dec c))
      (map (\<lambda>i. (transition ^^ i) (state_of_bits (dec k0))) [0..<Suc (length ks)])"
    using select_sum_take [of "dec c" "map (\<lambda>t. state_of_bits (dec t)) (k0 # ks)"]
    by (simp only: chain_states [OF assms(1)] length_map length_upt) simp
  also have "\<dots> = poly_apply (take (Suc (length ks)) (dec c)) (state_of_bits (dec k0))"
    by (rule poly_apply_select [symmetric]) simp
  finally show ?thesis .
qed

section \<open>A polynomial that annihilates one state and its combinations\<close>

text \<open>If \<open>pp\<close> applied to \<open>v\<close> is zero, and every unit vector is some polynomial applied
  to \<open>v\<close>, then \<open>pp\<close> applied to any state is zero.\<close>

lemma annihilate_all:
  assumes seed: "poly_apply pp v = zero_state"
    and units: "\<And>j. j < 256 \<Longrightarrow>
      \<exists>u q. (\<forall>i. bit_at u i = (i = j)) \<and> state_of_bits u = poly_apply q v"
  shows "poly_apply pp s = zero_state"
proof -
  define l where "l = bits_of_state s"
  have unit0: "poly_apply pp (state_of_bits u) = zero_state"
    if "j < 256" "\<forall>i. bit_at u i = (i = j)" for u j
  proof -
    from units [OF that(1)] obtain u' q where u': "\<forall>i. bit_at u' i = (i = j)"
      and q: "state_of_bits u' = poly_apply q v" by blast
    have "state_of_bits u = state_of_bits u'"
      by (rule state_of_bits_cong) (simp add: that(2) u')
    then show ?thesis
      by (simp add: q poly_apply_commute [of pp q] seed)
  qed
  have pre: "k \<le> 256 \<Longrightarrow> poly_apply pp (state_of_bits (take k l)) = zero_state" for k
  proof (induction k)
    case 0
    then show ?case by (simp add: state_of_bits_zero)
  next
    case (Suc k)
    then have k: "k < 256" by simp
    show ?case
    proof (cases "bit_at l k")
      case False
      have "state_of_bits (take (Suc k) l) = state_of_bits (take k l)"
        by (rule state_of_bits_cong) (use False in \<open>auto simp: bit_at_take less_Suc_eq\<close>)
      with Suc show ?thesis by simp
    next
      case True
      from units [OF k] obtain u q where u: "\<forall>i. bit_at u i = (i = k)"
        and q: "state_of_bits u = poly_apply q v" by blast
      have "state_of_bits (take (Suc k) l) = state_of_bits (bxor (take k l) u)"
        by (rule state_of_bits_cong)
          (use True u in \<open>auto simp: bit_at_take bit_at_bxor less_Suc_eq\<close>)
      then show ?thesis
        using Suc unit0 [OF k u] by (simp add: state_of_bits_bxor poly_apply_xor)
    qed
  qed
  have "length l = 256" by (simp add: l_def bits_of_state_def)
  with pre [of 256] show ?thesis
    by (simp add: l_def state_of_bits_of_state)
qed

lemma annihilate_from_tables:
  assumes z: "all_zero zero_vec"
    and k: "chain_to tstep_num krylov_at_0 krylov_tail kn" "length krylov_tail = 256"
    and seed: "select_xor charpoly krylov zero_vec = zero_vec"
    and len: "length (dec charpoly) = 257"
    and certs: "cert_check krylov zero_vec 0 certs" "length certs = 256"
  shows "poly_apply (dec charpoly) s = zero_state"
proof (rule annihilate_all)
  show "poly_apply (dec charpoly) (state_of_bits (dec krylov_at_0)) = zero_state"
    using select_krylov [OF k(1) z, of charpoly]
    by (simp add: seed krylov_def [symmetric] k(2) len all_zero_state [OF z])
next
  fix j :: nat
  assume j: "j < 256"
  define u where "u = select_xor (certs ! j) krylov zero_vec"
  have "is_unit j u"
    using cert_check_nth [OF certs(1), of j] j by (simp add: certs(2) u_def)
  then have "\<forall>i. bit_at (dec u) i = (i = j)"
    by (simp add: is_unit_bit_at)
  moreover have "state_of_bits (dec u)
      = poly_apply (take (Suc (length krylov_tail)) (dec (certs ! j)))
          (state_of_bits (dec krylov_at_0))"
    unfolding u_def krylov_def by (rule select_krylov [OF k(1) z])
  ultimately show "\<exists>u q. (\<forall>i. bit_at u i = (i = j))
      \<and> state_of_bits u = poly_apply q (state_of_bits (dec krylov_at_0))"
    by blast
qed

section \<open>Multiplying by \<open>x\<close> and squaring, modulo the characteristic polynomial\<close>

lemma dec_mulx_num: "dec (mulx_num p) = mulx (dec p)"
proof (cases "top_bit p")
  case True
  then have "dec p \<noteq> [] \<and> last (dec p)"
    by (simp add: top_bit_last)
  with True show ?thesis
    by (simp add: mulx_num_def mulx_def dec_num_xor dec_drop_top)
next
  case False
  then have "\<not> (dec p \<noteq> [] \<and> last (dec p))"
    by (simp add: top_bit_last)
  with False show ?thesis
    by (auto simp: mulx_num_def mulx_def dec_drop_top)
qed

lemma mulx_apply:
  assumes ann: "\<And>s. poly_apply (dec charpoly) s = zero_state"
    and cp: "dec charpoly = dec charpoly_low @ [True]" "length (dec charpoly_low) = 256"
    and p: "length p = 256"
  shows "poly_apply (mulx p) s = transition (poly_apply p s)" and "length (mulx p) = 256"
proof -
  from p have ne: "p \<noteq> []" by auto
  then have split: "p = butlast p @ [last p]" by simp
  have lb: "length (butlast p) = 255" using p by simp
  have top: "(transition ^^ 256) s = poly_apply (dec charpoly_low) s"
    using ann [of s] unfolding cp(1) poly_apply_snoc
    by (simp add: cp(2)) (metis xor_state_self(2) xor_state_zero(2))
  have "poly_apply (False # p) s
      = xor_state (poly_apply (False # butlast p) s)
          (if last p then (transition ^^ 256) s else zero_state)"
    using poly_apply_snoc [of "False # butlast p" "last p" s] split lb by simp
  then have "poly_apply (mulx p) s = poly_apply (False # p) s"
    by (simp add: mulx_def ne top poly_apply_bxor del: poly_apply.simps)
  then show "poly_apply (mulx p) s = transition (poly_apply p s)"
    by (simp add: poly_apply_transition)
  show "length (mulx p) = 256"
    using lb by (simp add: mulx_def cp(2))
qed

lemma mulx2_funpow:
  assumes ann: "\<And>s. poly_apply (dec charpoly) s = zero_state"
    and cp: "dec charpoly = dec charpoly_low @ [True]" "length (dec charpoly_low) = 256"
    and x0: "is_unit 0 x0" "length (dec x0) = 256"
  shows "poly_apply (dec ((mulx2_num ^^ i) x0)) s = (transition ^^ (2 * i)) s
    \<and> length (dec ((mulx2_num ^^ i) x0)) = 256"
proof (induction i arbitrary: s)
  case 0
  then show ?case using x0 by (simp add: is_unit_apply)
next
  case (Suc i)
  let ?p = "dec ((mulx2_num ^^ i) x0)"
  have l1: "length (mulx ?p) = 256"
    using mulx_apply(2) [OF ann cp] Suc by blast
  have l2: "length (mulx (mulx ?p)) = 256"
    using mulx_apply(2) [OF ann cp l1] .
  have "poly_apply (mulx (mulx ?p)) s = transition (transition (poly_apply ?p s))"
    using mulx_apply(1) [OF ann cp l1] mulx_apply(1) [OF ann cp] Suc by simp
  moreover have "dec ((mulx2_num ^^ Suc i) x0) = mulx (mulx ?p)"
    by (simp add: mulx2_num_def [of "(mulx2_num ^^ i) x0"] dec_mulx_num)
  ultimately show ?case
    using l2 Suc by simp
qed

lemma poly_square_apply:
  assumes ann: "\<And>s. poly_apply (dec charpoly) s = zero_state"
    and cp: "dec charpoly = dec charpoly_low @ [True]" "length (dec charpoly_low) = 256"
    and x0: "is_unit 0 squares_at_0" "length (dec squares_at_0) = 256"
    and sq: "chain_to mulx2_num squares_at_0 squares_tail sn" "length squares_tail = 255"
    and z: "all_zero zero_vec" "length (dec zero_vec) = 256"
    and r: "length (dec r) = 256"
  shows "poly_apply (dec (poly_square r)) s = poly_apply (dec r) (poly_apply (dec r) s)"
    and "length (dec (poly_square r)) = 256"
proof -
  have nth: "squares ! i = (mulx2_num ^^ i) squares_at_0" if "i < 256" for i
  proof (cases i)
    case 0
    then show ?thesis by (simp add: squares_def)
  next
    case (Suc j)
    with that chain_to_nth [OF sq(1), of j] show ?thesis
      by (simp add: squares_def sq(2))
  qed
  have len: "length squares = 256" by (simp add: squares_def sq(2))
  have ent: "poly_apply (dec (squares ! i)) s = (transition ^^ (2 * i)) s
      \<and> length (dec (squares ! i)) = 256" if "i < 256" for i s
    using mulx2_funpow [OF ann cp x0, of i s] nth [OF that] by simp
  have "\<forall>t \<in> set squares. length (dec t) = 256"
    using ent len by (auto simp: in_set_conv_nth)
  then show "length (dec (poly_square r)) = 256"
    unfolding poly_square_def poly_square_with_def by (intro length_select_xor z(2))
  have m: "map (\<lambda>t. poly_apply (dec t) s) squares
      = map (\<lambda>i. (transition ^^ (2 * i)) s) [0..<256]"
    by (rule nth_equalityI) (simp_all add: len ent)
  have "poly_apply (dec (poly_square r)) s
      = select_sum (dec r) (map (\<lambda>t. poly_apply (dec t) s) squares)"
    unfolding poly_square_def poly_square_with_def
    using select_xor_sum [of "\<lambda>p. poly_apply p s" r squares zero_vec]
    by (simp add: poly_apply_bxor all_zero_apply [OF z(1)])
  also have "\<dots> = sq_apply (dec r) s"
    unfolding m by (rule sq_apply_select [symmetric]) (simp add: r)
  finally show "poly_apply (dec (poly_square r)) s = poly_apply (dec r) (poly_apply (dec r) s)"
    by (simp add: poly_apply_square)
qed

lemma poly_square_funpow:
  assumes sq: "\<And>r s. length (dec r) = 256 \<Longrightarrow>
      poly_apply (dec (poly_square r)) s = poly_apply (dec r) (poly_apply (dec r) s)
      \<and> length (dec (poly_square r)) = 256"
    and x: "is_unit 1 x" "length (dec x) = 256"
  shows "poly_apply (dec ((poly_square ^^ k) x)) s = (transition ^^ (2 ^ k)) s
    \<and> length (dec ((poly_square ^^ k) x)) = 256"
proof (induction k arbitrary: s)
  case 0
  then show ?case using x by (simp add: is_unit_apply)
next
  case (Suc k)
  have "(transition ^^ (2 ^ Suc k)) s = (transition ^^ (2 ^ k)) ((transition ^^ (2 ^ k)) s)"
    by (simp add: funpow_add mult_2)
  with Suc sq [of "(poly_square ^^ k) x"] show ?case
    by simp
qed

section \<open>Checking the tables\<close>

subsection \<open>The zero vector and the characteristic polynomial\<close>

lemma zero_vec_zero:
  "all_zero zero_vec"
  by (simp add: zero_vec_def)

lemma zero_vec_length:
  "length (dec zero_vec) = 256"
  by (simp add: zero_vec_def)

lemma charpoly_split:
  "dec charpoly = dec charpoly_low @ [True]"
  by (simp add: charpoly_def charpoly_low_def)

lemma charpoly_low_length:
  "length (dec charpoly_low) = 256"
  by (simp add: charpoly_low_def)

lemma charpoly_length:
  "length (dec charpoly) = 257"
  by (simp add: charpoly_split charpoly_low_length)

subsection \<open>The states reached from (1,0,0,0)\<close>

lemma krylov_tail_0_chain:
  "chain_to tstep_num krylov_at_0 krylov_tail_0 krylov_at_32"
  by (simp only: simp_thms num_of_nat_numeral_eq list.map append.simps chain_to.simps num_xor.simps
      tstep_num_def tstep1_def tstep2_def tstep3_def tstep4_def ruler17_def ruler19_def
      ruler47_def ruler64_def ntake.simps ndrop.simps napp.simps krylov_at_0_def
      krylov_at_32_def krylov_tail_0_def)

lemma krylov_tail_0_length:
  "length krylov_tail_0 = 32"
  by (simp add: krylov_tail_0_def)

lemma krylov_tail_1_chain:
  "chain_to tstep_num krylov_at_32 krylov_tail_1 krylov_at_64"
  by (simp only: simp_thms num_of_nat_numeral_eq list.map append.simps chain_to.simps num_xor.simps
      tstep_num_def tstep1_def tstep2_def tstep3_def tstep4_def ruler17_def ruler19_def
      ruler47_def ruler64_def ntake.simps ndrop.simps napp.simps krylov_at_32_def
      krylov_at_64_def krylov_tail_1_def)

lemma krylov_tail_1_length:
  "length krylov_tail_1 = 32"
  by (simp add: krylov_tail_1_def)

lemma krylov_tail_2_chain:
  "chain_to tstep_num krylov_at_64 krylov_tail_2 krylov_at_96"
  by (simp only: simp_thms num_of_nat_numeral_eq list.map append.simps chain_to.simps num_xor.simps
      tstep_num_def tstep1_def tstep2_def tstep3_def tstep4_def ruler17_def ruler19_def
      ruler47_def ruler64_def ntake.simps ndrop.simps napp.simps krylov_at_64_def
      krylov_at_96_def krylov_tail_2_def)

lemma krylov_tail_2_length:
  "length krylov_tail_2 = 32"
  by (simp add: krylov_tail_2_def)

lemma krylov_tail_3_chain:
  "chain_to tstep_num krylov_at_96 krylov_tail_3 krylov_at_128"
  by (simp only: simp_thms num_of_nat_numeral_eq list.map append.simps chain_to.simps num_xor.simps
      tstep_num_def tstep1_def tstep2_def tstep3_def tstep4_def ruler17_def ruler19_def
      ruler47_def ruler64_def ntake.simps ndrop.simps napp.simps krylov_at_96_def
      krylov_at_128_def krylov_tail_3_def)

lemma krylov_tail_3_length:
  "length krylov_tail_3 = 32"
  by (simp add: krylov_tail_3_def)

lemma krylov_tail_4_chain:
  "chain_to tstep_num krylov_at_128 krylov_tail_4 krylov_at_160"
  by (simp only: simp_thms num_of_nat_numeral_eq list.map append.simps chain_to.simps num_xor.simps
      tstep_num_def tstep1_def tstep2_def tstep3_def tstep4_def ruler17_def ruler19_def
      ruler47_def ruler64_def ntake.simps ndrop.simps napp.simps krylov_at_128_def
      krylov_at_160_def krylov_tail_4_def)

lemma krylov_tail_4_length:
  "length krylov_tail_4 = 32"
  by (simp add: krylov_tail_4_def)

lemma krylov_tail_5_chain:
  "chain_to tstep_num krylov_at_160 krylov_tail_5 krylov_at_192"
  by (simp only: simp_thms num_of_nat_numeral_eq list.map append.simps chain_to.simps num_xor.simps
      tstep_num_def tstep1_def tstep2_def tstep3_def tstep4_def ruler17_def ruler19_def
      ruler47_def ruler64_def ntake.simps ndrop.simps napp.simps krylov_at_160_def
      krylov_at_192_def krylov_tail_5_def)

lemma krylov_tail_5_length:
  "length krylov_tail_5 = 32"
  by (simp add: krylov_tail_5_def)

lemma krylov_tail_6_chain:
  "chain_to tstep_num krylov_at_192 krylov_tail_6 krylov_at_224"
  by (simp only: simp_thms num_of_nat_numeral_eq list.map append.simps chain_to.simps num_xor.simps
      tstep_num_def tstep1_def tstep2_def tstep3_def tstep4_def ruler17_def ruler19_def
      ruler47_def ruler64_def ntake.simps ndrop.simps napp.simps krylov_at_192_def
      krylov_at_224_def krylov_tail_6_def)

lemma krylov_tail_6_length:
  "length krylov_tail_6 = 32"
  by (simp add: krylov_tail_6_def)

lemma krylov_tail_7_chain:
  "chain_to tstep_num krylov_at_224 krylov_tail_7 krylov_at_256"
  by (simp only: simp_thms num_of_nat_numeral_eq list.map append.simps chain_to.simps num_xor.simps
      tstep_num_def tstep1_def tstep2_def tstep3_def tstep4_def ruler17_def ruler19_def
      ruler47_def ruler64_def ntake.simps ndrop.simps napp.simps krylov_at_224_def
      krylov_at_256_def krylov_tail_7_def)

lemma krylov_tail_7_length:
  "length krylov_tail_7 = 32"
  by (simp add: krylov_tail_7_def)

lemma krylov_chain:
  "chain_to tstep_num krylov_at_0 krylov_tail krylov_at_256"
  unfolding krylov_tail_def
  by (rule chain_to_link [OF krylov_tail_0_chain chain_to_link [OF krylov_tail_1_chain chain_to_link [OF krylov_tail_2_chain chain_to_link [OF krylov_tail_3_chain chain_to_link [OF krylov_tail_4_chain chain_to_link [OF krylov_tail_5_chain chain_to_link [OF krylov_tail_6_chain krylov_tail_7_chain]]]]]]])

lemma krylov_tail_length:
  "length krylov_tail = 256"
  by (simp add: krylov_tail_def krylov_tail_0_length krylov_tail_1_length krylov_tail_2_length krylov_tail_3_length
      krylov_tail_4_length krylov_tail_5_length krylov_tail_6_length krylov_tail_7_length)

subsection \<open>The characteristic polynomial annihilates (1,0,0,0)\<close>

lemma seed_annihilated:
  "select_xor charpoly krylov zero_vec = zero_vec"
  by (simp only: simp_thms num_of_nat_numeral_eq list.map append.simps chain_to.simps num_xor.simps
      charpoly_def krylov_def krylov_tail_def krylov_at_0_def zero_vec_def select_xor.simps
      krylov_tail_0_def krylov_tail_1_def krylov_tail_2_def krylov_tail_3_def
      krylov_tail_4_def krylov_tail_5_def krylov_tail_6_def krylov_tail_7_def)

subsection \<open>Every unit vector is a combination of those states\<close>

lemma certs_0_ok:
  "cert_check krylov zero_vec 0 certs_0"
  by (simp only: simp_thms num_of_nat_numeral_eq list.map append.simps chain_to.simps num_xor.simps
      krylov_def krylov_tail_def krylov_at_0_def zero_vec_def select_xor.simps
      krylov_tail_0_def krylov_tail_1_def krylov_tail_2_def krylov_tail_3_def
      krylov_tail_4_def krylov_tail_5_def krylov_tail_6_def krylov_tail_7_def
      cert_check.simps is_unit.simps is_unit_numeral all_zero.simps pred_numeral_simps
      BitM.simps Suc_numeral Num.add_One inc.simps certs_0_def)

lemma certs_0_length:
  "length certs_0 = 32"
  by (simp add: certs_0_def)

lemma certs_1_ok:
  "cert_check krylov zero_vec 32 certs_1"
  by (simp only: simp_thms num_of_nat_numeral_eq list.map append.simps chain_to.simps num_xor.simps
      krylov_def krylov_tail_def krylov_at_0_def zero_vec_def select_xor.simps
      krylov_tail_0_def krylov_tail_1_def krylov_tail_2_def krylov_tail_3_def
      krylov_tail_4_def krylov_tail_5_def krylov_tail_6_def krylov_tail_7_def
      cert_check.simps is_unit.simps is_unit_numeral all_zero.simps pred_numeral_simps
      BitM.simps Suc_numeral Num.add_One inc.simps certs_1_def)

lemma certs_1_length:
  "length certs_1 = 32"
  by (simp add: certs_1_def)

lemma certs_2_ok:
  "cert_check krylov zero_vec 64 certs_2"
  by (simp only: simp_thms num_of_nat_numeral_eq list.map append.simps chain_to.simps num_xor.simps
      krylov_def krylov_tail_def krylov_at_0_def zero_vec_def select_xor.simps
      krylov_tail_0_def krylov_tail_1_def krylov_tail_2_def krylov_tail_3_def
      krylov_tail_4_def krylov_tail_5_def krylov_tail_6_def krylov_tail_7_def
      cert_check.simps is_unit.simps is_unit_numeral all_zero.simps pred_numeral_simps
      BitM.simps Suc_numeral Num.add_One inc.simps certs_2_def)

lemma certs_2_length:
  "length certs_2 = 32"
  by (simp add: certs_2_def)

lemma certs_3_ok:
  "cert_check krylov zero_vec 96 certs_3"
  by (simp only: simp_thms num_of_nat_numeral_eq list.map append.simps chain_to.simps num_xor.simps
      krylov_def krylov_tail_def krylov_at_0_def zero_vec_def select_xor.simps
      krylov_tail_0_def krylov_tail_1_def krylov_tail_2_def krylov_tail_3_def
      krylov_tail_4_def krylov_tail_5_def krylov_tail_6_def krylov_tail_7_def
      cert_check.simps is_unit.simps is_unit_numeral all_zero.simps pred_numeral_simps
      BitM.simps Suc_numeral Num.add_One inc.simps certs_3_def)

lemma certs_3_length:
  "length certs_3 = 32"
  by (simp add: certs_3_def)

lemma certs_4_ok:
  "cert_check krylov zero_vec 128 certs_4"
  by (simp only: simp_thms num_of_nat_numeral_eq list.map append.simps chain_to.simps num_xor.simps
      krylov_def krylov_tail_def krylov_at_0_def zero_vec_def select_xor.simps
      krylov_tail_0_def krylov_tail_1_def krylov_tail_2_def krylov_tail_3_def
      krylov_tail_4_def krylov_tail_5_def krylov_tail_6_def krylov_tail_7_def
      cert_check.simps is_unit.simps is_unit_numeral all_zero.simps pred_numeral_simps
      BitM.simps Suc_numeral Num.add_One inc.simps certs_4_def)

lemma certs_4_length:
  "length certs_4 = 32"
  by (simp add: certs_4_def)

lemma certs_5_ok:
  "cert_check krylov zero_vec 160 certs_5"
  by (simp only: simp_thms num_of_nat_numeral_eq list.map append.simps chain_to.simps num_xor.simps
      krylov_def krylov_tail_def krylov_at_0_def zero_vec_def select_xor.simps
      krylov_tail_0_def krylov_tail_1_def krylov_tail_2_def krylov_tail_3_def
      krylov_tail_4_def krylov_tail_5_def krylov_tail_6_def krylov_tail_7_def
      cert_check.simps is_unit.simps is_unit_numeral all_zero.simps pred_numeral_simps
      BitM.simps Suc_numeral Num.add_One inc.simps certs_5_def)

lemma certs_5_length:
  "length certs_5 = 32"
  by (simp add: certs_5_def)

lemma certs_6_ok:
  "cert_check krylov zero_vec 192 certs_6"
  by (simp only: simp_thms num_of_nat_numeral_eq list.map append.simps chain_to.simps num_xor.simps
      krylov_def krylov_tail_def krylov_at_0_def zero_vec_def select_xor.simps
      krylov_tail_0_def krylov_tail_1_def krylov_tail_2_def krylov_tail_3_def
      krylov_tail_4_def krylov_tail_5_def krylov_tail_6_def krylov_tail_7_def
      cert_check.simps is_unit.simps is_unit_numeral all_zero.simps pred_numeral_simps
      BitM.simps Suc_numeral Num.add_One inc.simps certs_6_def)

lemma certs_6_length:
  "length certs_6 = 32"
  by (simp add: certs_6_def)

lemma certs_7_ok:
  "cert_check krylov zero_vec 224 certs_7"
  by (simp only: simp_thms num_of_nat_numeral_eq list.map append.simps chain_to.simps num_xor.simps
      krylov_def krylov_tail_def krylov_at_0_def zero_vec_def select_xor.simps
      krylov_tail_0_def krylov_tail_1_def krylov_tail_2_def krylov_tail_3_def
      krylov_tail_4_def krylov_tail_5_def krylov_tail_6_def krylov_tail_7_def
      cert_check.simps is_unit.simps is_unit_numeral all_zero.simps pred_numeral_simps
      BitM.simps Suc_numeral Num.add_One inc.simps certs_7_def)

lemma certs_7_length:
  "length certs_7 = 32"
  by (simp add: certs_7_def)

lemma certs_ok:
  "cert_check krylov zero_vec 0 certs"
  by (simp add: certs_def cert_check_append
      certs_0_ok certs_0_length certs_1_ok certs_1_length certs_2_ok certs_2_length
      certs_3_ok certs_3_length certs_4_ok certs_4_length certs_5_ok certs_5_length
      certs_6_ok certs_6_length certs_7_ok certs_7_length)

lemma certs_length:
  "length certs = 256"
  by (simp add: certs_def certs_0_length certs_1_length certs_2_length certs_3_length certs_4_length
      certs_5_length certs_6_length certs_7_length)

subsection \<open>The even powers of x, reduced\<close>

lemma squares_at_0_unit:
  "is_unit 0 squares_at_0"
  by (simp add: squares_at_0_def)

lemma squares_at_0_length:
  "length (dec squares_at_0) = 256"
  by (simp add: squares_at_0_def)

lemma squares_tail_0_chain:
  "chain_to mulx2_num squares_at_0 squares_tail_0 squares_at_32"
  by (simp only: simp_thms num_of_nat_numeral_eq list.map append.simps chain_to.simps num_xor.simps
      mulx2_num_def mulx_num_def mulx_reduce.simps top_bit.simps drop_top.simps
      charpoly_low_def squares_at_0_def squares_at_32_def squares_tail_0_def)

lemma squares_tail_0_length:
  "length squares_tail_0 = 32"
  by (simp add: squares_tail_0_def)

lemma squares_tail_1_chain:
  "chain_to mulx2_num squares_at_32 squares_tail_1 squares_at_64"
  by (simp only: simp_thms num_of_nat_numeral_eq list.map append.simps chain_to.simps num_xor.simps
      mulx2_num_def mulx_num_def mulx_reduce.simps top_bit.simps drop_top.simps
      charpoly_low_def squares_at_32_def squares_at_64_def squares_tail_1_def)

lemma squares_tail_1_length:
  "length squares_tail_1 = 32"
  by (simp add: squares_tail_1_def)

lemma squares_tail_2_chain:
  "chain_to mulx2_num squares_at_64 squares_tail_2 squares_at_96"
  by (simp only: simp_thms num_of_nat_numeral_eq list.map append.simps chain_to.simps num_xor.simps
      mulx2_num_def mulx_num_def mulx_reduce.simps top_bit.simps drop_top.simps
      charpoly_low_def squares_at_64_def squares_at_96_def squares_tail_2_def)

lemma squares_tail_2_length:
  "length squares_tail_2 = 32"
  by (simp add: squares_tail_2_def)

lemma squares_tail_3_chain:
  "chain_to mulx2_num squares_at_96 squares_tail_3 squares_at_128"
  by (simp only: simp_thms num_of_nat_numeral_eq list.map append.simps chain_to.simps num_xor.simps
      mulx2_num_def mulx_num_def mulx_reduce.simps top_bit.simps drop_top.simps
      charpoly_low_def squares_at_96_def squares_at_128_def squares_tail_3_def)

lemma squares_tail_3_length:
  "length squares_tail_3 = 32"
  by (simp add: squares_tail_3_def)

lemma squares_tail_4_chain:
  "chain_to mulx2_num squares_at_128 squares_tail_4 squares_at_160"
  by (simp only: simp_thms num_of_nat_numeral_eq list.map append.simps chain_to.simps num_xor.simps
      mulx2_num_def mulx_num_def mulx_reduce.simps top_bit.simps drop_top.simps
      charpoly_low_def squares_at_128_def squares_at_160_def squares_tail_4_def)

lemma squares_tail_4_length:
  "length squares_tail_4 = 32"
  by (simp add: squares_tail_4_def)

lemma squares_tail_5_chain:
  "chain_to mulx2_num squares_at_160 squares_tail_5 squares_at_192"
  by (simp only: simp_thms num_of_nat_numeral_eq list.map append.simps chain_to.simps num_xor.simps
      mulx2_num_def mulx_num_def mulx_reduce.simps top_bit.simps drop_top.simps
      charpoly_low_def squares_at_160_def squares_at_192_def squares_tail_5_def)

lemma squares_tail_5_length:
  "length squares_tail_5 = 32"
  by (simp add: squares_tail_5_def)

lemma squares_tail_6_chain:
  "chain_to mulx2_num squares_at_192 squares_tail_6 squares_at_224"
  by (simp only: simp_thms num_of_nat_numeral_eq list.map append.simps chain_to.simps num_xor.simps
      mulx2_num_def mulx_num_def mulx_reduce.simps top_bit.simps drop_top.simps
      charpoly_low_def squares_at_192_def squares_at_224_def squares_tail_6_def)

lemma squares_tail_6_length:
  "length squares_tail_6 = 32"
  by (simp add: squares_tail_6_def)

lemma squares_tail_7_chain:
  "chain_to mulx2_num squares_at_224 squares_tail_7 squares_at_255"
  by (simp only: simp_thms num_of_nat_numeral_eq list.map append.simps chain_to.simps num_xor.simps
      mulx2_num_def mulx_num_def mulx_reduce.simps top_bit.simps drop_top.simps
      charpoly_low_def squares_at_224_def squares_at_255_def squares_tail_7_def)

lemma squares_tail_7_length:
  "length squares_tail_7 = 31"
  by (simp add: squares_tail_7_def)

lemma squares_chain:
  "chain_to mulx2_num squares_at_0 squares_tail squares_at_255"
  unfolding squares_tail_def
  by (rule chain_to_link [OF squares_tail_0_chain chain_to_link [OF squares_tail_1_chain chain_to_link [OF squares_tail_2_chain chain_to_link [OF squares_tail_3_chain chain_to_link [OF squares_tail_4_chain chain_to_link [OF squares_tail_5_chain chain_to_link [OF squares_tail_6_chain squares_tail_7_chain]]]]]]])

lemma squares_tail_length:
  "length squares_tail = 255"
  by (simp add: squares_tail_def squares_tail_0_length squares_tail_1_length squares_tail_2_length
      squares_tail_3_length squares_tail_4_length squares_tail_5_length
      squares_tail_6_length squares_tail_7_length)

subsection \<open>The powers x^(2^k), reduced\<close>

lemma power_at_0_unit:
  "is_unit 1 power_at_0"
  by (simp add: power_at_0_def)

lemma power_at_0_length:
  "length (dec power_at_0) = 256"
  by (simp add: power_at_0_def)

lemma power_tail_0_chain:
  "chain_to (poly_square_with squares zero_vec) power_at_0 power_tail_0 power_at_16"
  by (simp only: simp_thms num_of_nat_numeral_eq list.map append.simps chain_to.simps num_xor.simps
      poly_square_with_def squares_def squares_tail_def squares_at_0_def zero_vec_def
      select_xor.simps squares_tail_0_def squares_tail_1_def squares_tail_2_def
      squares_tail_3_def squares_tail_4_def squares_tail_5_def squares_tail_6_def
      squares_tail_7_def power_at_0_def power_at_16_def power_tail_0_def)

lemma power_tail_0_length:
  "length power_tail_0 = 16"
  by (simp add: power_tail_0_def)

lemma power_tail_1_chain:
  "chain_to (poly_square_with squares zero_vec) power_at_16 power_tail_1 power_at_32"
  by (simp only: simp_thms num_of_nat_numeral_eq list.map append.simps chain_to.simps num_xor.simps
      poly_square_with_def squares_def squares_tail_def squares_at_0_def zero_vec_def
      select_xor.simps squares_tail_0_def squares_tail_1_def squares_tail_2_def
      squares_tail_3_def squares_tail_4_def squares_tail_5_def squares_tail_6_def
      squares_tail_7_def power_at_16_def power_at_32_def power_tail_1_def)

lemma power_tail_1_length:
  "length power_tail_1 = 16"
  by (simp add: power_tail_1_def)

lemma power_tail_2_chain:
  "chain_to (poly_square_with squares zero_vec) power_at_32 power_tail_2 power_at_48"
  by (simp only: simp_thms num_of_nat_numeral_eq list.map append.simps chain_to.simps num_xor.simps
      poly_square_with_def squares_def squares_tail_def squares_at_0_def zero_vec_def
      select_xor.simps squares_tail_0_def squares_tail_1_def squares_tail_2_def
      squares_tail_3_def squares_tail_4_def squares_tail_5_def squares_tail_6_def
      squares_tail_7_def power_at_32_def power_at_48_def power_tail_2_def)

lemma power_tail_2_length:
  "length power_tail_2 = 16"
  by (simp add: power_tail_2_def)

lemma power_tail_3_chain:
  "chain_to (poly_square_with squares zero_vec) power_at_48 power_tail_3 power_at_64"
  by (simp only: simp_thms num_of_nat_numeral_eq list.map append.simps chain_to.simps num_xor.simps
      poly_square_with_def squares_def squares_tail_def squares_at_0_def zero_vec_def
      select_xor.simps squares_tail_0_def squares_tail_1_def squares_tail_2_def
      squares_tail_3_def squares_tail_4_def squares_tail_5_def squares_tail_6_def
      squares_tail_7_def power_at_48_def power_at_64_def power_tail_3_def)

lemma power_tail_3_length:
  "length power_tail_3 = 16"
  by (simp add: power_tail_3_def)

lemma power_tail_4_chain:
  "chain_to (poly_square_with squares zero_vec) power_at_64 power_tail_4 power_at_80"
  by (simp only: simp_thms num_of_nat_numeral_eq list.map append.simps chain_to.simps num_xor.simps
      poly_square_with_def squares_def squares_tail_def squares_at_0_def zero_vec_def
      select_xor.simps squares_tail_0_def squares_tail_1_def squares_tail_2_def
      squares_tail_3_def squares_tail_4_def squares_tail_5_def squares_tail_6_def
      squares_tail_7_def power_at_64_def power_at_80_def power_tail_4_def)

lemma power_tail_4_length:
  "length power_tail_4 = 16"
  by (simp add: power_tail_4_def)

lemma power_tail_5_chain:
  "chain_to (poly_square_with squares zero_vec) power_at_80 power_tail_5 power_at_96"
  by (simp only: simp_thms num_of_nat_numeral_eq list.map append.simps chain_to.simps num_xor.simps
      poly_square_with_def squares_def squares_tail_def squares_at_0_def zero_vec_def
      select_xor.simps squares_tail_0_def squares_tail_1_def squares_tail_2_def
      squares_tail_3_def squares_tail_4_def squares_tail_5_def squares_tail_6_def
      squares_tail_7_def power_at_80_def power_at_96_def power_tail_5_def)

lemma power_tail_5_length:
  "length power_tail_5 = 16"
  by (simp add: power_tail_5_def)

lemma power_tail_6_chain:
  "chain_to (poly_square_with squares zero_vec) power_at_96 power_tail_6 power_at_112"
  by (simp only: simp_thms num_of_nat_numeral_eq list.map append.simps chain_to.simps num_xor.simps
      poly_square_with_def squares_def squares_tail_def squares_at_0_def zero_vec_def
      select_xor.simps squares_tail_0_def squares_tail_1_def squares_tail_2_def
      squares_tail_3_def squares_tail_4_def squares_tail_5_def squares_tail_6_def
      squares_tail_7_def power_at_96_def power_at_112_def power_tail_6_def)

lemma power_tail_6_length:
  "length power_tail_6 = 16"
  by (simp add: power_tail_6_def)

lemma power_tail_7_chain:
  "chain_to (poly_square_with squares zero_vec) power_at_112 power_tail_7 power_at_128"
  by (simp only: simp_thms num_of_nat_numeral_eq list.map append.simps chain_to.simps num_xor.simps
      poly_square_with_def squares_def squares_tail_def squares_at_0_def zero_vec_def
      select_xor.simps squares_tail_0_def squares_tail_1_def squares_tail_2_def
      squares_tail_3_def squares_tail_4_def squares_tail_5_def squares_tail_6_def
      squares_tail_7_def power_at_112_def power_at_128_def power_tail_7_def)

lemma power_tail_7_length:
  "length power_tail_7 = 16"
  by (simp add: power_tail_7_def)

lemma power_tail_8_chain:
  "chain_to (poly_square_with squares zero_vec) power_at_128 power_tail_8 power_at_144"
  by (simp only: simp_thms num_of_nat_numeral_eq list.map append.simps chain_to.simps num_xor.simps
      poly_square_with_def squares_def squares_tail_def squares_at_0_def zero_vec_def
      select_xor.simps squares_tail_0_def squares_tail_1_def squares_tail_2_def
      squares_tail_3_def squares_tail_4_def squares_tail_5_def squares_tail_6_def
      squares_tail_7_def power_at_128_def power_at_144_def power_tail_8_def)

lemma power_tail_8_length:
  "length power_tail_8 = 16"
  by (simp add: power_tail_8_def)

lemma power_tail_9_chain:
  "chain_to (poly_square_with squares zero_vec) power_at_144 power_tail_9 power_at_160"
  by (simp only: simp_thms num_of_nat_numeral_eq list.map append.simps chain_to.simps num_xor.simps
      poly_square_with_def squares_def squares_tail_def squares_at_0_def zero_vec_def
      select_xor.simps squares_tail_0_def squares_tail_1_def squares_tail_2_def
      squares_tail_3_def squares_tail_4_def squares_tail_5_def squares_tail_6_def
      squares_tail_7_def power_at_144_def power_at_160_def power_tail_9_def)

lemma power_tail_9_length:
  "length power_tail_9 = 16"
  by (simp add: power_tail_9_def)

lemma power_tail_10_chain:
  "chain_to (poly_square_with squares zero_vec) power_at_160 power_tail_10 power_at_176"
  by (simp only: simp_thms num_of_nat_numeral_eq list.map append.simps chain_to.simps num_xor.simps
      poly_square_with_def squares_def squares_tail_def squares_at_0_def zero_vec_def
      select_xor.simps squares_tail_0_def squares_tail_1_def squares_tail_2_def
      squares_tail_3_def squares_tail_4_def squares_tail_5_def squares_tail_6_def
      squares_tail_7_def power_at_160_def power_at_176_def power_tail_10_def)

lemma power_tail_10_length:
  "length power_tail_10 = 16"
  by (simp add: power_tail_10_def)

lemma power_tail_11_chain:
  "chain_to (poly_square_with squares zero_vec) power_at_176 power_tail_11 power_at_192"
  by (simp only: simp_thms num_of_nat_numeral_eq list.map append.simps chain_to.simps num_xor.simps
      poly_square_with_def squares_def squares_tail_def squares_at_0_def zero_vec_def
      select_xor.simps squares_tail_0_def squares_tail_1_def squares_tail_2_def
      squares_tail_3_def squares_tail_4_def squares_tail_5_def squares_tail_6_def
      squares_tail_7_def power_at_176_def power_at_192_def power_tail_11_def)

lemma power_tail_11_length:
  "length power_tail_11 = 16"
  by (simp add: power_tail_11_def)

lemma jump_powers_chain:
  "chain_to poly_square power_at_0 jump_powers power_at_128"
  unfolding jump_powers_def poly_square_def
  by (rule chain_to_link [OF power_tail_0_chain chain_to_link [OF power_tail_1_chain chain_to_link [OF power_tail_2_chain chain_to_link [OF power_tail_3_chain chain_to_link [OF power_tail_4_chain chain_to_link [OF power_tail_5_chain chain_to_link [OF power_tail_6_chain power_tail_7_chain]]]]]]])

lemma long_jump_powers_chain:
  "chain_to poly_square power_at_128 long_jump_powers power_at_192"
  unfolding long_jump_powers_def poly_square_def
  by (rule chain_to_link [OF power_tail_8_chain chain_to_link [OF power_tail_9_chain chain_to_link [OF power_tail_10_chain power_tail_11_chain]]])

lemma jump_powers_length:
  "length jump_powers = 128"
  by (simp add: jump_powers_def power_tail_0_length power_tail_1_length power_tail_2_length power_tail_3_length
      power_tail_4_length power_tail_5_length power_tail_6_length power_tail_7_length)

lemma long_jump_powers_length:
  "length long_jump_powers = 64"
  by (simp add: long_jump_powers_def power_tail_8_length power_tail_9_length power_tail_10_length power_tail_11_length)

subsection \<open>The jump tables are the powers x^(2^128) and x^(2^192)\<close>

lemma upt_64:
  "[0..<64] = [0, 1, 2, 3, 4, 5, 6, 7, 8, 9, 10, 11, 12, 13, 14, 15, 16, 17, 18, 19, 20,
     21, 22, 23, 24, 25, 26, 27, 28, 29, 30, 31, 32, 33, 34, 35, 36, 37, 38, 39,
     40, 41, 42, 43, 44, 45, 46, 47, 48, 49, 50, 51, 52, 53, 54, 55, 56, 57, 58,
     59, 60, 61, 62, 63]"
  by (simp add: upt_rec)

lemma jump_bits:
  "table_bits JUMP = dec power_at_128"
  by (simp add: table_bits_def JUMP_def upt_64 power_at_128_def)

lemma long_jump_bits:
  "table_bits LONG_JUMP = dec power_at_192"
  by (simp add: table_bits_def LONG_JUMP_def upt_64 power_at_192_def)

section \<open>jump and long\_jump are 2^128 and 2^192 calls\<close>

lemma charpoly_annihilates: "poly_apply (dec charpoly) s = zero_state"
  by (rule annihilate_from_tables [OF zero_vec_zero krylov_chain krylov_tail_length
        seed_annihilated charpoly_length certs_ok certs_length])

lemma poly_square_step:
  "length (dec r) = 256 \<Longrightarrow>
     poly_apply (dec (poly_square r)) s = poly_apply (dec r) (poly_apply (dec r) s)
     \<and> length (dec (poly_square r)) = 256"
  using poly_square_apply [OF charpoly_annihilates charpoly_split charpoly_low_length
      squares_at_0_unit squares_at_0_length squares_chain squares_tail_length
      zero_vec_zero zero_vec_length]
  by blast

lemma power_apply:
  "poly_apply (dec ((poly_square ^^ k) power_at_0)) s = (transition ^^ (2 ^ k)) s"
  using poly_square_funpow [OF poly_square_step power_at_0_unit power_at_0_length] by blast

lemma power_at_128: "power_at_128 = (poly_square ^^ 128) power_at_0"
  using chain_to_last [OF jump_powers_chain] by (simp only: jump_powers_length)

lemma power_at_192: "power_at_192 = (poly_square ^^ 192) power_at_0"
proof -
  have "power_at_192 = (poly_square ^^ 64) power_at_128"
    using chain_to_last [OF long_jump_powers_chain] by (simp only: long_jump_powers_length)
  also have "\<dots> = (poly_square ^^ (64 + 128)) power_at_0"
    by (simp only: power_at_128 funpow_add comp_apply)
  finally show ?thesis by simp
qed

lemma jump_transition: "jump v st = (transition ^^ (2 ^ 128)) st"
  by (simp only: jump_spec spec_jump_poly jump_bits power_at_128 power_apply)

lemma long_jump_transition: "long_jump v st = (transition ^^ (2 ^ 192)) st"
  by (simp only: long_jump_spec spec_jump_poly long_jump_bits power_at_192 power_apply)

text \<open>C5: for every state, \<open>jump\<close> leaves the state that \<open>2^128\<close> consecutive raw
  output calls leave, and \<open>long_jump\<close> the state that \<open>2^192\<close> calls leave.\<close>

theorem jump_equals_iterated_calls:
  "jump v st = (advance v ^^ (2 ^ 128)) st \<and> long_jump v st = (advance v ^^ (2 ^ 192)) st"
  by (simp only: jump_transition long_jump_transition advance_transition simp_thms)

section \<open>A state that is not all-zero stays so\<close>

lemma shift_fixed_zero:
  assumes "w = push_bit 17 (w :: u64)"
  shows "w = 0"
proof (rule bit_word_eqI)
  fix n
  have "\<not> bit w n"
  proof (induction n rule: less_induct)
    case (less n)
    have "bit w n = bit (push_bit 17 w) n"
      using assms by simp
    then have "bit w n \<longleftrightarrow> 17 \<le> n \<and> bit w (n - 17) \<and> n < 64"
      by (auto simp: bit_push_bit_iff dest: bit_imp_le_length)
    with less [of "n - 17"] show ?case
      by auto
  qed
  then show "bit w n = bit (0 :: u64) n"
    by simp
qed

lemma xor_zero_eq:
  assumes "a XOR b = (0 :: u64)"
  shows "a = b"
proof -
  have "a = a XOR (b XOR b)" by simp
  also have "\<dots> = (a XOR b) XOR b" by (simp only: xor.assoc)
  finally show ?thesis by (simp add: assms)
qed

lemma rotl_zero:
  assumes "rotl x 45 = 0"
  shows "x = 0"
proof (rule bit_word_eqI)
  fix n
  assume n: "n < LENGTH(64)"
  have r: "\<not> bit (rotl x 45) m" for m
    by (simp add: assms)
  have "\<not> bit x n"
  proof (cases "n < 19")
    case True
    with r [of "n + 45"] show ?thesis
      by (auto simp: rotl_xor_form bit_simps dest: bit_imp_le_length)
  next
    case False
    with r [of "n - 19"] n show ?thesis
      by (auto simp: rotl_xor_form bit_simps)
  qed
  then show "bit x n = bit (0 :: u64) n"
    by simp
qed

lemma transition_nonzero:
  assumes "st \<noteq> zero_state"
  shows "transition st \<noteq> zero_state"
proof
  assume z: "transition st = zero_state"
  have e3: "rotl (s3 st XOR s1 st) 45 = 0"
    and e0: "s0 st XOR s3 st XOR s1 st = 0"
    and e1: "s1 st XOR s2 st XOR s0 st = 0"
    and e2: "s2 st XOR s0 st XOR push_bit 17 (s1 st) = 0"
    using z unfolding transition_closed zero_state_def by simp_all
  from e3 have x31: "s3 st XOR s1 st = 0"
    by (rule rotl_zero)
  then have s31: "s3 st = s1 st"
    by (rule xor_zero_eq)
  from e0 s31 have s0: "s0 st = 0"
    by (simp add: xor.assoc)
  from e1 s0 have "s2 st XOR s1 st = 0"
    by (simp add: xor.commute)
  then have s21: "s2 st = s1 st"
    by (rule xor_zero_eq)
  from e2 s0 s21 have "s1 st XOR push_bit 17 (s1 st) = 0"
    by simp
  then have "s1 st = push_bit 17 (s1 st)"
    by (rule xor_zero_eq)
  then have s1: "s1 st = 0"
    by (rule shift_fixed_zero)
  have "st = zero_state"
    by (cases st) (use s0 s1 s21 s31 in \<open>simp add: zero_state_def\<close>)
  with assms show False
    by simp
qed

lemma funpow_transition_nonzero: "st \<noteq> zero_state \<Longrightarrow> (transition ^^ n) st \<noteq> zero_state"
  by (induction n) (simp_all add: transition_nonzero)

lemma apply_operation_nonzero: "st \<noteq> zero_state \<Longrightarrow> apply_operation v op st \<noteq> zero_state"
  by (cases op)
    (simp_all only: apply_operation.simps advance_transition jump_transition
      long_jump_transition transition_nonzero funpow_transition_nonzero not_False_eq_True)

lemma run_nonzero: "st \<noteq> zero_state \<Longrightarrow> run v ops st \<noteq> zero_state"
  unfolding run_def
  by (induction ops arbitrary: st) (simp_all add: apply_operation_nonzero)

text \<open>C8: a state that is not all-zero is not all-zero after one raw output call of either
  variant, and so after any sequence of calls, jumps and long jumps.\<close>

theorem nonzero_state_preserved:
  "st \<noteq> zero_state \<Longrightarrow> advance v st \<noteq> zero_state \<and> run v ops st \<noteq> zero_state"
  by (simp add: run_nonzero advance_transition transition_nonzero)

theorem nonzero_state_preserved_witness:
  "\<lparr>s0 = 1, s1 = 0, s2 = 0, s3 = 0\<rparr> \<noteq> zero_state
   \<and> advance SS \<lparr>s0 = 1, s1 = 0, s2 = 0, s3 = 0\<rparr> \<noteq> zero_state
   \<and> run SS [Call, Jump, Long_Jump] \<lparr>s0 = 1, s1 = 0, s2 = 0, s3 = 0\<rparr> \<noteq> zero_state"
proof -
  have h: "\<lparr>s0 = 1, s1 = 0, s2 = 0, s3 = 0\<rparr> \<noteq> zero_state"
    by (simp add: zero_state_def)
  show ?thesis
    using nonzero_state_preserved [OF h, of SS "[Call, Jump, Long_Jump]"] h by simp
qed

end
